(* ===== verification/Prelude.thy ===== *)
theory Prelude
  imports Main
begin

text \<open>
  Shared vocabulary of the development: the Python exceptions the models raise, the values a
  Python dictionary built by \<open>to_dict\<close> holds, Python truthiness of an optional string column,
  and the propagation of an exception through a sequence of statements. The named collection
  \<open>model_simps\<close> gathers the equations that the component theories evaluate with.
\<close>

named_theorems model_simps "equations of the model, used to evaluate operations"

section \<open>Python exceptions as values\<close>

text \<open>
  Every \<open>raise\<close> of the source, and of the libraries it calls, is a value \<open>Inl e\<close> of the
  result type \<open>error + 'a\<close>; \<open>Inr v\<close> is a normal return.
\<close>

datatype error =
    ValueError string
  | AttributeError string
  | TypeError string
  | IntegrityError string
  | FlushError string
  | NoResultFound string
  | OverflowError string
  | OperationalError string
  | UnicodeEncodeError string

type_synonym 'a result = "error + 'a"

text \<open>Sequencing of two statements: an exception in the first skips the second.\<close>

definition then_do :: "'a result \<Rightarrow> ('a \<Rightarrow> 'b result) \<Rightarrow> 'b result" where
  "then_do r f = (case r of Inl e \<Rightarrow> Inl e | Inr v \<Rightarrow> f v)"

lemma then_do_Inl [simp]: "then_do (Inl e) f = Inl e"
  by (simp add: then_do_def)

lemma then_do_Inr [simp]: "then_do (Inr v) f = f v"
  by (simp add: then_do_def)

lemma then_do_eq_Inr:
  "then_do r f = Inr w \<longleftrightarrow> (\<exists>v. r = Inr v \<and> f v = Inr w)"
  by (cases r) (simp_all add: then_do_def)

lemma then_do_unit_Inr: "then_do (m :: unit result) f = Inr v \<longleftrightarrow> m = Inr () \<and> f () = Inr v"
  by (cases m) auto

lemma then_do_eq_Inl:
  "then_do r f = Inl e \<longleftrightarrow> r = Inl e \<or> (\<exists>v. r = Inr v \<and> f v = Inl e)"
  by (cases r) (simp_all add: then_do_def)

section \<open>Python truthiness of a nullable string column\<close>

text \<open>
  A \<open>db.String\<close> attribute holds \<open>None\<close> or a \<open>str\<close>; \<open>not value\<close> is true for
  \<open>None\<close> and for the empty string.
\<close>

fun py_not :: "string option \<Rightarrow> bool" where
  "py_not None = True"
| "py_not (Some s) = (s = [])"

lemma py_not_iff: "py_not v \<longleftrightarrow> v = None \<or> v = Some []"
  by (cases v) auto

lemma not_py_not_iff: "\<not> py_not v \<longleftrightarrow> (\<exists>s. v = Some s \<and> s \<noteq> [])"
  by (cases v) auto

text \<open>\<open>len(value)\<close> on a nullable string column: \<open>len(None)\<close> raises.\<close>

fun py_len :: "string option \<Rightarrow> nat result" where
  "py_len None = Inl (TypeError ''object of type NoneType has no len()'')"
| "py_len (Some s) = Inr (length s)"

section \<open>Values of a dictionary returned by \<open>to_dict\<close>\<close>

text \<open>
  \<open>to_dict\<close> returns a Python \<open>dict\<close> literal: an ordered list of string keys and values,
  values being \<open>None\<close>, an \<open>int\<close>, a \<open>str\<close> or a nested \<open>dict\<close>.
\<close>

datatype pyval =
    PNone
  | PInt int
  | PStr string
  | PDict "(string \<times> pyval) list"

type_synonym pydict = "(string \<times> pyval) list"

fun py_str :: "string option \<Rightarrow> pyval" where
  "py_str None = PNone"
| "py_str (Some s) = PStr s"

fun py_int :: "int option \<Rightarrow> pyval" where
  "py_int None = PNone"
| "py_int (Some i) = PInt i"

text \<open>\<open>d[k]\<close> on a dict literal: the value of the first entry with key \<open>k\<close>.\<close>

abbreviation dict_get :: "pydict \<Rightarrow> string \<Rightarrow> pyval option" where
  "dict_get d k \<equiv> map_of d k"

abbreviation dict_keys :: "pydict \<Rightarrow> string list" where
  "dict_keys d \<equiv> map fst d"

lemma py_str_inj [simp]: "py_str a = py_str b \<longleftrightarrow> a = b"
  by (cases a; cases b) simp_all

lemma py_str_PNone [simp]: "py_str a = PNone \<longleftrightarrow> a = None"
  by (cases a) simp_all

lemma py_int_inj [simp]: "py_int a = py_int b \<longleftrightarrow> a = b"
  by (cases a; cases b) simp_all

lemma py_int_PNone [simp]: "py_int a = PNone \<longleftrightarrow> a = None"
  by (cases a) simp_all

section \<open>Running a list of statements\<close>

text \<open>
  A loop over assignments that stops at the first exception, as SQLAlchemy's declarative
  constructor \<open>for k in kwargs: setattr(self, k, kwargs[k])\<close> does.
\<close>

fun run_all :: "('s \<Rightarrow> 'a \<Rightarrow> 's result) \<Rightarrow> 's \<Rightarrow> 'a list \<Rightarrow> 's result" where
  "run_all f s [] = Inr s"
| "run_all f s (a # as) = then_do (f s a) (\<lambda>s'. run_all f s' as)"

lemma run_all_append:
  "run_all f s (as @ bs) = then_do (run_all f s as) (\<lambda>s'. run_all f s' bs)"
  by (induction as arbitrary: s) (auto simp: then_do_def split: sum.splits)

text \<open>A property kept by every successful step of the run is kept by a successful run.\<close>

lemma run_all_inv:
  assumes step: "\<And>s a s'. a \<in> set as \<Longrightarrow> P s \<Longrightarrow> f s a = Inr s' \<Longrightarrow> P s'"
  shows "P s \<Longrightarrow> run_all f s as = Inr s' \<Longrightarrow> P s'"
  using step
proof (induction as arbitrary: s)
  case Nil
  then show ?case by simp
next
  case (Cons a as)
  then obtain t where t: "f s a = Inr t" and rest: "run_all f t as = Inr s'"
    by (auto simp: then_do_eq_Inr)
  have "P t" using Cons.prems(3) [of a s t] Cons.prems(1) t by simp
  then show ?case using rest Cons.prems(3) by (intro Cons.IH) auto
qed

text \<open>A step that fails makes the whole run fail, whatever came before succeeded.\<close>

lemma run_all_fails:
  assumes fails: "\<And>s. \<exists>e. f s a = Inl e"
  shows "a \<in> set as \<Longrightarrow> \<exists>e. run_all f s as = Inl e"
proof (induction as arbitrary: s)
  case Nil
  then show ?case by simp
next
  case (Cons b as)
  show ?case
  proof (cases "f s b")
    case (Inl e)
    then show ?thesis by simp
  next
    case (Inr t)
    show ?thesis
    proof (cases "b = a")
      case True
      with Inr fails [of s] show ?thesis by simp
    next
      case False
      with Cons.prems have "a \<in> set as" by simp
      then have "\<exists>e. run_all f t as = Inl e" by (rule Cons.IH)
      with Inr show ?thesis by simp
    qed
  qed
qed

lemma list_all_replicate [simp]: "list_all P (replicate n x) \<longleftrightarrow> n = 0 \<or> P x"
  by (auto simp: list_all_iff)

text \<open>Reading a list in key order (\<open>sort_key\<close>) after appending a row with a new key.\<close>

lemma sort_key_snoc:
  "f x \<notin> f ` set xs \<Longrightarrow> sort_key f (xs @ [x]) = insort_key f x (sort_key f xs)"
  by (induction xs) (auto simp: insort_key_left_comm)

lemma map_snd_insort_key:
  assumes "list_all (\<lambda>(i, y). g y = i) ((j, x) # ys)"
  shows "map snd (insort_key fst (j, x) ys) = insort_key g x (map snd ys)"
  using assms by (induction ys) auto

section \<open>First match in a list\<close>

text \<open>\<open>query.filter(...).first()\<close> over a table read as a list: \<open>List.find\<close>.\<close>

lemma find_SomeD: "find P xs = Some x \<Longrightarrow> x \<in> set xs \<and> P x"
  by (induction xs) (auto split: if_splits)

lemma find_Some_unique:
  assumes "x \<in> set xs" "P x" "\<forall>y \<in> set xs. P y \<longrightarrow> y = x"
  shows "find P xs = Some x"
  using assms
proof (induction xs)
  case Nil
  then show ?case by simp
next
  case (Cons a xs)
  show ?case
  proof (cases "P a")
    case True
    with Cons.prems(3) have "a = x" by (meson list.set_intros(1))
    with True show ?thesis by simp
  next
    case False
    with Cons.prems(1,2) have x: "x \<in> set xs" by auto
    from Cons.prems(3) have u: "\<forall>y \<in> set xs. P y \<longrightarrow> y = x" by (meson list.set_intros(2))
    from x Cons.prems(2) u have "find P xs = Some x" by (rule Cons.IH)
    with False show ?thesis by simp
  qed
qed

end
