(* ===== verification/Hasher.thy ===== *)
theory Hasher
  imports Prelude
begin

text \<open>
  The password-hashing collaborator \<open>bcrypt\<close> that \<open>models.py\<close> imports from \<open>config\<close>
  (a \<open>flask_bcrypt.Bcrypt\<close> instance; neither is under \<open>src/\<close>). The models call two of
  its methods, so the interface is a record of two functions, over the type of the salt and
  the type of the password (bytes here; a Python \<open>str\<close> in \<open>Py_Text\<close>):
  \<^item> \<open>gen_hash salt pw\<close> is \<open>generate_password_hash(pw).decode('utf-8')\<close>, with the random
    salt that \<open>bcrypt.gensalt()\<close> draws made an explicit argument;
  \<^item> \<open>check_hash h pw\<close> is \<open>check_password_hash(h.encode('utf-8'), pw)\<close>.
  Both may raise. The contract the User model relies on is \<open>sound_hasher H key\<close>: checking a
  password against a hash made from \<open>p\<close> answers whether the two agree on \<open>key\<close>, the part
  of the password the hash depends on (all of it for an ideal hash).

  \<open>bcrypt_model dg\<close> is flask-bcrypt over bcrypt 4: an empty password is refused, a salt is
  29 characters (\<open>$2b$12$\<close> and 22 of salt), the hash is the salt followed by a digest of
  the first 72 bytes of the password, and checking re-hashes the candidate with the salt
  read back from the stored hash and compares. The digest \<open>dg\<close> is a parameter: one-wayness
  is not modelled, only that the digest determines the (truncated) password.
\<close>

record ('salt, 'pw) hasher =
  gen_hash :: "'salt \<Rightarrow> 'pw \<Rightarrow> string result"
  check_hash :: "string \<Rightarrow> 'pw \<Rightarrow> bool result"

definition sound_hasher :: "('salt, 'pw) hasher \<Rightarrow> ('pw \<Rightarrow> 'k) \<Rightarrow> bool" where
  "sound_hasher H key \<longleftrightarrow>
     (\<forall>s p h q. gen_hash H s p = Inr h \<longrightarrow> check_hash H h q = Inr (key p = key q))"

section \<open>flask-bcrypt over bcrypt 4\<close>

definition bcrypt_salt_len :: nat where
  "bcrypt_salt_len = 29"

definition bcrypt_max_pw :: nat where
  "bcrypt_max_pw = 72"

text \<open>\<open>bcrypt.hashpw(password, salt)\<close>: the salt prefix of its second argument, then the digest.\<close>

definition bcrypt_hashpw :: "(string \<Rightarrow> string \<Rightarrow> string) \<Rightarrow> string \<Rightarrow> string \<Rightarrow> string result" where
  "bcrypt_hashpw dg pw salt =
     (if length salt < bcrypt_salt_len then Inl (ValueError ''Invalid salt'')
      else let s = take bcrypt_salt_len salt in Inr (s @ dg s (take bcrypt_max_pw pw)))"

definition bcrypt_generate :: "(string \<Rightarrow> string \<Rightarrow> string) \<Rightarrow> string \<Rightarrow> string \<Rightarrow> string result" where
  "bcrypt_generate dg salt pw =
     (if pw = [] then Inl (ValueError ''Password must be non-empty.'')
      else if length salt \<noteq> bcrypt_salt_len then Inl (ValueError ''Invalid salt'')
      else bcrypt_hashpw dg pw salt)"

definition bcrypt_check :: "(string \<Rightarrow> string \<Rightarrow> string) \<Rightarrow> string \<Rightarrow> string \<Rightarrow> bool result" where
  "bcrypt_check dg h pw = then_do (bcrypt_hashpw dg pw h) (\<lambda>h'. Inr (h' = h))"

definition bcrypt_model :: "(string \<Rightarrow> string \<Rightarrow> string) \<Rightarrow> (string, string) hasher" where
  "bcrypt_model dg = \<lparr>gen_hash = bcrypt_generate dg, check_hash = bcrypt_check dg\<rparr>"

definition digest_inj :: "(string \<Rightarrow> string \<Rightarrow> string) \<Rightarrow> bool" where
  "digest_inj dg \<longleftrightarrow> (\<forall>s a b. dg s a = dg s b \<longrightarrow> a = b)"

section \<open>A concrete instance for evaluation\<close>

text \<open>
  A digest that is the truncated password itself (injective, so \<open>bcrypt_model_sound\<close>
  applies) and a well-formed 29-character salt: enough to run the models on concrete inputs.
\<close>

definition plain_digest :: "string \<Rightarrow> string \<Rightarrow> string" where
  "plain_digest s p = p"

definition test_bcrypt :: "(string, string) hasher" where
  "test_bcrypt = bcrypt_model plain_digest"

definition test_salt :: string where
  "test_salt = ''$2b$12$abcdefghijklmnopqrstuv''"

section \<open>Lemmas\<close>

lemma sound_hasherD:
  "sound_hasher H key \<Longrightarrow> gen_hash H s p = Inr h \<Longrightarrow> check_hash H h q = Inr (key p = key q)"
  by (simp add: sound_hasher_def)

lemma bcrypt_generate_Inr:
  "bcrypt_generate dg salt pw = Inr h \<longleftrightarrow>
     pw \<noteq> [] \<and> length salt = bcrypt_salt_len \<and> h = salt @ dg salt (take bcrypt_max_pw pw)"
  by (auto simp: bcrypt_generate_def bcrypt_hashpw_def)

lemma bcrypt_check_generated:
  assumes "length salt = bcrypt_salt_len"
  shows "bcrypt_check dg (salt @ dg salt p) q = Inr (dg salt (take bcrypt_max_pw q) = dg salt p)"
  using assms by (simp add: bcrypt_check_def bcrypt_hashpw_def)

lemma bcrypt_model_sound:
  assumes "digest_inj dg"
  shows "sound_hasher (bcrypt_model dg) (take bcrypt_max_pw)"
  unfolding sound_hasher_def
proof (intro allI impI)
  fix s p h q
  assume "gen_hash (bcrypt_model dg) s p = Inr h"
  then have len: "length s = bcrypt_salt_len" and h: "h = s @ dg s (take bcrypt_max_pw p)"
    by (simp_all add: bcrypt_model_def bcrypt_generate_Inr)
  have "(dg s (take bcrypt_max_pw q) = dg s (take bcrypt_max_pw p))
          = (take bcrypt_max_pw p = take bcrypt_max_pw q)"
    using assms unfolding digest_inj_def by metis
  with len h show "check_hash (bcrypt_model dg) h q = Inr (take bcrypt_max_pw p = take bcrypt_max_pw q)"
    by (simp add: bcrypt_model_def bcrypt_check_generated)
qed

lemma test_salt_len [simp]: "length test_salt = bcrypt_salt_len"
  by (simp add: test_salt_def bcrypt_salt_len_def)

lemma test_bcrypt_sound: "sound_hasher test_bcrypt (take bcrypt_max_pw)"
  unfolding test_bcrypt_def
  by (rule bcrypt_model_sound) (simp add: digest_inj_def plain_digest_def)

lemma test_bcrypt_gen [simp]:
  "p \<noteq> [] \<Longrightarrow> gen_hash test_bcrypt test_salt p = Inr (test_salt @ take bcrypt_max_pw p)"
  by (simp add: test_bcrypt_def bcrypt_model_def bcrypt_generate_Inr plain_digest_def)

lemma test_bcrypt_check [simp]:
  "check_hash test_bcrypt (test_salt @ p) q = Inr (take bcrypt_max_pw q = p)"
  using bcrypt_check_generated [OF test_salt_len, of plain_digest p q]
  by (simp add: test_bcrypt_def bcrypt_model_def plain_digest_def)

end
