(* ===== verification/User.thy ===== *)
theory User
  imports Hasher
begin

text \<open>
  The \<open>User\<close> model of \<open>src/server/models.py\<close> (lines 7--47): its columns as a record,
  attribute reads and writes as functions on it (the \<open>password_hash\<close> hybrid property, the
  \<open>@validates('username')\<close> hook), the declarative constructor, \<open>authenticate\<close> and
  \<open>to_dict\<close>. The hasher is the interface of theory \<open>Hasher\<close>, a parameter \<open>H\<close>.
\<close>

section \<open>State and operations\<close>

text \<open>
  The columns of \<open>users\<close>. Every column is nullable on the Python object (SQLAlchemy
  enforces \<open>nullable=False\<close> and \<open>unique=True\<close> only when the session flushes, theory
  \<open>Store\<close>); \<open>u_id\<close> is \<open>id\<close> and \<open>u_password_hash\<close> is \<open>_password_hash\<close>.
\<close>

record user =
  u_id :: "int option"
  username :: "string option"
  u_password_hash :: "string option"
  image_url :: "string option"
  bio :: "string option"

text \<open>A fresh instance, before the constructor assigns its keyword arguments.\<close>

definition new_user :: user where
  "new_user = \<lparr>u_id = None, username = None, u_password_hash = None, image_url = None, bio = None\<rparr>"

text \<open>The attributes a caller can read or assign.\<close>

datatype user_attr = UA_id | UA_username | UA_password_hash | UA__password_hash | UA_image_url | UA_bio

text \<open>
  An assignment \<open>user.attr = value\<close>. Assigning \<open>password_hash\<close> carries the salt that
  bcrypt draws for it.
\<close>

datatype ('salt, 'pw) user_assign =
    Set_id "int option"
  | Set_username "string option"
  | Set_password_hash 'salt 'pw
  | Set__password_hash "string option"
  | Set_image_url "string option"
  | Set_bio "string option"

text \<open>\<open>validate_username\<close> (lines 33--38).\<close>

definition validate_username :: "string option \<Rightarrow> string option result" where
  "validate_username uname =
     (if py_not uname then Inl (ValueError ''Username is required.'') else Inr uname)"

text \<open>The \<open>password_hash\<close> getter (lines 19--22) always raises.\<close>

definition password_hash_get :: "user \<Rightarrow> string result" where
  "password_hash_get u = Inl (AttributeError ''Password hashes cannot be accessed directly.'')"

text \<open>The \<open>password_hash\<close> setter (lines 24--27): hash, then store in \<open>_password_hash\<close>.\<close>

definition password_hash_set :: "('salt, 'pw) hasher \<Rightarrow> 'salt \<Rightarrow> user \<Rightarrow> 'pw \<Rightarrow> user result" where
  "password_hash_set H salt u password =
     then_do (gen_hash H salt password) (\<lambda>h. Inr (u\<lparr>u_password_hash := Some h\<rparr>))"

text \<open>\<open>authenticate\<close> (lines 29--31): \<open>None.encode\<close> raises when no hash was ever set.\<close>

definition authenticate :: "('salt, 'pw) hasher \<Rightarrow> user \<Rightarrow> 'pw \<Rightarrow> bool result" where
  "authenticate H u password =
     (case u_password_hash u of
        None \<Rightarrow> Inl (AttributeError ''NoneType object has no attribute encode'')
      | Some h \<Rightarrow> check_hash H h password)"

text \<open>Reading an attribute: every column is readable, \<open>password_hash\<close> goes to the getter.\<close>

fun user_getattr :: "user \<Rightarrow> user_attr \<Rightarrow> pyval result" where
  "user_getattr u UA_id = Inr (py_int (u_id u))"
| "user_getattr u UA_username = Inr (py_str (username u))"
| "user_getattr u UA_password_hash = then_do (password_hash_get u) (\<lambda>h. Inr (PStr h))"
| "user_getattr u UA__password_hash = Inr (py_str (u_password_hash u))"
| "user_getattr u UA_image_url = Inr (py_str (image_url u))"
| "user_getattr u UA_bio = Inr (py_str (bio u))"

text \<open>
  Assigning an attribute: \<open>username\<close> goes through its validator, which runs on every
  assignment and stores the value it returns; \<open>password_hash\<close> through the setter.
\<close>

fun user_setattr :: "('salt, 'pw) hasher \<Rightarrow> user \<Rightarrow> ('salt, 'pw) user_assign \<Rightarrow> user result" where
  "user_setattr H u (Set_id v) = Inr (u\<lparr>u_id := v\<rparr>)"
| "user_setattr H u (Set_username v) =
     then_do (validate_username v) (\<lambda>v'. Inr (u\<lparr>username := v'\<rparr>))"
| "user_setattr H u (Set_password_hash salt p) = password_hash_set H salt u p"
| "user_setattr H u (Set__password_hash v) = Inr (u\<lparr>u_password_hash := v\<rparr>)"
| "user_setattr H u (Set_image_url v) = Inr (u\<lparr>image_url := v\<rparr>)"
| "user_setattr H u (Set_bio v) = Inr (u\<lparr>bio := v\<rparr>)"

text \<open>
  \<open>User(**kwargs)\<close>: SQLAlchemy's declarative constructor takes the keywords in order,
  raises \<open>TypeError\<close> for a key \<open>k\<close> with \<open>not hasattr(User, k)\<close>, and otherwise assigns
  it. \<open>hasattr(User, 'password_hash')\<close> evaluates the hybrid property at class level, which
  calls the getter of lines 19--22 with the class; it raises \<open>AttributeError\<close>, so
  \<open>hasattr\<close> is false and a \<open>password_hash\<close> keyword is refused (the message is
  \<open>'password_hash' is an invalid keyword argument for User\<close>, quotes dropped here). Every
  column, \<open>_password_hash\<close> included, is a class attribute and is assigned as on an
  instance.
\<close>

fun user_ctor_kw :: "('salt, 'pw) hasher \<Rightarrow> user \<Rightarrow> ('salt, 'pw) user_assign \<Rightarrow> user result" where
  "user_ctor_kw H u (Set_password_hash salt p) =
     Inl (TypeError ''password_hash is an invalid keyword argument for User'')"
| "user_ctor_kw H u a = user_setattr H u a"

definition user_init :: "('salt, 'pw) hasher \<Rightarrow> ('salt, 'pw) user_assign list \<Rightarrow> user result" where
  "user_init H kwargs = run_all (user_ctor_kw H) new_user kwargs"

text \<open>\<open>to_dict\<close> (lines 40--47).\<close>

definition user_to_dict :: "user \<Rightarrow> pydict" where
  "user_to_dict u =
     [(''id'', py_int (u_id u)),
      (''username'', py_str (username u)),
      (''image_url'', py_str (image_url u)),
      (''bio'', py_str (bio u))]"

text \<open>The model's invariant: a username, once assigned, is a non-empty string.\<close>

definition user_inv :: "user \<Rightarrow> bool" where
  "user_inv u \<longleftrightarrow> username u \<noteq> Some []"

lemmas user_defs [model_simps] =
  new_user_def validate_username_def password_hash_get_def password_hash_set_def
  authenticate_def user_init_def user_to_dict_def user_inv_def

section \<open>Helper lemmas\<close>

lemma validate_username_Inr:
  "validate_username v = Inr v' \<longleftrightarrow> (\<exists>s. v = Some s \<and> s \<noteq> [] \<and> v' = v)"
  by (cases v) (auto simp: validate_username_def)

lemma validate_username_Inl:
  "validate_username v = Inl e \<longleftrightarrow> py_not v \<and> e = ValueError ''Username is required.''"
  by (auto simp: validate_username_def)

lemma user_setattr_inv:
  "user_inv u \<Longrightarrow> user_setattr H u a = Inr u' \<Longrightarrow> user_inv u'"
  by (cases a) (auto simp: user_inv_def password_hash_set_def validate_username_Inr then_do_eq_Inr)

lemma password_hash_set_Inr:
  "password_hash_set H salt u p = Inr u' \<longleftrightarrow>
     (\<exists>h. gen_hash H salt p = Inr h \<and> u' = u\<lparr>u_password_hash := Some h\<rparr>)"
  by (auto simp: password_hash_set_def then_do_eq_Inr)

lemma user_ctor_kw_Inr: "user_ctor_kw H u a = Inr t \<Longrightarrow> user_setattr H u a = Inr t"
  by (cases a) simp_all

lemma user_run_inv:
  "user_inv u \<Longrightarrow> run_all (user_ctor_kw H) u kwargs = Inr u' \<Longrightarrow> user_inv u'"
  by (rule run_all_inv [where P = user_inv and f = "user_ctor_kw H"])
     (auto intro: user_setattr_inv dest: user_ctor_kw_Inr)

text \<open>A field that no assignment of the keywords changes keeps its initial value.\<close>

lemma user_init_keeps:
  assumes step: "\<And>s a t. a \<in> set kwargs \<Longrightarrow> user_setattr H s a = Inr t \<Longrightarrow> f t = f s"
    and init: "user_init H kwargs = Inr u"
  shows "f u = f new_user"
proof -
  have inv: "\<And>s a t. a \<in> set kwargs \<Longrightarrow> f s = f new_user \<Longrightarrow> user_ctor_kw H s a = Inr t \<Longrightarrow> f t = f new_user"
  proof -
    fix s a t
    assume "a \<in> set kwargs" "f s = f new_user" "user_ctor_kw H s a = Inr t"
    then show "f t = f new_user" using step user_ctor_kw_Inr by metis
  qed
  have "run_all (user_ctor_kw H) new_user kwargs = Inr u" using init by (simp only: user_init_def)
  from run_all_inv [where P = "\<lambda>s. f s = f new_user" and f = "user_ctor_kw H", OF inv refl this]
  show ?thesis .
qed

lemma user_inv_new_user [simp]: "user_inv new_user"
  by (simp add: user_inv_def new_user_def)

text \<open>The password setter and \<open>authenticate\<close> over the flask-bcrypt model.\<close>

lemma bcrypt_set_password:
  "password_hash_set (bcrypt_model dg) salt u p = Inr u' \<longleftrightarrow>
     p \<noteq> [] \<and> length salt = bcrypt_salt_len \<and>
     u' = u\<lparr>u_password_hash := Some (salt @ dg salt (take bcrypt_max_pw p))\<rparr>"
  by (auto simp: password_hash_set_Inr bcrypt_model_def bcrypt_generate_Inr)

lemma bcrypt_set_password_ok:
  "p \<noteq> [] \<Longrightarrow> length salt = bcrypt_salt_len \<Longrightarrow>
   password_hash_set (bcrypt_model dg) salt u p =
     Inr (u\<lparr>u_password_hash := Some (salt @ dg salt (take bcrypt_max_pw p))\<rparr>)"
  by (simp add: password_hash_set_def bcrypt_model_def bcrypt_generate_def bcrypt_hashpw_def)

lemma bcrypt_authenticate:
  "length salt = bcrypt_salt_len \<Longrightarrow>
   authenticate (bcrypt_model dg) (u\<lparr>u_password_hash := Some (salt @ dg salt p)\<rparr>) q =
     Inr (dg salt (take bcrypt_max_pw q) = dg salt p)"
  by (simp add: authenticate_def bcrypt_model_def bcrypt_check_generated)

section \<open>Properties of the User model\<close>

text \<open>
  C1. Constructing a User with a keyword \<open>username\<close> that is \<open>None\<close> or empty raises,
  whatever the other keywords and their order: the validator runs on that assignment.
\<close>

theorem user_init_username_required:
  assumes "Set_username v \<in> set kwargs" and "py_not v"
  shows "\<exists>e. user_init H kwargs = Inl e"
  unfolding user_init_def
  using assms(2) by (intro run_all_fails [OF _ assms(1)]) (simp add: validate_username_def)

theorem user_init_username_required_witness:
  "Set_username (Some []) \<in> set [Set_id (Some 1), Set_username (Some [])] \<and> py_not (Some []) \<and>
   (\<exists>e. user_init test_bcrypt [Set_id (Some 1), Set_username (Some [])] = Inl e)"
  using user_init_username_required [of "Some []" "[Set_id (Some 1), Set_username (Some [])]" test_bcrypt]
  by simp

text \<open>
  C2. Constructing a User with a non-empty \<open>username\<close> succeeds and stores it unchanged;
  every other column is still \<open>None\<close>.
\<close>

theorem user_init_username_ok:
  "s \<noteq> [] \<Longrightarrow> user_init H [Set_username (Some s)] = Inr (new_user\<lparr>username := Some s\<rparr>)"
  by (simp add: user_init_def validate_username_def)

theorem user_init_username_ok_witness:
  "''chef1'' \<noteq> [] \<and>
   user_init test_bcrypt [Set_username (Some ''chef1'')] = Inr (new_user\<lparr>username := Some ''chef1''\<rparr>)"
  using user_init_username_ok [of "''chef1''" test_bcrypt] by simp

text \<open>
  C3. Round trip of the credential: after \<open>user.password_hash = p\<close> succeeds, \<open>authenticate(q)\<close>
  returns whether \<open>p\<close> and \<open>q\<close> agree on the part of the password the hasher keys on
  (for an ideal hasher, whether \<open>q = p\<close>); in particular \<open>authenticate(p)\<close> is true.
\<close>

theorem authenticate_after_set:
  assumes "sound_hasher H key"
    and "user_setattr H u (Set_password_hash salt p) = Inr u'"
  shows "authenticate H u' q = Inr (key p = key q)"
proof -
  from assms(2) obtain h where h: "gen_hash H salt p = Inr h"
    and u': "u' = u\<lparr>u_password_hash := Some h\<rparr>"
    by (auto simp: password_hash_set_Inr)
  from sound_hasherD [OF assms(1) h] u' show ?thesis
    by (simp add: authenticate_def)
qed

theorem authenticate_after_set_witness:
  "sound_hasher test_bcrypt (take bcrypt_max_pw) \<and>
   user_setattr test_bcrypt new_user (Set_password_hash test_salt ''hunter2'') =
     Inr (new_user\<lparr>u_password_hash := Some (test_salt @ ''hunter2'')\<rparr>) \<and>
   authenticate test_bcrypt (new_user\<lparr>u_password_hash := Some (test_salt @ ''hunter2'')\<rparr>) ''wrong'' =
     Inr False"
proof -
  have s: "sound_hasher test_bcrypt (take bcrypt_max_pw)" by (rule test_bcrypt_sound)
  have e: "user_setattr test_bcrypt new_user (Set_password_hash test_salt ''hunter2'') =
     Inr (new_user\<lparr>u_password_hash := Some (test_salt @ ''hunter2'')\<rparr>)"
    by (simp add: password_hash_set_Inr bcrypt_max_pw_def)
  from authenticate_after_set [OF s e, of "''wrong''"] s e show ?thesis
    by (simp add: bcrypt_max_pw_def)
qed

text \<open>
  C4. Reading \<open>user.password_hash\<close> raises \<open>AttributeError\<close> in every state, and it is the
  only attribute whose read raises (the column \<open>_password_hash\<close> itself reads normally).
\<close>

theorem user_getattr_raises_iff:
  "user_getattr u a = Inl e \<longleftrightarrow>
     a = UA_password_hash \<and> e = AttributeError ''Password hashes cannot be accessed directly.''"
  by (cases a) (auto simp: password_hash_get_def)

text \<open>
  C5. \<open>User.to_dict\<close> has exactly the keys \<open>id\<close>, \<open>username\<close>, \<open>image_url\<close>, \<open>bio\<close>, and
  its value does not depend on the stored hash.
\<close>

theorem user_to_dict_hides_hash:
  "dict_keys (user_to_dict u) = [''id'', ''username'', ''image_url'', ''bio''] \<and>
   user_to_dict (u\<lparr>u_password_hash := x\<rparr>) = user_to_dict u"
  by (simp add: user_to_dict_def)

text \<open>
  C6. A User constructed without a password keyword has no hash, and \<open>authenticate\<close> on it
  raises (\<open>None.encode\<close>) rather than returning \<open>False\<close>.
\<close>

theorem authenticate_unset:
  assumes none: "\<forall>a \<in> set kwargs. (\<forall>s p. a \<noteq> Set_password_hash s p) \<and> (\<forall>v. a \<noteq> Set__password_hash v)"
    and init: "user_init H kwargs = Inr u"
  shows "authenticate H u q = Inl (AttributeError ''NoneType object has no attribute encode'')"
proof -
  have "u_password_hash u = u_password_hash new_user"
  proof (rule user_init_keeps [OF _ init])
    fix s a t
    assume "a \<in> set kwargs" "user_setattr H s a = Inr t"
    with none show "u_password_hash t = u_password_hash s"
      by (cases a) (auto simp: then_do_eq_Inr)
  qed
  then show ?thesis by (simp add: authenticate_def new_user_def)
qed

theorem authenticate_unset_witness:
  "user_init test_bcrypt [Set_username (Some ''chef1'')] = Inr (new_user\<lparr>username := Some ''chef1''\<rparr>) \<and>
   authenticate test_bcrypt (new_user\<lparr>username := Some ''chef1''\<rparr>) ''hunter2'' =
     Inl (AttributeError ''NoneType object has no attribute encode'')"
proof -
  have n: "\<forall>a \<in> set [Set_username (Some ''chef1'')].
      (\<forall>s p. a \<noteq> (Set_password_hash s p :: (string, string) user_assign)) \<and> (\<forall>v. a \<noteq> Set__password_hash v)"
    by simp
  have i: "user_init test_bcrypt [Set_username (Some ''chef1'')] = Inr (new_user\<lparr>username := Some ''chef1''\<rparr>)"
    by (simp add: user_init_def validate_username_def)
  from i authenticate_unset [OF n i] show ?thesis by simp
qed

text \<open>
  C7. Every User the constructor returns satisfies the invariant: its username is not the
  empty string.
\<close>

theorem user_init_inv:
  assumes "user_init H kwargs = Inr u"
  shows "user_inv u"
  using user_run_inv [OF user_inv_new_user] assms by (simp add: user_init_def)

theorem user_init_inv_witness:
  "user_init test_bcrypt [Set_username (Some ''chef1''), Set_bio (Some ''cook'')] =
     Inr (new_user\<lparr>username := Some ''chef1'', bio := Some ''cook''\<rparr>) \<and>
   user_inv (new_user\<lparr>username := Some ''chef1'', bio := Some ''cook''\<rparr>)"
proof -
  have i: "user_init test_bcrypt [Set_username (Some ''chef1''), Set_bio (Some ''cook'')] =
     Inr (new_user\<lparr>username := Some ''chef1'', bio := Some ''cook''\<rparr>)"
    by (simp add: user_init_def validate_username_def)
  from i user_init_inv [OF i] show ?thesis by simp
qed

text \<open>
  C8. The validator runs only on assignment: a User constructed without a \<open>username\<close>
  keyword is returned with \<open>username = None\<close> (the \<open>nullable=False\<close> constraint is only
  checked when the session flushes).
\<close>

theorem user_init_no_username:
  assumes none: "\<forall>a \<in> set kwargs. \<forall>v. a \<noteq> Set_username v" and init: "user_init H kwargs = Inr u"
  shows "username u = None"
proof -
  have "username u = username new_user"
  proof (rule user_init_keeps [OF _ init])
    fix s a t
    assume "a \<in> set kwargs" "user_setattr H s a = Inr t"
    with none show "username t = username s"
      by (cases a) (auto simp: password_hash_set_Inr)
  qed
  then show ?thesis by (simp add: new_user_def)
qed

theorem user_init_no_username_witness:
  "user_init test_bcrypt [Set_bio (Some ''cook'')] = Inr (new_user\<lparr>bio := Some ''cook''\<rparr>) \<and>
   username (new_user\<lparr>bio := Some ''cook''\<rparr>) = None"
proof -
  have n: "\<forall>a \<in> set [Set_bio (Some ''cook'')]. \<forall>v. a \<noteq> (Set_username v :: (string, string) user_assign)" by simp
  have i: "user_init test_bcrypt [Set_bio (Some ''cook'')] = Inr (new_user\<lparr>bio := Some ''cook''\<rparr>)"
    by (simp add: user_init_def)
  from i user_init_no_username [OF n i] show ?thesis by simp
qed


end
