(* ===== verification/Recipe.thy ===== *)
theory Recipe
  imports User
begin

text \<open>
  The \<open>Recipe\<close> model of \<open>src/server/models.py\<close> (lines 49--84): its columns as a record,
  attribute assignment through the \<open>@validates('title')\<close> and
  \<open>@validates('instructions')\<close> hooks, the declarative constructor, and \<open>to_dict\<close>,
  which embeds the owning user's \<open>to_dict\<close>. The owner \<open>self.user\<close> is the object the
  \<open>user\<close> back-reference resolves to; theory \<open>Store\<close> computes it from \<open>user_id\<close>.
\<close>

section \<open>State and operations\<close>

text \<open>The columns of \<open>recipes\<close>; \<open>r_id\<close> is \<open>id\<close>.\<close>

record recipe =
  r_id :: "int option"
  title :: "string option"
  instructions :: "string option"
  minutes_to_complete :: "int option"
  user_id :: "int option"

definition new_recipe :: recipe where
  "new_recipe = \<lparr>r_id = None, title = None, instructions = None, minutes_to_complete = None,
     user_id = None\<rparr>"

text \<open>An assignment \<open>recipe.attr = value\<close>.\<close>

datatype recipe_assign =
    Set_r_id "int option"
  | Set_title "string option"
  | Set_instructions "string option"
  | Set_minutes_to_complete "int option"
  | Set_user_id "int option"

text \<open>\<open>validate_title\<close> (lines 60--65).\<close>

definition validate_title :: "string option \<Rightarrow> string option result" where
  "validate_title t = (if py_not t then Inl (ValueError ''Title is required.'') else Inr t)"

text \<open>\<open>validate_instructions\<close> (lines 67--74): presence first, then the length.\<close>

definition instructions_min_len :: nat where
  "instructions_min_len = 50"

definition validate_instructions :: "string option \<Rightarrow> string option result" where
  "validate_instructions instr =
     (if py_not instr then Inl (ValueError ''Instructions are required.'')
      else then_do (py_len instr) (\<lambda>n.
        if n < instructions_min_len
        then Inl (ValueError ''Instructions must be at least 50 characters long.'')
        else Inr instr))"

fun recipe_setattr :: "recipe \<Rightarrow> recipe_assign \<Rightarrow> recipe result" where
  "recipe_setattr r (Set_r_id v) = Inr (r\<lparr>r_id := v\<rparr>)"
| "recipe_setattr r (Set_title v) = then_do (validate_title v) (\<lambda>v'. Inr (r\<lparr>title := v'\<rparr>))"
| "recipe_setattr r (Set_instructions v) =
     then_do (validate_instructions v) (\<lambda>v'. Inr (r\<lparr>instructions := v'\<rparr>))"
| "recipe_setattr r (Set_minutes_to_complete v) = Inr (r\<lparr>minutes_to_complete := v\<rparr>)"
| "recipe_setattr r (Set_user_id v) = Inr (r\<lparr>user_id := v\<rparr>)"

text \<open>\<open>Recipe(**kwargs)\<close>.\<close>

definition recipe_init :: "recipe_assign list \<Rightarrow> recipe result" where
  "recipe_init kwargs = run_all recipe_setattr new_recipe kwargs"

text \<open>
  \<open>to_dict\<close> (lines 76--84); \<open>owner\<close> is \<open>self.user\<close>. A model instance is always truthy,
  so \<open>if self.user\<close> tests for \<open>None\<close>.
\<close>

definition recipe_to_dict :: "user option \<Rightarrow> recipe \<Rightarrow> pydict" where
  "recipe_to_dict owner r =
     [(''id'', py_int (r_id r)),
      (''title'', py_str (title r)),
      (''instructions'', py_str (instructions r)),
      (''minutes_to_complete'', py_int (minutes_to_complete r)),
      (''user'', (case owner of None \<Rightarrow> PNone | Some u \<Rightarrow> PDict (user_to_dict u)))]"

text \<open>
  The invariant the validators maintain: a title, once assigned, is non-empty, and assigned
  instructions have at least 50 characters.
\<close>

definition recipe_inv :: "recipe \<Rightarrow> bool" where
  "recipe_inv r \<longleftrightarrow>
     title r \<noteq> Some [] \<and>
     (case instructions r of None \<Rightarrow> True | Some s \<Rightarrow> instructions_min_len \<le> length s)"

lemmas recipe_defs [model_simps] =
  new_recipe_def validate_title_def validate_instructions_def recipe_init_def recipe_to_dict_def
  recipe_inv_def instructions_min_len_def

section \<open>Helper lemmas\<close>

lemma recipe_setattr_inv:
  "recipe_inv r \<Longrightarrow> recipe_setattr r a = Inr r' \<Longrightarrow> recipe_inv r'"
  by (cases a) (auto simp: recipe_inv_def validate_title_def validate_instructions_def
      not_py_not_iff then_do_eq_Inr split: if_splits)

lemma recipe_run_inv:
  "recipe_inv r \<Longrightarrow> run_all recipe_setattr r kwargs = Inr r' \<Longrightarrow> recipe_inv r'"
  by (rule run_all_inv [where P = recipe_inv and f = recipe_setattr]) (auto intro: recipe_setattr_inv)

lemma recipe_inv_new_recipe [simp]: "recipe_inv new_recipe"
  by (simp add: recipe_inv_def new_recipe_def)

section \<open>Properties of the Recipe model\<close>

text \<open>
  C9. \<open>validate_instructions\<close> accepts exactly the strings of at least 50 characters, and
  returns them unchanged (so the assignment stores them unchanged).
\<close>

theorem validate_instructions_Inr:
  "validate_instructions v = Inr v' \<longleftrightarrow> (\<exists>s. v = Some s \<and> 50 \<le> length s \<and> v' = v)"
  by (cases v) (auto simp: validate_instructions_def instructions_min_len_def)

text \<open>
  C10. Instructions shorter than 50 characters raise \<open>ValueError\<close>: the empty string with
  the "required" message (the presence check comes first), any other with the length message.
\<close>

theorem validate_instructions_short:
  "length s < 50 \<Longrightarrow>
   validate_instructions (Some s) =
     Inl (ValueError (if s = [] then ''Instructions are required.''
                      else ''Instructions must be at least 50 characters long.''))"
  by (simp add: validate_instructions_def instructions_min_len_def)

theorem validate_instructions_short_witness:
  "length (replicate 49 CHR ''x'') < 50 \<and>
   validate_instructions (Some (replicate 49 CHR ''x'')) =
     Inl (ValueError ''Instructions must be at least 50 characters long.'')"
  using validate_instructions_short [of "replicate 49 CHR ''x''"] by simp

text \<open>
  C11. Assigning \<open>recipe.title = v\<close> raises \<open>ValueError('Title is required.')\<close> for
  \<open>None\<close> and the empty string and leaves the recipe as it was; any other title is stored
  unchanged and no other column changes.
\<close>

theorem set_title_cases:
  "recipe_setattr r (Set_title v) =
     (if v = None \<or> v = Some [] then Inl (ValueError ''Title is required.'') else Inr (r\<lparr>title := v\<rparr>))"
  by (simp add: validate_title_def py_not_iff)

text \<open>
  C12. Every Recipe the constructor returns satisfies the invariant: an assigned title is
  non-empty and assigned instructions have at least 50 characters.
\<close>

theorem recipe_init_inv:
  assumes "recipe_init kwargs = Inr r"
  shows "recipe_inv r"
  using recipe_run_inv [OF recipe_inv_new_recipe] assms by (simp add: recipe_init_def)

theorem recipe_init_inv_witness:
  "recipe_init [Set_title (Some ''Soup''), Set_instructions (Some (replicate 50 CHR ''x''))] =
     Inr (new_recipe\<lparr>title := Some ''Soup'', instructions := Some (replicate 50 CHR ''x'')\<rparr>) \<and>
   recipe_inv (new_recipe\<lparr>title := Some ''Soup'', instructions := Some (replicate 50 CHR ''x'')\<rparr>)"
proof -
  have i: "recipe_init [Set_title (Some ''Soup''), Set_instructions (Some (replicate 50 CHR ''x''))] =
     Inr (new_recipe\<lparr>title := Some ''Soup'', instructions := Some (replicate 50 CHR ''x'')\<rparr>)"
    by (simp add: recipe_init_def validate_title_def validate_instructions_def instructions_min_len_def)
  from i recipe_init_inv [OF i] show ?thesis by simp
qed

text \<open>
  C13. \<open>Recipe.to_dict\<close> has the keys \<open>id\<close>, \<open>title\<close>, \<open>instructions\<close>,
  \<open>minutes_to_complete\<close>, \<open>user\<close>; under \<open>user\<close> it holds the owner's \<open>to_dict\<close>, or
  \<open>None\<close> when the recipe has no owner.
\<close>

theorem recipe_to_dict_user:
  "dict_keys (recipe_to_dict owner r) =
     [''id'', ''title'', ''instructions'', ''minutes_to_complete'', ''user''] \<and>
   dict_get (recipe_to_dict owner r) ''user'' =
     Some (case owner of None \<Rightarrow> PNone | Some u \<Rightarrow> PDict (user_to_dict u))"
  by (simp add: recipe_to_dict_def)

end
