(* ===== verification/Rowid.thy ===== *)
theory Rowid
  imports Prelude "HOL-Library.While_Combinator"
begin

text \<open>
  SQLite's side of an integer column and of a rowid table, as the models' tables use them
  (\<open>id = db.Column(db.Integer, primary_key=True)\<close>, lines 10 and 52). An integer is
  stored as a signed 64-bit value: the \<open>sqlite3\<close> driver refuses to bind a Python \<open>int\<close>
  outside that range with \<open>OverflowError\<close> (\<open>bind_int\<close>). An insert without a key
  receives the rowid SQLite chooses (\<open>next_rowid\<close>): 1 in an empty table, else one more
  than the largest key; when the largest key is already the largest 64-bit integer, SQLite
  tries positive candidates until it finds one that is unused and fails with
  \<open>SQLITE_FULL\<close> when there is none. SQLite draws the candidates at random; the model tries
  them upward from 1 (\<open>free_rowid_search\<close>, a loop kept as \<open>while_option\<close>), which is one
  of the orders the random search may take. \<open>rowid_choice\<close> is the documented rule as a
  relation, leaving that choice open.
\<close>

section \<open>64-bit integers\<close>

definition sqlite_max_rowid :: int where
  "sqlite_max_rowid = 2 ^ 63 - 1"

definition int64_ok :: "int \<Rightarrow> bool" where
  "int64_ok i \<longleftrightarrow> - (2 ^ 63) \<le> i \<and> i \<le> sqlite_max_rowid"

text \<open>Binding an optional integer parameter of an \<open>INSERT\<close> or \<open>UPDATE\<close>.\<close>

definition bind_int :: "int option \<Rightarrow> unit result" where
  "bind_int v =
     (case v of
        None \<Rightarrow> Inr ()
      | Some i \<Rightarrow>
          if int64_ok i then Inr ()
          else Inl (OverflowError ''Python int too large to convert to SQLite INTEGER''))"

section \<open>Choosing a rowid\<close>

definition free_rowid_search :: "(int \<times> 'a) list \<Rightarrow> int option" where
  "free_rowid_search tbl =
     while_option (\<lambda>c. c \<le> sqlite_max_rowid \<and> c \<in> set (map fst tbl)) (\<lambda>c. c + 1) 1"

definition next_rowid :: "(int \<times> 'a) list \<Rightarrow> int result" where
  "next_rowid tbl =
     (case map fst tbl of
        [] \<Rightarrow> Inr 1
      | k # ks \<Rightarrow>
          (let m = fold max ks k in
           if m < sqlite_max_rowid then Inr (m + 1)
           else (case free_rowid_search tbl of
                   Some c \<Rightarrow> if c \<le> sqlite_max_rowid then Inr c
                             else Inl (OperationalError ''database or disk is full'')
                 | None \<Rightarrow> Inl (OperationalError ''database or disk is full''))))"

text \<open>The documented rule: the rowids SQLite may give a new row of a table with keys \<open>K\<close>.\<close>

definition rowid_choice :: "int set \<Rightarrow> int \<Rightarrow> bool" where
  "rowid_choice K k \<longleftrightarrow>
     k \<notin> K \<and>
     (if K = {} then k = 1
      else if Max K < sqlite_max_rowid then k = Max K + 1
      else 0 < k \<and> k \<le> sqlite_max_rowid)"

section \<open>Helper lemmas\<close>

lemma bind_int_Inr [simp]: "bind_int v = Inr () \<longleftrightarrow> pred_option int64_ok v"
  by (cases v) (simp_all add: bind_int_def)

lemma free_rowid_search_result:
  assumes "free_rowid_search tbl = Some c"
  shows "1 \<le> c \<and> (c \<le> sqlite_max_rowid \<longrightarrow> c \<notin> set (map fst tbl)) \<and>
         (\<forall>i. 1 \<le> i \<and> i < c \<longrightarrow> i \<in> set (map fst tbl))"
proof -
  let ?P = "\<lambda>c. 1 \<le> c \<and> (\<forall>i. 1 \<le> i \<and> i < c \<longrightarrow> i \<in> set (map fst tbl))"
  have step: "?P (c' + 1)" if "?P c'" and "c' \<le> sqlite_max_rowid \<and> c' \<in> set (map fst tbl)" for c'
    using that by (auto simp: zless_add1_eq) (metis image_eqI fst_conv order_le_less)
  from assms have run: "while_option (\<lambda>c. c \<le> sqlite_max_rowid \<and> c \<in> set (map fst tbl)) (\<lambda>c. c + 1) 1 = Some c"
    by (simp add: free_rowid_search_def)
  have "?P c"
    by (rule while_option_rule [where P = ?P and b = "\<lambda>c. c \<le> sqlite_max_rowid \<and> c \<in> set (map fst tbl)"
          and c = "\<lambda>c. c + 1", OF step run]) auto
  moreover from while_option_stop [OF run]
  have "c \<le> sqlite_max_rowid \<longrightarrow> c \<notin> set (map fst tbl)" by simp
  ultimately show ?thesis by blast
qed

lemma fold_max_Max: "fold max ks k = Max (set (k # ks))"
  by (simp only: Max.set_eq_fold)

lemma next_rowid_cases:
  "next_rowid tbl = Inr c \<longleftrightarrow>
     (tbl = [] \<and> c = 1) \<or>
     (tbl \<noteq> [] \<and> Max (fst ` set tbl) < sqlite_max_rowid \<and> c = Max (fst ` set tbl) + 1) \<or>
     (tbl \<noteq> [] \<and> \<not> Max (fst ` set tbl) < sqlite_max_rowid \<and> free_rowid_search tbl = Some c \<and>
        c \<le> sqlite_max_rowid)"
  by (cases "map fst tbl")
     (auto simp: next_rowid_def fold_max_Max Let_def split: option.splits
       simp flip: list.set_map)

lemma free_rowid_search_Some: "\<exists>c. free_rowid_search tbl = Some c"
  unfolding free_rowid_search_def
  by (rule measure_while_option_Some [where P = "\<lambda>_. True" and f = "\<lambda>c. nat (sqlite_max_rowid + 1 - c)"])
     auto

lemma keys_Max_in:
  "tbl \<noteq> [] \<Longrightarrow> Max (fst ` set tbl) \<in> fst ` set tbl"
  by (rule Max_in) simp_all

lemma next_rowid_complete:
  assumes "rowid_choice (fst ` set tbl) k"
  shows "\<exists>c. next_rowid tbl = Inr c"
proof (cases "tbl = [] \<or> Max (fst ` set tbl) < sqlite_max_rowid")
  case True
  then show ?thesis by (auto simp: next_rowid_cases)
next
  case False
  with assms have k: "0 < k" "k \<le> sqlite_max_rowid" "k \<notin> fst ` set tbl"
    by (auto simp: rowid_choice_def split: if_splits)
  obtain c where c: "free_rowid_search tbl = Some c" using free_rowid_search_Some by blast
  have "c \<le> sqlite_max_rowid"
  proof (rule ccontr)
    assume "\<not> c \<le> sqlite_max_rowid"
    with k have "1 \<le> k \<and> k < c" by simp
    with free_rowid_search_result [OF c] have "k \<in> set (map fst tbl)" by blast
    with k(3) show False by simp
  qed
  with False c show ?thesis by (auto simp: next_rowid_cases)
qed

lemma next_rowid_fresh:
  assumes nr: "next_rowid tbl = Inr k"
  shows "k \<notin> fst ` set tbl"
proof (cases "tbl = [] \<or> Max (fst ` set tbl) < sqlite_max_rowid")
  case True
  have fin: "finite (fst ` set tbl)" by simp
  from True nr Max_ge [OF fin] show ?thesis by (fastforce simp: next_rowid_cases)
next
  case False
  with nr have "free_rowid_search tbl = Some k" and "k \<le> sqlite_max_rowid"
    by (simp_all add: next_rowid_cases)
  with free_rowid_search_result [of tbl k] show ?thesis by simp
qed

lemma next_rowid_sound:
  assumes nr: "next_rowid tbl = Inr k"
  shows "rowid_choice (fst ` set tbl) k"
proof (cases "tbl = [] \<or> Max (fst ` set tbl) < sqlite_max_rowid")
  case True
  show ?thesis
  proof (cases "tbl = []")
    case True
    with nr show ?thesis by (simp add: next_rowid_cases rowid_choice_def)
  next
    case ne: False
    with \<open>tbl = [] \<or> Max (fst ` set tbl) < sqlite_max_rowid\<close>
    have m: "Max (fst ` set tbl) < sqlite_max_rowid" by simp
    with nr ne have "k = Max (fst ` set tbl) + 1" by (simp add: next_rowid_cases)
    with m ne next_rowid_fresh [OF nr] show ?thesis
      by (simp add: rowid_choice_def del: Max_less_iff)
  qed
next
  case False
  with nr have "free_rowid_search tbl = Some k" and "k \<le> sqlite_max_rowid"
    by (simp_all add: next_rowid_cases)
  with free_rowid_search_result [of tbl k] False show ?thesis
    by (auto simp: rowid_choice_def simp del: Max_less_iff)
qed

lemma next_rowid_int64:
  assumes keys: "list_all (\<lambda>(j, _). int64_ok j) tbl" and nr: "next_rowid tbl = Inr k"
  shows "int64_ok k \<and> k \<notin> fst ` set tbl"
proof (cases "tbl = []")
  case True
  with nr show ?thesis by (simp add: next_rowid_cases int64_ok_def sqlite_max_rowid_def)
next
  case False
  have fin: "finite (fst ` set tbl)" by simp
  from keys_Max_in [OF False] keys have lo: "- (2 ^ 63) \<le> Max (fst ` set tbl)"
    by (auto simp: list_all_iff int64_ok_def)
  show ?thesis
  proof (cases "Max (fst ` set tbl) < sqlite_max_rowid")
    case True
    with nr False have k: "k = Max (fst ` set tbl) + 1" by (simp add: next_rowid_cases)
    with Max_ge [OF fin] have "k \<notin> fst ` set tbl" by fastforce
    with k True lo show ?thesis by (simp add: int64_ok_def)
  next
    case m: False
    with nr False have "free_rowid_search tbl = Some k" and "k \<le> sqlite_max_rowid"
      by (simp_all add: next_rowid_cases)
    with free_rowid_search_result [of tbl k]
    have "1 \<le> k" and "k \<notin> fst ` set tbl" and "k \<le> sqlite_max_rowid" by simp_all
    then show ?thesis by (simp add: int64_ok_def)
  qed
qed

end
