(* ===== verification/Store.thy ===== *)
theory Store
  imports Recipe Rowid "HOL-Library.AList"
begin

text \<open>
  The persistence side of \<open>src/server/models.py\<close>: the two tables \<open>users\<close> and \<open>recipes\<close>
  as association lists keyed by primary key, in rowid order, and what the SQLAlchemy session
  does with the column declarations when it commits one record: the integer parameters are
  bound as 64-bit values (\<open>bind_int\<close> of theory \<open>Rowid\<close>), a new primary key is the rowid
  SQLite chooses (\<open>next_rowid\<close>) when none was given, then SQLite checks the
  \<open>nullable=False\<close> constraints, the primary key and the \<open>unique=True\<close> constraints, in
  that order (lines 10--14, 52--55), with no enforcement of the foreign key
  \<open>user_id\<close> (SQLite's default), the \<open>recipes\<close>/\<open>user\<close> relationship (line 17) read
  through the foreign key, and on deleting a user the ORM's default for a one-to-many
  relationship without a delete cascade: the children's foreign key is set to \<open>NULL\<close>.
  Assignment through the relationship (\<open>recipe.user = u\<close>, \<open>user.recipes.append(r)\<close>)
  copies the user's key into \<open>user_id\<close> at flush.
  One request is one operation of \<open>store_op\<close>, committed on its own; \<open>store_step\<close> runs it.
\<close>

section \<open>Tables\<close>

record db =
  users :: "(int \<times> user) list"
  recipes :: "(int \<times> recipe) list"

definition empty_db :: db where
  "empty_db = \<lparr>users = [], recipes = []\<rparr>"

section \<open>Constraints checked at commit\<close>

text \<open>
  \<open>username\<close> is \<open>nullable=False, unique=True\<close> and \<open>id\<close> the primary key (lines 10--11);
  \<open>others\<close> are the rows the committed row must not collide with. SQLite checks
  \<open>NOT NULL\<close> first, then the primary key, then the \<open>UNIQUE\<close> columns.
\<close>

definition check_user_row :: "(int \<times> user) list \<Rightarrow> user \<Rightarrow> unit result" where
  "check_user_row others u =
     (if username u = None then Inl (IntegrityError ''NOT NULL constraint failed: users.username'')
      else if (case u_id u of None \<Rightarrow> False | Some k \<Rightarrow> k \<in> set (map fst others))
      then Inl (IntegrityError ''UNIQUE constraint failed: users.id'')
      else if username u \<in> set (map (username \<circ> snd) others)
      then Inl (IntegrityError ''UNIQUE constraint failed: users.username'')
      else Inr ())"

text \<open>\<open>title\<close>, \<open>instructions\<close> and \<open>minutes_to_complete\<close> are \<open>nullable=False\<close> (lines 53--55).\<close>

definition check_recipe_row :: "recipe \<Rightarrow> unit result" where
  "check_recipe_row r =
     (if title r = None then Inl (IntegrityError ''NOT NULL constraint failed: recipes.title'')
      else if instructions r = None
      then Inl (IntegrityError ''NOT NULL constraint failed: recipes.instructions'')
      else if minutes_to_complete r = None
      then Inl (IntegrityError ''NOT NULL constraint failed: recipes.minutes_to_complete'')
      else Inr ())"

text \<open>The integer parameters of a recipes row: \<open>id\<close>, \<open>minutes_to_complete\<close>, \<open>user_id\<close>.\<close>

definition bind_recipe :: "recipe \<Rightarrow> unit result" where
  "bind_recipe r =
     then_do (bind_int (r_id r)) (\<lambda>_.
     then_do (bind_int (minutes_to_complete r)) (\<lambda>_. bind_int (user_id r)))"

section \<open>Committing one record\<close>

text \<open>\<open>session.add(user); session.commit()\<close> for a new User.\<close>

definition insert_user :: "db \<Rightarrow> user \<Rightarrow> db result" where
  "insert_user d u =
     then_do (bind_int (u_id u)) (\<lambda>_.
     then_do (case u_id u of None \<Rightarrow> next_rowid (users d) | Some i \<Rightarrow> Inr i) (\<lambda>k.
       let u' = u\<lparr>u_id := Some k\<rparr>
       in then_do (check_user_row (users d) u') (\<lambda>_. Inr (d\<lparr>users := AList.update k u' (users d)\<rparr>))))"

text \<open>
  Committing a loaded User \<open>k\<close> after an assignment. A changed \<open>id\<close> moves the row (the
  foreign keys that pointed at \<open>k\<close> are not updated: the ORM leaves that to the database,
  which does not enforce them); a \<open>None\<close> \<open>id\<close> is refused by the flush.
\<close>

definition update_user_row :: "db \<Rightarrow> int \<Rightarrow> user \<Rightarrow> db result" where
  "update_user_row d k u' =
     (case u_id u' of
        None \<Rightarrow> Inl (FlushError ''NULL primary key value on column users.id'')
      | Some k' \<Rightarrow>
          then_do (bind_int (Some k')) (\<lambda>_.
            let others = AList.delete k (users d)
            in then_do (check_user_row others u')
                 (\<lambda>_. Inr (d\<lparr>users := AList.update k' u' (if k' = k then users d else others)\<rparr>))))"

definition insert_recipe :: "db \<Rightarrow> recipe \<Rightarrow> db result" where
  "insert_recipe d r =
     then_do (bind_recipe r) (\<lambda>_.
     then_do (case r_id r of None \<Rightarrow> next_rowid (recipes d) | Some i \<Rightarrow> Inr i) (\<lambda>k.
       let r' = r\<lparr>r_id := Some k\<rparr>
       in then_do (check_recipe_row r') (\<lambda>_.
            if k \<in> set (map fst (recipes d))
            then Inl (IntegrityError ''UNIQUE constraint failed: recipes.id'')
            else Inr (d\<lparr>recipes := AList.update k r' (recipes d)\<rparr>))))"

definition update_recipe_row :: "db \<Rightarrow> int \<Rightarrow> recipe \<Rightarrow> db result" where
  "update_recipe_row d k r' =
     (case r_id r' of
        None \<Rightarrow> Inl (FlushError ''NULL primary key value on column recipes.id'')
      | Some k' \<Rightarrow>
          then_do (bind_recipe r') (\<lambda>_.
            let others = AList.delete k (recipes d)
            in then_do (check_recipe_row r') (\<lambda>_.
                 if k' \<noteq> k \<and> k' \<in> set (map fst others)
                 then Inl (IntegrityError ''UNIQUE constraint failed: recipes.id'')
                 else Inr (d\<lparr>recipes := AList.update k' r' (if k' = k then recipes d else others)\<rparr>))))"

text \<open>
  \<open>session.delete(user)\<close>: the relationship has no delete cascade, so the recipes it owned
  stay, with \<open>user_id\<close> set to \<open>None\<close>.
\<close>

definition nullify_owner :: "int \<Rightarrow> recipe \<Rightarrow> recipe" where
  "nullify_owner k r = (if user_id r = Some k then r\<lparr>user_id := None\<rparr> else r)"

definition delete_user :: "db \<Rightarrow> int \<Rightarrow> db result" where
  "delete_user d k =
     (case map_of (users d) k of
        None \<Rightarrow> Inl (NoResultFound ''users'')
      | Some _ \<Rightarrow> Inr (d\<lparr>users := AList.delete k (users d),
                        recipes := map (\<lambda>(j, r). (j, nullify_owner k r)) (recipes d)\<rparr>))"

definition delete_recipe :: "db \<Rightarrow> int \<Rightarrow> db result" where
  "delete_recipe d k =
     (case map_of (recipes d) k of
        None \<Rightarrow> Inl (NoResultFound ''recipes'')
      | Some _ \<Rightarrow> Inr (d\<lparr>recipes := AList.delete k (recipes d)\<rparr>))"

section \<open>The relationship\<close>

text \<open>\<open>recipe.user\<close>: the User whose key is the recipe's \<open>user_id\<close>, if there is one.\<close>

definition recipe_owner :: "db \<Rightarrow> recipe \<Rightarrow> user option" where
  "recipe_owner d r = (case user_id r of None \<Rightarrow> None | Some k \<Rightarrow> map_of (users d) k)"

text \<open>
  \<open>user.recipes\<close>: the lazy load runs \<open>SELECT ... FROM recipes WHERE recipes.user_id = ?\<close>
  with no \<open>ORDER BY\<close>; SQLite answers it by a scan of the table in rowid order, which is
  the order of the keys (the table list itself is kept in the order rows were written).
\<close>

definition user_recipes :: "db \<Rightarrow> int \<Rightarrow> recipe list" where
  "user_recipes d k = map snd (sort_key fst (filter (\<lambda>(j, r). user_id r = Some k) (recipes d)))"

text \<open>\<open>recipe.to_dict()\<close> of a stored recipe.\<close>

definition stored_recipe_dict :: "db \<Rightarrow> recipe \<Rightarrow> pydict" where
  "stored_recipe_dict d r = recipe_to_dict (recipe_owner d r) r"

text \<open>
  Assignment through the relationship of line 17: \<open>recipe.user = u\<close> for a loaded user
  \<open>u\<close> (or \<open>None\<close>), and \<open>u.recipes.append(recipe)\<close> through the back-reference. Both
  load their objects first and, at flush, copy \<open>u.id\<close> into the recipe's \<open>user_id\<close>
  (or \<open>NULL\<close>); the recipe row is then committed as by an update.
\<close>

definition set_recipe_user :: "db \<Rightarrow> int \<Rightarrow> int option \<Rightarrow> db result" where
  "set_recipe_user d k owner =
     (case map_of (recipes d) k of
        None \<Rightarrow> Inl (NoResultFound ''recipes'')
      | Some r \<Rightarrow>
          (case owner of
             None \<Rightarrow> update_recipe_row d k (r\<lparr>user_id := None\<rparr>)
           | Some j \<Rightarrow>
               (case map_of (users d) j of
                  None \<Rightarrow> Inl (NoResultFound ''users'')
                | Some u \<Rightarrow> update_recipe_row d k (r\<lparr>user_id := u_id u\<rparr>))))"

definition append_user_recipe :: "db \<Rightarrow> int \<Rightarrow> int \<Rightarrow> db result" where
  "append_user_recipe d j k =
     (case map_of (users d) j of
        None \<Rightarrow> Inl (NoResultFound ''users'')
      | Some u \<Rightarrow>
          (case map_of (recipes d) k of
             None \<Rightarrow> Inl (NoResultFound ''recipes'')
           | Some r \<Rightarrow> update_recipe_row d k (r\<lparr>user_id := u_id u\<rparr>)))"

section \<open>Requests\<close>

datatype ('salt, 'pw) store_op =
    CreateUser "('salt, 'pw) user_assign list"
  | UpdateUser int "('salt, 'pw) user_assign"
  | DeleteUser int
  | CreateRecipe "recipe_assign list"
  | UpdateRecipe int recipe_assign
  | DeleteRecipe int
  | SetRecipeUser int "int option"
  | AppendUserRecipe int int

fun store_step :: "('salt, 'pw) hasher \<Rightarrow> db \<Rightarrow> ('salt, 'pw) store_op \<Rightarrow> db result" where
  "store_step H d (CreateUser kwargs) = then_do (user_init H kwargs) (insert_user d)"
| "store_step H d (UpdateUser k a) =
     (case map_of (users d) k of
        None \<Rightarrow> Inl (NoResultFound ''users'')
      | Some u \<Rightarrow> then_do (user_setattr H u a) (update_user_row d k))"
| "store_step H d (DeleteUser k) = delete_user d k"
| "store_step H d (CreateRecipe kwargs) = then_do (recipe_init kwargs) (insert_recipe d)"
| "store_step H d (UpdateRecipe k a) =
     (case map_of (recipes d) k of
        None \<Rightarrow> Inl (NoResultFound ''recipes'')
      | Some r \<Rightarrow> then_do (recipe_setattr r a) (update_recipe_row d k))"
| "store_step H d (DeleteRecipe k) = delete_recipe d k"
| "store_step H d (SetRecipeUser k owner) = set_recipe_user d k owner"
| "store_step H d (AppendUserRecipe j k) = append_user_recipe d j k"

text \<open>A sequence of requests; a failed request is rolled back and leaves the store as it was.\<close>

fun store_run :: "('salt, 'pw) hasher \<Rightarrow> db \<Rightarrow> ('salt, 'pw) store_op list \<Rightarrow> db" where
  "store_run H d [] = d"
| "store_run H d (op # ops) =
     store_run H (case store_step H d op of Inl _ \<Rightarrow> d | Inr d' \<Rightarrow> d') ops"

section \<open>Invariant\<close>

definition users_inv :: "(int \<times> user) list \<Rightarrow> bool" where
  "users_inv us \<longleftrightarrow>
     distinct (map fst us) \<and>
     list_all (\<lambda>(k, u). u_id u = Some k \<and> int64_ok k \<and> username u \<noteq> None \<and> user_inv u) us \<and>
     list_all (\<lambda>(k, u). list_all (\<lambda>(k', u'). username u = username u' \<longrightarrow> k = k') us) us"

definition recipes_inv :: "(int \<times> recipe) list \<Rightarrow> bool" where
  "recipes_inv rs \<longleftrightarrow>
     distinct (map fst rs) \<and>
     list_all (\<lambda>(k, r). r_id r = Some k \<and> bind_recipe r = Inr () \<and> check_recipe_row r = Inr () \<and>
       recipe_inv r) rs"

definition db_inv :: "db \<Rightarrow> bool" where
  "db_inv d \<longleftrightarrow> users_inv (users d) \<and> recipes_inv (recipes d)"

inductive store_reachable :: "('salt, 'pw) hasher \<Rightarrow> db \<Rightarrow> bool" for H where
  start: "store_reachable H empty_db"
| step: "store_reachable H d \<Longrightarrow> store_step H d op = Inr d' \<Longrightarrow> store_reachable H d'"

section \<open>A scenario\<close>

text \<open>
  Three requests: create the user \<open>chef1\<close>, set its password to \<open>hunter2\<close> (the
  constructor refuses a \<open>password_hash\<close> keyword, so a handler assigns it afterwards),
  then create a recipe owned by that user (key 1).
\<close>

definition chef_ops :: "(string, string) store_op list" where
  "chef_ops =
     [CreateUser [Set_username (Some ''chef1'')],
      UpdateUser 1 (Set_password_hash test_salt ''hunter2''),
      CreateRecipe [Set_title (Some ''Soup''), Set_instructions (Some (replicate 50 CHR ''x'')),
                    Set_minutes_to_complete (Some 30), Set_user_id (Some 1)]]"

section \<open>Helper lemmas: tables\<close>

lemma update_fresh_append:
  "k \<notin> set (map fst al) \<Longrightarrow> AList.update k v al = al @ [(k, v)]"
  by (induction al) auto

lemma set_update_distinct:
  "distinct (map fst al) \<Longrightarrow> set (AList.update k v al) = insert (k, v) {x \<in> set al. fst x \<noteq> k}"
  by (induction al) (auto simp: image_iff)

lemma set_delete: "set (AList.delete k al) = {x \<in> set al. fst x \<noteq> k}"
  by (auto simp: AList.delete_eq)

lemma users_inv_iff:
  "users_inv us \<longleftrightarrow>
     distinct (map fst us) \<and>
     (\<forall>(k, u) \<in> set us. u_id u = Some k \<and> int64_ok k \<and> username u \<noteq> None \<and> user_inv u) \<and>
     (\<forall>(k, u) \<in> set us. \<forall>(k', u') \<in> set us. username u = username u' \<longrightarrow> k = k')"
  by (simp add: users_inv_def list_all_iff)

lemma recipes_inv_iff:
  "recipes_inv rs \<longleftrightarrow>
     distinct (map fst rs) \<and>
     (\<forall>(k, r) \<in> set rs. r_id r = Some k \<and> bind_recipe r = Inr () \<and> check_recipe_row r = Inr () \<and>
        recipe_inv r)"
  by (simp add: recipes_inv_def list_all_iff)

lemma users_inv_subset:
  "users_inv us \<Longrightarrow> distinct (map fst vs) \<Longrightarrow> set vs \<subseteq> set us \<Longrightarrow> users_inv vs"
  unfolding users_inv_iff by blast

lemma recipes_inv_subset:
  "recipes_inv rs \<Longrightarrow> distinct (map fst vs) \<Longrightarrow> set vs \<subseteq> set rs \<Longrightarrow> recipes_inv vs"
  unfolding recipes_inv_iff by blast

lemma users_inv_add:
  assumes "users_inv others" "distinct (map fst new)" "set new = insert (k, u) (set others)"
    and "u_id u = Some k" "int64_ok k" "user_inv u" "check_user_row others u = Inr ()"
  shows "users_inv new"
  using assms unfolding users_inv_iff check_user_row_def
  by (auto split: if_splits simp: image_iff) 

lemma recipes_inv_add:
  assumes "recipes_inv others" "distinct (map fst new)" "set new = insert (k, r) (set others)"
    and "r_id r = Some k" "bind_recipe r = Inr ()" "check_recipe_row r = Inr ()" "recipe_inv r"
  shows "recipes_inv new"
  using assms unfolding recipes_inv_iff by auto

lemma insert_row_set:
  assumes "distinct (map fst tbl)" "k \<notin> set (map fst tbl)"
  shows "distinct (map fst (AList.update k v tbl)) \<and> set (AList.update k v tbl) = insert (k, v) (set tbl)"
  using assms by (simp add: update_fresh_append)

lemma commit_row_set:
  assumes "distinct (map fst tbl)" and "k' = k \<or> k' \<notin> set (map fst (AList.delete k tbl))"
  shows "distinct (map fst (AList.update k' v (if k' = k then tbl else AList.delete k tbl))) \<and>
         set (AList.update k' v (if k' = k then tbl else AList.delete k tbl)) =
           insert (k', v) (set (AList.delete k tbl))"
proof (cases "k' = k")
  case True
  with assms(1) show ?thesis by (simp add: distinct_update set_update_distinct set_delete)
next
  case False
  with assms have "k' \<notin> set (map fst (AList.delete k tbl))" by simp
  moreover have "distinct (map fst (AList.delete k tbl))" using assms(1) by (rule distinct_delete)
  ultimately show ?thesis using False by (simp add: update_fresh_append)
qed

lemma user_inv_u_id [simp]: "user_inv (u\<lparr>u_id := k\<rparr>) = user_inv u"
  by (simp add: user_inv_def)

lemma recipe_inv_r_id [simp]: "recipe_inv (r\<lparr>r_id := k\<rparr>) = recipe_inv r"
  by (simp add: recipe_inv_def)

lemma check_recipe_row_r_id [simp]: "check_recipe_row (r\<lparr>r_id := k\<rparr>) = check_recipe_row r"
  by (simp add: check_recipe_row_def)

lemma bind_recipe_Inr [simp]:
  "bind_recipe r = Inr () \<longleftrightarrow>
     pred_option int64_ok (r_id r) \<and> pred_option int64_ok (minutes_to_complete r) \<and>
     pred_option int64_ok (user_id r)"
  by (simp add: bind_recipe_def then_do_unit_Inr)

lemma check_user_row_Inr:
  "check_user_row others u = Inr () \<longleftrightarrow>
     username u \<noteq> None \<and> (case u_id u of None \<Rightarrow> True | Some k \<Rightarrow> k \<notin> set (map fst others)) \<and>
     username u \<notin> set (map (username \<circ> snd) others)"
  by (auto simp: check_user_row_def split: option.splits)

lemma key_choice_Inr:
  "(case v of None \<Rightarrow> next_rowid tbl | Some i \<Rightarrow> Inr i) = Inr k \<longleftrightarrow>
     (case v of None \<Rightarrow> next_rowid tbl = Inr k | Some i \<Rightarrow> k = i)"
  by (cases v) auto

lemma key_choice_int64:
  assumes "list_all (\<lambda>(j, _). int64_ok j) tbl" and "pred_option int64_ok v"
    and "case v of None \<Rightarrow> next_rowid tbl = Inr k | Some i \<Rightarrow> k = i"
  shows "int64_ok k"
  using assms by (cases v) (auto dest: next_rowid_int64)

lemma insert_user_Inr:
  "insert_user d u = Inr d' \<longleftrightarrow>
     (\<exists>k. pred_option int64_ok (u_id u) \<and>
          (case u_id u of None \<Rightarrow> next_rowid (users d) = Inr k | Some i \<Rightarrow> k = i) \<and>
          check_user_row (users d) (u\<lparr>u_id := Some k\<rparr>) = Inr () \<and>
          d' = d\<lparr>users := AList.update k (u\<lparr>u_id := Some k\<rparr>) (users d)\<rparr>)"
  by (auto simp: insert_user_def then_do_unit_Inr then_do_eq_Inr key_choice_Inr Let_def)

lemma update_user_row_Inr:
  "update_user_row d k u' = Inr d' \<longleftrightarrow>
     (\<exists>k'. u_id u' = Some k' \<and> int64_ok k' \<and> check_user_row (AList.delete k (users d)) u' = Inr () \<and>
        d' = d\<lparr>users := AList.update k' u' (if k' = k then users d else AList.delete k (users d))\<rparr>)"
  by (auto simp: update_user_row_def then_do_unit_Inr Let_def split: option.splits)

lemma insert_recipe_Inr:
  "insert_recipe d r = Inr d' \<longleftrightarrow>
     (\<exists>k. bind_recipe r = Inr () \<and>
          (case r_id r of None \<Rightarrow> next_rowid (recipes d) = Inr k | Some i \<Rightarrow> k = i) \<and>
          check_recipe_row r = Inr () \<and> k \<notin> set (map fst (recipes d)) \<and>
          d' = d\<lparr>recipes := AList.update k (r\<lparr>r_id := Some k\<rparr>) (recipes d)\<rparr>)"
  unfolding insert_recipe_def then_do_unit_Inr then_do_eq_Inr key_choice_Inr Let_def
  by (auto split: if_splits simp del: bind_recipe_Inr)

lemma update_recipe_row_Inr:
  "update_recipe_row d k r' = Inr d' \<longleftrightarrow>
     (\<exists>k'. r_id r' = Some k' \<and> bind_recipe r' = Inr () \<and> check_recipe_row r' = Inr () \<and>
        (k' = k \<or> k' \<notin> set (map fst (AList.delete k (recipes d)))) \<and>
        d' = d\<lparr>recipes := AList.update k' r' (if k' = k then recipes d else AList.delete k (recipes d))\<rparr>)"
proof (cases "r_id r'")
  case None
  then show ?thesis by (simp add: update_recipe_row_def)
next
  case (Some k')
  have "update_recipe_row d k r' = Inr d' \<longleftrightarrow>
     bind_recipe r' = Inr () \<and> check_recipe_row r' = Inr () \<and>
     (k' = k \<or> k' \<notin> set (map fst (AList.delete k (recipes d)))) \<and>
     d' = d\<lparr>recipes := AList.update k' r' (if k' = k then recipes d else AList.delete k (recipes d))\<rparr>"
    unfolding update_recipe_row_def Some option.case then_do_unit_Inr Let_def
    by (cases "bind_recipe r'"; cases "check_recipe_row r'") (auto simp del: bind_recipe_Inr)
  with Some show ?thesis by simp
qed

lemma users_inv_keys64: "users_inv us \<Longrightarrow> list_all (\<lambda>(j, _). int64_ok j) us"
  by (auto simp: users_inv_def list_all_iff)

lemma recipes_inv_keys64: "recipes_inv rs \<Longrightarrow> list_all (\<lambda>(j, _). int64_ok j) rs"
  by (auto simp: recipes_inv_def list_all_iff)

lemma insert_user_inv:
  assumes inv: "users_inv (users d)" and u: "user_inv u" and ins: "insert_user d u = Inr d'"
  shows "users_inv (users d') \<and> recipes d' = recipes d"
proof -
  from ins obtain k where b: "pred_option int64_ok (u_id u)"
    and kc: "case u_id u of None \<Rightarrow> next_rowid (users d) = Inr k | Some i \<Rightarrow> k = i"
    and chk: "check_user_row (users d) (u\<lparr>u_id := Some k\<rparr>) = Inr ()"
    and d': "d' = d\<lparr>users := AList.update k (u\<lparr>u_id := Some k\<rparr>) (users d)\<rparr>"
    by (auto simp: insert_user_Inr)
  from chk have fresh: "k \<notin> set (map fst (users d))" by (simp add: check_user_row_Inr)
  from key_choice_int64 [OF users_inv_keys64 [OF inv] b kc] have k64: "int64_ok k" .
  from inv have "distinct (map fst (users d))" by (simp add: users_inv_def)
  from insert_row_set [OF this fresh] inv chk u d' k64 show ?thesis
    by (auto intro: users_inv_add)
qed

lemma insert_recipe_inv:
  assumes inv: "recipes_inv (recipes d)" and r: "recipe_inv r" and ins: "insert_recipe d r = Inr d'"
  shows "recipes_inv (recipes d') \<and> users d' = users d"
proof -
  from ins obtain k where b: "bind_recipe r = Inr ()"
    and kc: "case r_id r of None \<Rightarrow> next_rowid (recipes d) = Inr k | Some i \<Rightarrow> k = i"
    and chk: "check_recipe_row r = Inr ()" and fresh: "k \<notin> set (map fst (recipes d))"
    and d': "d' = d\<lparr>recipes := AList.update k (r\<lparr>r_id := Some k\<rparr>) (recipes d)\<rparr>"
    by (auto simp: insert_recipe_Inr simp del: bind_recipe_Inr)
  from b have "pred_option int64_ok (r_id r)" by simp
  from key_choice_int64 [OF recipes_inv_keys64 [OF inv] this kc] b
  have b': "bind_recipe (r\<lparr>r_id := Some k\<rparr>) = Inr ()" by simp
  from inv have "distinct (map fst (recipes d))" by (simp add: recipes_inv_def)
  from insert_row_set [OF this fresh] inv chk r d' b' show ?thesis
    by (auto intro: recipes_inv_add)
qed

lemma users_inv_delete: "users_inv us \<Longrightarrow> users_inv (AList.delete k us)"
  unfolding users_inv_iff by (auto simp: distinct_delete set_delete)

lemma recipes_inv_delete: "recipes_inv rs \<Longrightarrow> recipes_inv (AList.delete k rs)"
  unfolding recipes_inv_iff by (auto simp: distinct_delete set_delete)

lemma update_user_row_inv:
  assumes inv: "users_inv (users d)" and u': "user_inv u'" and upd: "update_user_row d k u' = Inr d'"
  shows "users_inv (users d') \<and> recipes d' = recipes d"
proof -
  from upd obtain k' where k': "u_id u' = Some k'" and k64: "int64_ok k'"
    and chk: "check_user_row (AList.delete k (users d)) u' = Inr ()"
    and d': "d' = d\<lparr>users := AList.update k' u' (if k' = k then users d else AList.delete k (users d))\<rparr>"
    by (auto simp: update_user_row_Inr)
  from chk k' have key: "k' = k \<or> k' \<notin> set (map fst (AList.delete k (users d)))"
    by (simp add: check_user_row_Inr)
  from inv have dist: "distinct (map fst (users d))" by (simp add: users_inv_def)
  from inv have others: "users_inv (AList.delete k (users d))" by (rule users_inv_delete)
  from commit_row_set [OF dist key, of u'] others k' k64 u' chk d' show ?thesis
    by (auto intro: users_inv_add)
qed

lemma update_recipe_row_inv:
  assumes inv: "recipes_inv (recipes d)" and r': "recipe_inv r'" and upd: "update_recipe_row d k r' = Inr d'"
  shows "recipes_inv (recipes d') \<and> users d' = users d"
proof -
  from upd obtain k' where k': "r_id r' = Some k'" and b: "bind_recipe r' = Inr ()"
    and key: "k' = k \<or> k' \<notin> set (map fst (AList.delete k (recipes d)))"
    and chk: "check_recipe_row r' = Inr ()"
    and d': "d' = d\<lparr>recipes := AList.update k' r' (if k' = k then recipes d else AList.delete k (recipes d))\<rparr>"
    by (auto simp: update_recipe_row_Inr simp del: bind_recipe_Inr)
  from inv have dist: "distinct (map fst (recipes d))" by (simp add: recipes_inv_def)
  from inv have others: "recipes_inv (AList.delete k (recipes d))" by (rule recipes_inv_delete)
  from commit_row_set [OF dist key, of r'] others k' b r' chk d' show ?thesis
    by (auto intro: recipes_inv_add)
qed

lemma fst_map_row [simp]: "fst \<circ> (\<lambda>(j, r). (j, f r)) = fst"
  by (auto simp: fun_eq_iff)

lemma recipes_inv_map:
  assumes inv: "recipes_inv rs"
    and f: "\<And>r. r_id (f r) = r_id r \<and> check_recipe_row (f r) = check_recipe_row r \<and> recipe_inv (f r) = recipe_inv r \<and>
              (bind_recipe r = Inr () \<longrightarrow> bind_recipe (f r) = Inr ())"
  shows "recipes_inv (map (\<lambda>(j, r). (j, f r)) rs)"
  using inv unfolding recipes_inv_iff by (auto simp: f simp del: bind_recipe_Inr)

lemma nullify_owner_fields:
  "r_id (nullify_owner k r) = r_id r \<and> check_recipe_row (nullify_owner k r) = check_recipe_row r \<and>
   recipe_inv (nullify_owner k r) = recipe_inv r \<and>
   (bind_recipe r = Inr () \<longrightarrow> bind_recipe (nullify_owner k r) = Inr ())"
  by (simp add: nullify_owner_def check_recipe_row_def recipe_inv_def)

lemma delete_user_inv:
  assumes inv: "db_inv d" and del: "delete_user d k = Inr d'"
  shows "db_inv d'"
proof -
  from del have d': "d' = d\<lparr>users := AList.delete k (users d),
      recipes := map (\<lambda>(j, r). (j, nullify_owner k r)) (recipes d)\<rparr>"
    by (auto simp: delete_user_def split: option.splits)
  from inv have "users_inv (users d)" by (simp add: db_inv_def)
  then have u: "users_inv (AList.delete k (users d))" by (rule users_inv_delete)
  from inv have "recipes_inv (recipes d)" by (simp add: db_inv_def)
  then have r: "recipes_inv (map (\<lambda>(j, r). (j, nullify_owner k r)) (recipes d))"
    by (rule recipes_inv_map) (rule nullify_owner_fields)
  from u r d' show ?thesis by (simp add: db_inv_def)
qed

lemma delete_recipe_inv:
  assumes inv: "db_inv d" and del: "delete_recipe d k = Inr d'"
  shows "db_inv d'"
proof -
  from del have d': "d' = d\<lparr>recipes := AList.delete k (recipes d)\<rparr>"
    by (auto simp: delete_recipe_def split: option.splits)
  from inv have "recipes_inv (recipes d)" by (simp add: db_inv_def)
  then have "recipes_inv (AList.delete k (recipes d))" by (rule recipes_inv_delete)
  with inv d' show ?thesis by (simp add: db_inv_def)
qed

lemma users_inv_row:
  "users_inv us \<Longrightarrow> map_of us k = Some u \<Longrightarrow> user_inv u"
  by (auto simp: users_inv_iff dest!: map_of_SomeD)

lemma recipes_inv_row:
  "recipes_inv rs \<Longrightarrow> map_of rs k = Some r \<Longrightarrow> recipe_inv r"
  by (auto simp: recipes_inv_iff dest!: map_of_SomeD)

lemma set_user_id_inv:
  assumes inv: "db_inv d" and r: "map_of (recipes d) k = Some r"
    and upd: "update_recipe_row d k (r\<lparr>user_id := v\<rparr>) = Inr d'"
  shows "db_inv d'"
proof -
  from inv have rs: "recipes_inv (recipes d)" by (simp add: db_inv_def)
  from rs r have "recipe_inv r" by (rule recipes_inv_row)
  then have "recipe_inv (r\<lparr>user_id := v\<rparr>)" by (simp add: recipe_inv_def)
  from update_recipe_row_inv [OF rs this upd] inv show ?thesis by (simp add: db_inv_def)
qed

lemma set_recipe_user_Inr:
  "set_recipe_user d k owner = Inr d' \<Longrightarrow>
     \<exists>r v. map_of (recipes d) k = Some r \<and> update_recipe_row d k (r\<lparr>user_id := v\<rparr>) = Inr d'"
  by (auto simp: set_recipe_user_def split: option.splits)

lemma append_user_recipe_Inr:
  "append_user_recipe d j k = Inr d' \<Longrightarrow>
     \<exists>u r. map_of (users d) j = Some u \<and> map_of (recipes d) k = Some r \<and>
       update_recipe_row d k (r\<lparr>user_id := u_id u\<rparr>) = Inr d'"
  by (auto simp: append_user_recipe_def split: option.splits)

lemma store_step_inv:
  assumes inv: "db_inv d" and step: "store_step H d op = Inr d'"
  shows "db_inv d'"
proof (cases op)
  case (CreateUser kwargs)
  from step CreateUser obtain u where init: "run_all (user_ctor_kw H) new_user kwargs = Inr u"
    and ins: "insert_user d u = Inr d'"
    by (auto simp: then_do_eq_Inr user_init_def)
  from init have u: "user_inv u" by (rule user_run_inv [OF user_inv_new_user])
  from inv have "users_inv (users d)" by (simp add: db_inv_def)
  from insert_user_inv [OF this u ins] inv show ?thesis by (simp add: db_inv_def)
next
  case (UpdateUser k a)
  from step UpdateUser obtain u u' where u: "map_of (users d) k = Some u"
    and set: "user_setattr H u a = Inr u'" and upd: "update_user_row d k u' = Inr d'"
    by (auto simp: then_do_eq_Inr split: option.splits)
  from inv have us: "users_inv (users d)" by (simp add: db_inv_def)
  from us u have "user_inv u" by (rule users_inv_row)
  from this set have "user_inv u'" by (rule user_setattr_inv)
  from update_user_row_inv [OF us this upd] inv show ?thesis by (simp add: db_inv_def)
next
  case (DeleteUser k)
  from step DeleteUser have "delete_user d k = Inr d'" by simp
  with inv show ?thesis by (rule delete_user_inv)
next
  case (CreateRecipe kwargs)
  from step CreateRecipe obtain r where init: "run_all recipe_setattr new_recipe kwargs = Inr r"
    and ins: "insert_recipe d r = Inr d'"
    by (auto simp: then_do_eq_Inr recipe_init_def)
  from init have r: "recipe_inv r" by (rule recipe_run_inv [OF recipe_inv_new_recipe])
  from inv have "recipes_inv (recipes d)" by (simp add: db_inv_def)
  from insert_recipe_inv [OF this r ins] inv show ?thesis by (simp add: db_inv_def)
next
  case (UpdateRecipe k a)
  from step UpdateRecipe obtain r r' where r: "map_of (recipes d) k = Some r"
    and set: "recipe_setattr r a = Inr r'" and upd: "update_recipe_row d k r' = Inr d'"
    by (auto simp: then_do_eq_Inr split: option.splits)
  from inv have rs: "recipes_inv (recipes d)" by (simp add: db_inv_def)
  from rs r have "recipe_inv r" by (rule recipes_inv_row)
  from this set have "recipe_inv r'" by (rule recipe_setattr_inv)
  from update_recipe_row_inv [OF rs this upd] inv show ?thesis by (simp add: db_inv_def)
next
  case (DeleteRecipe k)
  from step DeleteRecipe have "delete_recipe d k = Inr d'" by simp
  with inv show ?thesis by (rule delete_recipe_inv)
next
  case (SetRecipeUser k owner)
  from step SetRecipeUser obtain r v where "map_of (recipes d) k = Some r"
    and "update_recipe_row d k (r\<lparr>user_id := v\<rparr>) = Inr d'"
    by (auto dest: set_recipe_user_Inr)
  with inv show ?thesis by (rule set_user_id_inv)
next
  case (AppendUserRecipe j k)
  from step AppendUserRecipe have "append_user_recipe d j k = Inr d'" by simp
  then obtain u :: user and r where "map_of (recipes d) k = Some r"
    and "update_recipe_row d k (r\<lparr>user_id := u_id u\<rparr>) = Inr d'"
    by (blast dest: append_user_recipe_Inr)
  with inv show ?thesis by (rule set_user_id_inv)
qed

lemma store_reachable_inv: "store_reachable H d \<Longrightarrow> db_inv d"
proof (induction rule: store_reachable.induct)
  case start
  show ?case by (simp add: db_inv_def users_inv_def recipes_inv_def empty_db_def)
next
  case (step d op d')
  from step.IH step.hyps(2) show ?case by (rule store_step_inv)
qed

section \<open>Runs of requests\<close>

lemmas store_eval = insert_user_def insert_recipe_def update_user_row_def bind_recipe_def bind_int_def
  int64_ok_def sqlite_max_rowid_def
  update_recipe_row_def delete_user_def delete_recipe_def check_user_row_def check_recipe_row_def
  next_rowid_def empty_db_def user_init_def recipe_init_def validate_username_def
  validate_title_def validate_instructions_def instructions_min_len_def nullify_owner_def Let_def
  password_hash_set_def

lemma store_run_reachable:
  "store_reachable H d \<Longrightarrow> store_reachable H (store_run H d ops)"
proof (induction ops arbitrary: d)
  case Nil
  then show ?case by simp
next
  case (Cons op ops)
  have "store_reachable H (case store_step H d op of Inl _ \<Rightarrow> d | Inr d' \<Rightarrow> d')"
    using Cons.prems by (auto intro: store_reachable.step split: sum.splits)
  then show ?case by (simp add: Cons.IH)
qed

lemma store_run_inv: "db_inv (store_run H empty_db ops)"
  by (rule store_reachable_inv [OF store_run_reachable [OF store_reachable.start]])

lemma chef_ops_run:
  "store_run test_bcrypt empty_db chef_ops =
     \<lparr>users = [(1, new_user\<lparr>u_id := Some 1, username := Some ''chef1'',
                             u_password_hash := Some (test_salt @ ''hunter2'')\<rparr>)],
      recipes = [(1, new_recipe\<lparr>r_id := Some 1, title := Some ''Soup'',
                                 instructions := Some (replicate 50 CHR ''x''),
                                 minutes_to_complete := Some 30, user_id := Some 1\<rparr>)]\<rparr>"
  by (simp add: chef_ops_def store_eval bcrypt_max_pw_def new_user_def new_recipe_def)

text \<open>
  A key is reused: the rowid rule looks only at the keys present, so after the user with the
  largest key is deleted the next user receives that key again.
\<close>

lemma rowid_reuse_example:
  "store_run test_bcrypt empty_db
     [CreateUser [Set_username (Some ''a'')], CreateUser [Set_username (Some ''b'')], DeleteUser 2,
      CreateUser [Set_username (Some ''c'')]] =
   \<lparr>users = [(1, new_user\<lparr>u_id := Some 1, username := Some ''a''\<rparr>),
             (2, new_user\<lparr>u_id := Some 2, username := Some ''c''\<rparr>)], recipes = []\<rparr>"
  by (simp add: store_eval new_user_def)

section \<open>Helper lemmas: the relationship\<close>

lemma stored_user_key: "db_inv d \<Longrightarrow> map_of (users d) j = Some u \<Longrightarrow> u_id u = Some j"
  by (auto simp: db_inv_def users_inv_iff dest!: map_of_SomeD)

lemma check_recipe_row_user_id [simp]: "check_recipe_row (r\<lparr>user_id := v\<rparr>) = check_recipe_row r"
  by (simp add: check_recipe_row_def)

text \<open>Setting the foreign key of a stored recipe always commits, in place.\<close>

lemma stored_user_key64: "db_inv d \<Longrightarrow> map_of (users d) j = Some u \<Longrightarrow> int64_ok j"
  by (auto simp: db_inv_def users_inv_iff dest!: map_of_SomeD)

lemma update_user_id_commit:
  assumes inv: "db_inv d" and r: "map_of (recipes d) k = Some r" and v: "pred_option int64_ok v"
  shows "update_recipe_row d k (r\<lparr>user_id := v\<rparr>) =
           Inr (d\<lparr>recipes := AList.update k (r\<lparr>user_id := v\<rparr>) (recipes d)\<rparr>)"
proof -
  from inv r have "r_id r = Some k" and "check_recipe_row r = Inr ()" and "bind_recipe r = Inr ()"
    by (auto simp: db_inv_def recipes_inv_iff simp del: bind_recipe_Inr dest!: map_of_SomeD)
  with v show ?thesis by (simp add: update_recipe_row_Inr)
qed

section \<open>Properties of the store\<close>

text \<open>
  C14. After any sequence of requests from the empty store, every stored row passes the
  checks of its model: every user has a non-empty username (the validator rejects the empty
  string and \<open>nullable=False\<close> a missing one), and every recipe has a non-empty title and
  instructions of at least 50 characters.
\<close>

theorem stored_rows_valid:
  "list_all (\<lambda>(k, u). \<exists>s. username u = Some s \<and> s \<noteq> []) (users (store_run H empty_db ops)) \<and>
   list_all (\<lambda>(k, r). (\<exists>s. instructions r = Some s \<and> 50 \<le> length s) \<and>
                       (\<exists>t. title r = Some t \<and> t \<noteq> [])) (recipes (store_run H empty_db ops))"
proof -
  from store_run_inv [of H ops] have
    u: "users_inv (users (store_run H empty_db ops))" and
    r: "recipes_inv (recipes (store_run H empty_db ops))"
    by (simp_all add: db_inv_def)
  have "\<exists>s. username u = Some s \<and> s \<noteq> []" if m: "(k, u) \<in> set (users (store_run H empty_db ops))" for k u
  proof -
    from u m have "username u \<noteq> None" and "user_inv u" unfolding users_inv_iff by auto
    then show ?thesis by (auto simp: user_inv_def)
  qed
  moreover have "(\<exists>s. instructions r = Some s \<and> 50 \<le> length s) \<and> (\<exists>t. title r = Some t \<and> t \<noteq> [])"
    if m: "(k, r) \<in> set (recipes (store_run H empty_db ops))" for k r
  proof -
    from r m have chk: "check_recipe_row r = Inr ()" and inv: "recipe_inv r"
      unfolding recipes_inv_iff by auto
    from chk obtain s t where "instructions r = Some s" and "title r = Some t"
      by (auto simp: check_recipe_row_def split: if_splits)
    with inv show ?thesis by (simp add: recipe_inv_def instructions_min_len_def)
  qed
  ultimately show ?thesis by (auto simp: list_all_iff)
qed

text \<open>
  C15. After any sequence of requests from the empty store, no two stored users share a
  username (\<open>unique=True\<close>).
\<close>

theorem stored_usernames_unique:
  assumes "(k, u) \<in> set (users (store_run H empty_db ops))"
    and "(k', u') \<in> set (users (store_run H empty_db ops))"
    and "username u = username u'"
  shows "k = k'"
proof -
  from store_run_inv [of H ops] have "users_inv (users (store_run H empty_db ops))"
    by (simp add: db_inv_def)
  with assms show ?thesis unfolding users_inv_iff by blast
qed

theorem stored_usernames_unique_witness:
  "(1, new_user\<lparr>u_id := Some 1, username := Some ''chef1'', u_password_hash := Some (test_salt @ ''hunter2'')\<rparr>)
     \<in> set (users (store_run test_bcrypt empty_db chef_ops)) \<and> (1::int) = 1"
proof -
  have m: "(1, new_user\<lparr>u_id := Some 1, username := Some ''chef1'',
      u_password_hash := Some (test_salt @ ''hunter2'')\<rparr>) \<in> set (users (store_run test_bcrypt empty_db chef_ops))"
    by (simp add: chef_ops_run)
  from m stored_usernames_unique [OF m m refl] show ?thesis by simp
qed

text \<open>
  C17. Deleting a user refines deletion from the abstract map of users, leaves no recipe
  owned by the deleted key, leaves the recipes of every other user as they were, and changes
  nothing in the recipes table but owner fields (the ORM sets the foreign key to
  \<open>NULL\<close>; nothing is cascaded).
\<close>

theorem delete_user_nullifies:
  assumes "delete_user d k = Inr d'"
  shows "map_of (users d') = (map_of (users d))(k := None) \<and> user_recipes d' k = [] \<and>
         (\<forall>j. j \<noteq> k \<longrightarrow> user_recipes d' j = user_recipes d j) \<and>
         map (\<lambda>(j, r). (j, r\<lparr>user_id := None\<rparr>)) (recipes d') =
           map (\<lambda>(j, r). (j, r\<lparr>user_id := None\<rparr>)) (recipes d)"
proof -
  from assms have d': "d' = d\<lparr>users := AList.delete k (users d),
      recipes := map (\<lambda>(j, r). (j, nullify_owner k r)) (recipes d)\<rparr>"
    by (auto simp: delete_user_def split: option.splits)
  have "filter (\<lambda>(i, r). user_id r = Some k) (map (\<lambda>(i, r). (i, nullify_owner k r)) rs) = []"
    for rs :: "(int \<times> recipe) list"
    by (induction rs) (auto simp: nullify_owner_def split: if_splits)
  then have "user_recipes d' k = []" by (simp add: d' user_recipes_def)
  moreover have "filter (\<lambda>(i, r). user_id r = Some j) (map (\<lambda>(i, r). (i, nullify_owner k r)) rs) =
      filter (\<lambda>(i, r). user_id r = Some j) rs" if "j \<noteq> k" for j and rs :: "(int \<times> recipe) list"
    using that by (induction rs) (auto simp: nullify_owner_def split: if_splits)
  then have "\<forall>j. j \<noteq> k \<longrightarrow> user_recipes d' j = user_recipes d j" by (simp add: d' user_recipes_def)
  moreover have "map (\<lambda>(j, r). (j, r\<lparr>user_id := None\<rparr>)) (recipes d') =
           map (\<lambda>(j, r). (j, r\<lparr>user_id := None\<rparr>)) (recipes d)"
    by (auto simp: d' nullify_owner_def)
  ultimately show ?thesis by (simp add: d' delete_conv')
qed

theorem delete_user_nullifies_witness:
  "delete_user (store_run test_bcrypt empty_db chef_ops) 1 =
     Inr \<lparr>users = [], recipes = [(1, new_recipe\<lparr>r_id := Some 1, title := Some ''Soup'',
                                 instructions := Some (replicate 50 CHR ''x''),
                                 minutes_to_complete := Some 30, user_id := None\<rparr>)]\<rparr> \<and>
   user_recipes \<lparr>users = [], recipes = [(1, new_recipe\<lparr>r_id := Some 1, title := Some ''Soup'',
                                 instructions := Some (replicate 50 CHR ''x''),
                                 minutes_to_complete := Some 30, user_id := None\<rparr>)]\<rparr> 1 = []"
proof -
  have del: "delete_user (store_run test_bcrypt empty_db chef_ops) 1 =
     Inr \<lparr>users = [], recipes = [(1, new_recipe\<lparr>r_id := Some 1, title := Some ''Soup'',
                                 instructions := Some (replicate 50 CHR ''x''),
                                 minutes_to_complete := Some 30, user_id := None\<rparr>)]\<rparr>"
    by (simp add: chef_ops_run delete_user_def nullify_owner_def)
  from del delete_user_nullifies [OF del] show ?thesis by blast
qed

text \<open>
  C18. Inserting a user refines insertion into the abstract map of users: the row lands at a
  key that was free, under which the user is stored with its \<open>id\<close> set to that key.
\<close>

theorem insert_user_refines:
  assumes "insert_user d u = Inr d'"
  shows "\<exists>k. map_of (users d) k = None \<and>
           map_of (users d') = (map_of (users d))(k \<mapsto> u\<lparr>u_id := Some k\<rparr>) \<and> recipes d' = recipes d"
proof -
  from assms obtain k where "check_user_row (users d) (u\<lparr>u_id := Some k\<rparr>) = Inr ()"
    and d': "d' = d\<lparr>users := AList.update k (u\<lparr>u_id := Some k\<rparr>) (users d)\<rparr>"
    by (auto simp: insert_user_Inr)
  then have fresh: "k \<notin> set (map fst (users d))" by (simp add: check_user_row_Inr)
  from fresh have "map_of (users d) k = None" by (simp add: map_of_eq_None_iff)
  with d' show ?thesis by (auto simp: update_conv')
qed

theorem insert_user_refines_witness:
  "insert_user empty_db (new_user\<lparr>username := Some ''chef1''\<rparr>) =
     Inr \<lparr>users = [(1, new_user\<lparr>username := Some ''chef1'', u_id := Some 1\<rparr>)], recipes = []\<rparr> \<and>
   map_of [(1::int, new_user\<lparr>username := Some ''chef1'', u_id := Some 1\<rparr>)] 1 =
     Some (new_user\<lparr>username := Some ''chef1'', u_id := Some 1\<rparr>)"
proof -
  have ins: "insert_user empty_db (new_user\<lparr>username := Some ''chef1''\<rparr>) =
     Inr \<lparr>users = [(1, new_user\<lparr>username := Some ''chef1'', u_id := Some 1\<rparr>)], recipes = []\<rparr>"
    by (simp add: store_eval new_user_def)
  from ins insert_user_refines [OF ins] show ?thesis by simp
qed

text \<open>
  C19. Creating a user whose username is already stored fails at commit with the
  \<open>UNIQUE\<close> constraint of \<open>users.username\<close> (line 11), and the store is not changed.
\<close>

theorem create_user_duplicate_username:
  assumes "(k, u0) \<in> set (users d)" and "username u0 = Some s" and "s \<noteq> []"
    and nr: "next_rowid (users d) = Inr j"
  shows "store_step H d (CreateUser [Set_username (Some s)]) =
           Inl (IntegrityError ''UNIQUE constraint failed: users.username'')"
proof -
  have init: "user_init H [Set_username (Some s)] = Inr (new_user\<lparr>username := Some s\<rparr>)"
    using assms(3) by (simp add: user_init_def validate_username_def)
  from next_rowid_fresh [OF nr] have fresh: "j \<notin> set (map fst (users d))" by simp
  from assms(1,2) have "Some s \<in> set (map (username \<circ> snd) (users d))" by force
  with init fresh nr show ?thesis
    by (simp add: insert_user_def bind_int_def check_user_row_def new_user_def)
qed

theorem create_user_duplicate_username_witness:
  "store_step test_bcrypt (store_run test_bcrypt empty_db chef_ops) (CreateUser [Set_username (Some ''chef1'')]) =
     Inl (IntegrityError ''UNIQUE constraint failed: users.username'')"
proof -
  have m: "(1, new_user\<lparr>u_id := Some 1, username := Some ''chef1'',
      u_password_hash := Some (test_salt @ ''hunter2'')\<rparr>) \<in> set (users (store_run test_bcrypt empty_db chef_ops))"
    by (simp add: chef_ops_run)
  have nr: "next_rowid (users (store_run test_bcrypt empty_db chef_ops)) = Inr 2"
    by (simp add: chef_ops_run next_rowid_def sqlite_max_rowid_def)
  show ?thesis
    by (rule create_user_duplicate_username [OF m _ _ nr]) simp_all
qed

text \<open>
  C26. The \<open>user.recipes\<close> relationship: creating a recipe whose \<open>user_id\<close> is \<open>k\<close>
  inserts it, with its new key as \<open>id\<close>, into the recipes of \<open>k\<close> at the position of that
  key (rowid order: at the end when SQLite chooses the key, before the others when an
  explicit smaller \<open>id\<close> is given), and leaves the users table unchanged.
\<close>

theorem create_recipe_owned:
  assumes inv: "db_inv d" and step: "store_step H d (CreateRecipe kwargs) = Inr d'"
    and init: "recipe_init kwargs = Inr r" and owner: "user_id r = Some k"
  shows "\<exists>j. user_recipes d' k = insort_key (\<lambda>x. the (r_id x)) (r\<lparr>r_id := Some j\<rparr>) (user_recipes d k) \<and>
             users d' = users d"
proof -
  let ?P = "\<lambda>(i, x). user_id x = Some k"
  let ?own = "filter ?P (recipes d)"
  from step init have ins: "insert_recipe d r = Inr d'" by simp
  from ins obtain j where fresh: "j \<notin> set (map fst (recipes d))"
    and d': "d' = d\<lparr>recipes := AList.update j (r\<lparr>r_id := Some j\<rparr>) (recipes d)\<rparr>"
    by (auto simp: insert_recipe_Inr simp del: bind_recipe_Inr)
  from fresh d' owner have "filter ?P (recipes d') = ?own @ [(j, r\<lparr>r_id := Some j\<rparr>)]"
    by (simp add: update_fresh_append)
  moreover from fresh have "fst (j, r\<lparr>r_id := Some j\<rparr>) \<notin> fst ` set (sort_key fst ?own)" by force
  ultimately have "sort_key fst (filter ?P (recipes d')) =
      insort_key fst (j, r\<lparr>r_id := Some j\<rparr>) (sort_key fst ?own)"
    by (simp add: sort_key_snoc)
  moreover from inv have "list_all (\<lambda>(i, x). the (r_id x) = i) ((j, r\<lparr>r_id := Some j\<rparr>) # sort_key fst ?own)"
    by (auto simp: db_inv_def recipes_inv_def list_all_iff)
  ultimately have "user_recipes d' k = insort_key (\<lambda>x. the (r_id x)) (r\<lparr>r_id := Some j\<rparr>) (user_recipes d k)"
    by (simp add: user_recipes_def map_snd_insort_key)
  with d' show ?thesis by auto
qed

text \<open>The ordering at work: a recipe created with \<open>id = 5\<close> after one with \<open>id = 10\<close>
  comes first in \<open>user.recipes\<close>.\<close>

definition soup_kwargs :: "int \<Rightarrow> recipe_assign list" where
  "soup_kwargs i = [Set_r_id (Some i), Set_title (Some ''Soup''), Set_instructions (Some (replicate 50 CHR ''x'')),
                    Set_minutes_to_complete (Some 30), Set_user_id (Some 1)]"

definition soup :: "int \<Rightarrow> recipe" where
  "soup i = new_recipe\<lparr>r_id := Some i, title := Some ''Soup'', instructions := Some (replicate 50 CHR ''x''),
                       minutes_to_complete := Some 30, user_id := Some 1\<rparr>"

theorem create_recipe_owned_witness:
  "db_inv (store_run test_bcrypt empty_db [CreateUser [Set_username (Some ''chef1'')], CreateRecipe (soup_kwargs 10)]) \<and>
   store_step test_bcrypt
       (store_run test_bcrypt empty_db [CreateUser [Set_username (Some ''chef1'')], CreateRecipe (soup_kwargs 10)])
       (CreateRecipe (soup_kwargs 5)) =
     Inr \<lparr>users = [(1, new_user\<lparr>u_id := Some 1, username := Some ''chef1''\<rparr>)],
          recipes = [(10, soup 10), (5, soup 5)]\<rparr> \<and>
   recipe_init (soup_kwargs 5) = Inr (soup 5) \<and> user_id (soup 5) = Some 1 \<and>
   user_recipes \<lparr>users = [(1, new_user\<lparr>u_id := Some 1, username := Some ''chef1''\<rparr>)],
          recipes = [(10, soup 10), (5, soup 5)]\<rparr> 1 = [soup 5, soup 10]"
proof -
  let ?d = "store_run test_bcrypt empty_db [CreateUser [Set_username (Some ''chef1'')], CreateRecipe (soup_kwargs 10)]"
  let ?d' = "\<lparr>users = [(1, new_user\<lparr>u_id := Some 1, username := Some ''chef1''\<rparr>)],
          recipes = [(10, soup 10), (5, soup 5)]\<rparr>"
  have inv: "db_inv ?d" by (rule store_run_inv)
  have i: "recipe_init (soup_kwargs 5) = Inr (soup 5)"
    by (simp add: soup_kwargs_def soup_def recipe_init_def validate_title_def validate_instructions_def
        instructions_min_len_def new_recipe_def)
  have s: "store_step test_bcrypt ?d (CreateRecipe (soup_kwargs 5)) = Inr ?d'"
    by (simp add: soup_kwargs_def soup_def store_eval new_recipe_def new_user_def)
  have o: "user_id (soup 5) = Some 1" by (simp add: soup_def)
  have "user_recipes ?d' 1 = [soup 5, soup 10]"
    by (simp add: user_recipes_def soup_def)
  with create_recipe_owned [OF inv s i o] inv s i o show ?thesis by blast
qed

text \<open>
  C35. The two sides of the relationship of line 17 agree after \<open>user.recipes.append(recipe)\<close>:
  when the request commits, the stored recipe's \<open>recipe.user\<close> is user \<open>j\<close> and the
  recipe is among \<open>user.recipes\<close> of \<open>j\<close>.
\<close>

theorem append_user_recipe_consistent:
  assumes inv: "db_inv d" and step: "store_step H d (AppendUserRecipe j k) = Inr d'"
  shows "\<exists>r. map_of (recipes d') k = Some r \<and> recipe_owner d' r = map_of (users d') j \<and>
             r \<in> set (user_recipes d' j)"
proof -
  from step obtain r and u :: user where r: "map_of (recipes d) k = Some r"
    and u: "map_of (users d) j = Some u" and upd: "update_recipe_row d k (r\<lparr>user_id := u_id u\<rparr>) = Inr d'"
    by (auto simp: append_user_recipe_def split: option.splits)
  from stored_user_key [OF inv u] stored_user_key64 [OF inv u] upd inv r
  have d': "d' = d\<lparr>recipes := AList.update k (r\<lparr>user_id := Some j\<rparr>) (recipes d)\<rparr>"
    by (simp add: update_user_id_commit)
  then have m: "map_of (recipes d') k = Some (r\<lparr>user_id := Some j\<rparr>)" by (simp add: update_conv')
  then have "(k, r\<lparr>user_id := Some j\<rparr>) \<in> set (recipes d')" by (rule map_of_SomeD)
  then have "r\<lparr>user_id := Some j\<rparr> \<in> set (user_recipes d' j)" by (force simp: user_recipes_def)
  with m d' show ?thesis by (auto simp: recipe_owner_def)
qed

theorem append_user_recipe_consistent_witness:
  "db_inv (store_run test_bcrypt empty_db chef_ops) \<and>
   store_step test_bcrypt (store_run test_bcrypt empty_db chef_ops) (AppendUserRecipe 1 1) = Inr (store_run test_bcrypt empty_db chef_ops) \<and>
   (\<exists>r. map_of (recipes (store_run test_bcrypt empty_db chef_ops)) 1 = Some r \<and>
        recipe_owner (store_run test_bcrypt empty_db chef_ops) r = map_of (users (store_run test_bcrypt empty_db chef_ops)) 1 \<and>
        r \<in> set (user_recipes (store_run test_bcrypt empty_db chef_ops) 1))"
proof -
  have inv: "db_inv (store_run test_bcrypt empty_db chef_ops)" by (rule store_run_inv)
  have step: "store_step test_bcrypt (store_run test_bcrypt empty_db chef_ops) (AppendUserRecipe 1 1) = Inr (store_run test_bcrypt empty_db chef_ops)"
    unfolding chef_ops_run by (simp add: append_user_recipe_def store_eval)
  show ?thesis using inv step append_user_recipe_consistent [OF inv step] by blast
qed

text \<open>
  C36. Changing a user's primary key orphans its recipes: when \<open>user.id = k'\<close> commits for
  the user with key \<open>k \<noteq> k'\<close>, the recipes whose \<open>user_id\<close> was \<open>k\<close> are unchanged and
  their \<open>recipe.user\<close> is now \<open>None\<close> (the ORM leaves the update of the foreign keys to
  the database, and SQLite does not enforce them).
\<close>

theorem rename_user_orphans_recipes:
  assumes step: "store_step H d (UpdateUser k (Set_id (Some k'))) = Inr d'" and ne: "k \<noteq> k'"
    and r: "map_of (recipes d) i = Some r" and owner: "user_id r = Some k"
  shows "map_of (recipes d') i = Some r \<and> recipe_owner d' r = None"
proof -
  from step ne obtain u :: user where
    d': "d' = d\<lparr>users := AList.update k' (u\<lparr>u_id := Some k'\<rparr>) (AList.delete k (users d))\<rparr>"
    by (auto simp: then_do_eq_Inr update_user_row_Inr split: option.splits)
  with ne r owner show ?thesis by (simp add: recipe_owner_def update_conv' delete_conv')
qed

theorem rename_user_orphans_recipes_witness:
  "store_step test_bcrypt (store_run test_bcrypt empty_db chef_ops) (UpdateUser 1 (Set_id (Some 7))) =
     Inr \<lparr>users = [(7, new_user\<lparr>u_id := Some 7, username := Some ''chef1'',
                                u_password_hash := Some (test_salt @ ''hunter2'')\<rparr>)],
          recipes = recipes (store_run test_bcrypt empty_db chef_ops)\<rparr> \<and>
   (1::int) \<noteq> 7 \<and> map_of (recipes (store_run test_bcrypt empty_db chef_ops)) 1 = Some (new_recipe\<lparr>r_id := Some 1, title := Some ''Soup'', instructions := Some (replicate 50 CHR ''x''),
                 minutes_to_complete := Some 30, user_id := Some 1\<rparr>) \<and>
   user_id (new_recipe\<lparr>r_id := Some 1, title := Some ''Soup'', instructions := Some (replicate 50 CHR ''x''),
                 minutes_to_complete := Some 30, user_id := Some 1\<rparr>) = Some 1 \<and>
   recipe_owner \<lparr>users = [(7, new_user\<lparr>u_id := Some 7, username := Some ''chef1'',
                                u_password_hash := Some (test_salt @ ''hunter2'')\<rparr>)],
          recipes = recipes (store_run test_bcrypt empty_db chef_ops)\<rparr> (new_recipe\<lparr>r_id := Some 1, title := Some ''Soup'', instructions := Some (replicate 50 CHR ''x''),
                 minutes_to_complete := Some 30, user_id := Some 1\<rparr>) = None"
proof -
  have step: "store_step test_bcrypt (store_run test_bcrypt empty_db chef_ops) (UpdateUser 1 (Set_id (Some 7))) =
     Inr \<lparr>users = [(7, new_user\<lparr>u_id := Some 7, username := Some ''chef1'',
                                u_password_hash := Some (test_salt @ ''hunter2'')\<rparr>)],
          recipes = recipes (store_run test_bcrypt empty_db chef_ops)\<rparr>"
    unfolding chef_ops_run by (simp add: store_eval)
  have r: "map_of (recipes (store_run test_bcrypt empty_db chef_ops)) 1 = Some (new_recipe\<lparr>r_id := Some 1, title := Some ''Soup'', instructions := Some (replicate 50 CHR ''x''),
                 minutes_to_complete := Some 30, user_id := Some 1\<rparr>)"
    by (simp add: chef_ops_run)
  have ne: "(1::int) \<noteq> 7" by simp
  from rename_user_orphans_recipes [OF step ne r] step r show ?thesis by simp
qed

text \<open>
  C37. Every integer a store reached from the empty one holds fits in a signed 64-bit
  SQLite integer: the keys of both tables, \<open>minutes_to_complete\<close> and \<open>user_id\<close>. A value
  outside that range never reaches the table: binding it raises \<open>OverflowError\<close>, and the
  rowids SQLite chooses stay below \<open>2^63\<close>.
\<close>

theorem stored_ints_64bit:
  assumes "store_reachable H d"
  shows "list_all (\<lambda>(k, u). int64_ok k) (users d) \<and>
         list_all (\<lambda>(k, r). int64_ok k \<and> pred_option int64_ok (minutes_to_complete r) \<and>
                              pred_option int64_ok (user_id r)) (recipes d)"
proof -
  from store_reachable_inv [OF assms]
  have us: "users_inv (users d)" and rs: "recipes_inv (recipes d)" by (simp_all add: db_inv_def)
  from us have "list_all (\<lambda>(k, u). int64_ok k) (users d)" by (rule users_inv_keys64)
  moreover from rs have "list_all (\<lambda>(k, r). int64_ok k \<and> pred_option int64_ok (minutes_to_complete r) \<and>
                              pred_option int64_ok (user_id r)) (recipes d)"
    unfolding recipes_inv_def bind_recipe_def by (auto simp: list_all_iff then_do_unit_Inr)
  ultimately show ?thesis ..
qed

theorem stored_ints_64bit_witness:
  "store_reachable test_bcrypt (store_run test_bcrypt empty_db chef_ops) \<and>
   list_all (\<lambda>(k, r). int64_ok k \<and> pred_option int64_ok (minutes_to_complete r) \<and>
                        pred_option int64_ok (user_id r)) (recipes (store_run test_bcrypt empty_db chef_ops))"
proof -
  have r: "store_reachable test_bcrypt (store_run test_bcrypt empty_db chef_ops)"
    by (rule store_run_reachable [OF store_reachable.start])
  from r stored_ints_64bit [OF r] show ?thesis by blast
qed

end
