(* ===== verification/Store_Spec.thy ===== *)
theory Store_Spec
  imports Store
begin

text \<open>
  An abstract specification of what the store promises for one request, and the proof that
  the tables of theory \<open>Store\<close> implement it. The abstract state holds the two tables as
  maps from primary key to row; a request is specified by a relation, one rule per kind of
  request, whose premises are the guards (the validators, integers that fit in 64 bits, a
  free key, the \<open>NOT NULL\<close> and \<open>UNIQUE\<close> columns) and whose conclusion is the effect on
  the maps. Creation without a key leaves open which key the rowid rule \<open>rowid_choice\<close>
  gives. \<open>abs_db\<close> reads a concrete store as maps.
\<close>

section \<open>Abstract state and specification\<close>

record astore =
  ausers :: "int \<rightharpoonup> user"
  arecipes :: "int \<rightharpoonup> recipe"

definition abs_db :: "db \<Rightarrow> astore" where
  "abs_db d = \<lparr>ausers = map_of (users d), arecipes = map_of (recipes d)\<rparr>"

text \<open>A user row may sit beside the rows of \<open>m\<close>: a username, and none of theirs.\<close>

definition user_row_ok :: "(int \<rightharpoonup> user) \<Rightarrow> user \<Rightarrow> bool" where
  "user_row_ok m u \<longleftrightarrow> username u \<noteq> None \<and> username u \<notin> username ` ran m"

inductive spec_step :: "('salt, 'pw) hasher \<Rightarrow> astore \<Rightarrow> ('salt, 'pw) store_op \<Rightarrow> astore \<Rightarrow> bool" for H where
  create_user:
    "user_init H kwargs = Inr u \<Longrightarrow> pred_option int64_ok (u_id u) \<Longrightarrow>
     u_id u = Some k \<or> (u_id u = None \<and> rowid_choice (dom (ausers a)) k) \<Longrightarrow>
     k \<notin> dom (ausers a) \<Longrightarrow> user_row_ok (ausers a) u \<Longrightarrow>
     spec_step H a (CreateUser kwargs) (a\<lparr>ausers := (ausers a)(k \<mapsto> u\<lparr>u_id := Some k\<rparr>)\<rparr>)"
| update_user:
    "ausers a k = Some u \<Longrightarrow> user_setattr H u x = Inr u' \<Longrightarrow> u_id u' = Some k' \<Longrightarrow> int64_ok k' \<Longrightarrow>
     k' \<notin> dom ((ausers a)(k := None)) \<Longrightarrow> user_row_ok ((ausers a)(k := None)) u' \<Longrightarrow>
     spec_step H a (UpdateUser k x) (a\<lparr>ausers := ((ausers a)(k := None))(k' \<mapsto> u')\<rparr>)"
| delete_user:
    "ausers a k = Some u \<Longrightarrow>
     spec_step H a (DeleteUser k)
       \<lparr>ausers = (ausers a)(k := None), arecipes = map_option (nullify_owner k) \<circ> arecipes a\<rparr>"
| create_recipe:
    "recipe_init kwargs = Inr r \<Longrightarrow> bind_recipe r = Inr () \<Longrightarrow>
     r_id r = Some k \<or> (r_id r = None \<and> rowid_choice (dom (arecipes a)) k) \<Longrightarrow>
     k \<notin> dom (arecipes a) \<Longrightarrow> check_recipe_row r = Inr () \<Longrightarrow>
     spec_step H a (CreateRecipe kwargs) (a\<lparr>arecipes := (arecipes a)(k \<mapsto> r\<lparr>r_id := Some k\<rparr>)\<rparr>)"
| update_recipe:
    "arecipes a k = Some r \<Longrightarrow> recipe_setattr r x = Inr r' \<Longrightarrow> r_id r' = Some k' \<Longrightarrow>
     bind_recipe r' = Inr () \<Longrightarrow>
     k' \<notin> dom ((arecipes a)(k := None)) \<Longrightarrow> check_recipe_row r' = Inr () \<Longrightarrow>
     spec_step H a (UpdateRecipe k x) (a\<lparr>arecipes := ((arecipes a)(k := None))(k' \<mapsto> r')\<rparr>)"
| delete_recipe:
    "arecipes a k = Some r \<Longrightarrow> spec_step H a (DeleteRecipe k) (a\<lparr>arecipes := (arecipes a)(k := None)\<rparr>)"
| set_recipe_user_none:
    "arecipes a k = Some r \<Longrightarrow>
     spec_step H a (SetRecipeUser k None) (a\<lparr>arecipes := (arecipes a)(k \<mapsto> r\<lparr>user_id := None\<rparr>)\<rparr>)"
| set_recipe_user:
    "arecipes a k = Some r \<Longrightarrow> ausers a j = Some u \<Longrightarrow>
     spec_step H a (SetRecipeUser k (Some j)) (a\<lparr>arecipes := (arecipes a)(k \<mapsto> r\<lparr>user_id := Some j\<rparr>)\<rparr>)"
| append_user_recipe:
    "ausers a j = Some u \<Longrightarrow> arecipes a k = Some r \<Longrightarrow>
     spec_step H a (AppendUserRecipe j k) (a\<lparr>arecipes := (arecipes a)(k \<mapsto> r\<lparr>user_id := Some j\<rparr>)\<rparr>)"

inductive_cases spec_create_userE: "spec_step H a (CreateUser kwargs) a'"
inductive_cases spec_update_userE: "spec_step H a (UpdateUser k x) a'"
inductive_cases spec_delete_userE: "spec_step H a (DeleteUser k) a'"
inductive_cases spec_create_recipeE: "spec_step H a (CreateRecipe kwargs) a'"
inductive_cases spec_update_recipeE: "spec_step H a (UpdateRecipe k x) a'"
inductive_cases spec_delete_recipeE: "spec_step H a (DeleteRecipe k) a'"
inductive_cases spec_set_recipe_userE: "spec_step H a (SetRecipeUser k owner) a'"
inductive_cases spec_append_user_recipeE: "spec_step H a (AppendUserRecipe j k) a'"

section \<open>Helper lemmas\<close>

lemma check_user_row_ok:
  "distinct (map fst others) \<Longrightarrow>
   check_user_row others u = Inr () \<longleftrightarrow>
     user_row_ok (map_of others) u \<and> pred_option (\<lambda>k. k \<notin> dom (map_of others)) (u_id u)"
  by (cases "u_id u")
     (auto simp: check_user_row_def user_row_ok_def ran_distinct image_image dom_map_of_conv_image_fst)

lemma key_choice_spec:
  "(case v of None \<Rightarrow> next_rowid tbl = Inr k | Some i \<Rightarrow> k = i) \<Longrightarrow>
   v = Some k \<or> (v = None \<and> rowid_choice (dom (map_of tbl)) k)"
  by (cases v) (simp_all add: next_rowid_sound dom_map_of_conv_image_fst)

lemma key_choice_complete:
  "v = Some k \<or> (v = None \<and> rowid_choice (dom (map_of tbl)) k) \<Longrightarrow>
   \<exists>k'. (case v of None \<Rightarrow> next_rowid tbl = Inr k' | Some i \<Rightarrow> k' = i)"
  by (cases v) (auto simp: dom_map_of_conv_image_fst dest: next_rowid_complete)

lemma key_of_delete:
  "k' \<in> fst ` set (AList.delete k tbl) \<longleftrightarrow> k' \<noteq> k \<and> k' \<in> fst ` set tbl"
  by (auto simp: set_delete)

lemma map_of_commit_row:
  "map_of (AList.update k' v (if k' = k then tbl else AList.delete k tbl)) = ((map_of tbl)(k := None))(k' \<mapsto> v)"
  by (auto simp: update_conv' delete_conv')

lemma abs_db_users [simp]: "abs_db (d\<lparr>users := us\<rparr>) = (abs_db d)\<lparr>ausers := map_of us\<rparr>"
  by (simp add: abs_db_def)

lemma abs_db_recipes [simp]: "abs_db (d\<lparr>recipes := rs\<rparr>) = (abs_db d)\<lparr>arecipes := map_of rs\<rparr>"
  by (simp add: abs_db_def)

lemma ausers_abs [simp]: "ausers (abs_db d) = map_of (users d)"
  by (simp add: abs_db_def)

lemma arecipes_abs [simp]: "arecipes (abs_db d) = map_of (recipes d)"
  by (simp add: abs_db_def)

lemma user_row_ok_u_id [simp]: "user_row_ok m (u\<lparr>u_id := k\<rparr>) = user_row_ok m u"
  by (simp add: user_row_ok_def)

lemma insert_user_refines_spec:
  assumes dist: "distinct (map fst (users d))" and init: "user_init H kwargs = Inr u"
    and ins: "insert_user d u = Inr d'"
  shows "spec_step H (abs_db d) (CreateUser kwargs) (abs_db d')"
proof -
  from ins obtain k where b: "pred_option int64_ok (u_id u)"
    and kc: "case u_id u of None \<Rightarrow> next_rowid (users d) = Inr k | Some i \<Rightarrow> k = i"
    and chk: "check_user_row (users d) (u\<lparr>u_id := Some k\<rparr>) = Inr ()"
    and d': "d' = d\<lparr>users := AList.update k (u\<lparr>u_id := Some k\<rparr>) (users d)\<rparr>"
    by (auto simp: insert_user_Inr)
  from chk dist have ok: "user_row_ok (map_of (users d)) u" and fresh: "k \<notin> dom (map_of (users d))"
    by (simp_all add: check_user_row_ok)
  have "spec_step H (abs_db d) (CreateUser kwargs)
      ((abs_db d)\<lparr>ausers := (ausers (abs_db d))(k \<mapsto> u\<lparr>u_id := Some k\<rparr>)\<rparr>)"
    using key_choice_spec [OF kc] by (intro spec_step.create_user [OF init b]) (simp_all add: ok fresh)
  with d' show ?thesis by (simp add: update_conv')
qed

lemma update_user_refines_spec:
  assumes dist: "distinct (map fst (users d))" and u: "map_of (users d) k = Some u"
    and set: "user_setattr H u x = Inr u'" and upd: "update_user_row d k u' = Inr d'"
  shows "spec_step H (abs_db d) (UpdateUser k x) (abs_db d')"
proof -
  from upd obtain k' where k': "u_id u' = Some k'" and k64: "int64_ok k'"
    and chk: "check_user_row (AList.delete k (users d)) u' = Inr ()"
    and d': "d' = d\<lparr>users := AList.update k' u' (if k' = k then users d else AList.delete k (users d))\<rparr>"
    by (auto simp: update_user_row_Inr)
  from chk distinct_delete [OF dist] k'
  have ok: "user_row_ok ((map_of (users d))(k := None)) u'" and fresh: "k' \<notin> dom ((map_of (users d))(k := None))"
    by (simp_all add: check_user_row_ok delete_conv')
  have "spec_step H (abs_db d) (UpdateUser k x)
      ((abs_db d)\<lparr>ausers := ((ausers (abs_db d))(k := None))(k' \<mapsto> u')\<rparr>)"
    using u ok fresh by (intro spec_step.update_user [OF _ set k' k64]) simp_all
  with d' show ?thesis by (simp add: map_of_commit_row)
qed

lemma insert_recipe_refines_spec:
  assumes init: "recipe_init kwargs = Inr r" and ins: "insert_recipe d r = Inr d'"
  shows "spec_step H (abs_db d) (CreateRecipe kwargs) (abs_db d')"
proof -
  from ins obtain k where b: "bind_recipe r = Inr ()"
    and kc: "case r_id r of None \<Rightarrow> next_rowid (recipes d) = Inr k | Some i \<Rightarrow> k = i"
    and chk: "check_recipe_row r = Inr ()" and fresh: "k \<notin> set (map fst (recipes d))"
    and d': "d' = d\<lparr>recipes := AList.update k (r\<lparr>r_id := Some k\<rparr>) (recipes d)\<rparr>"
    by (auto simp: insert_recipe_Inr simp del: bind_recipe_Inr)
  have "spec_step H (abs_db d) (CreateRecipe kwargs)
      ((abs_db d)\<lparr>arecipes := (arecipes (abs_db d))(k \<mapsto> r\<lparr>r_id := Some k\<rparr>)\<rparr>)"
    using key_choice_spec [OF kc] fresh
    by (intro spec_step.create_recipe [OF init b _ _ chk]) (simp_all add: dom_map_of_conv_image_fst)
  with d' show ?thesis by (simp add: update_conv')
qed

lemma update_recipe_refines_spec:
  assumes r: "map_of (recipes d) k = Some r"
    and set: "recipe_setattr r x = Inr r'" and upd: "update_recipe_row d k r' = Inr d'"
  shows "spec_step H (abs_db d) (UpdateRecipe k x) (abs_db d')"
proof -
  from upd obtain k' where k': "r_id r' = Some k'" and b: "bind_recipe r' = Inr ()"
    and key: "k' = k \<or> k' \<notin> set (map fst (AList.delete k (recipes d)))"
    and chk: "check_recipe_row r' = Inr ()"
    and d': "d' = d\<lparr>recipes := AList.update k' r' (if k' = k then recipes d else AList.delete k (recipes d))\<rparr>"
    by (auto simp: update_recipe_row_Inr simp del: bind_recipe_Inr)
  have "spec_step H (abs_db d) (UpdateRecipe k x)
      ((abs_db d)\<lparr>arecipes := ((arecipes (abs_db d))(k := None))(k' \<mapsto> r')\<rparr>)"
  proof (rule spec_step.update_recipe [OF _ set k' b _ chk])
    show "arecipes (abs_db d) k = Some r" using r by simp
    show "k' \<notin> dom ((arecipes (abs_db d))(k := None))"
      using key by (auto simp: key_of_delete dom_map_of_conv_image_fst)
  qed
  with d' show ?thesis by (simp add: map_of_commit_row)
qed

lemma delete_recipe_refines_spec:
  assumes "delete_recipe d k = Inr d'"
  shows "spec_step H (abs_db d) (DeleteRecipe k) (abs_db d')"
proof -
  from assms obtain r where r: "map_of (recipes d) k = Some r"
    and d': "d' = d\<lparr>recipes := AList.delete k (recipes d)\<rparr>"
    by (auto simp: delete_recipe_def split: option.splits)
  from r have "spec_step H (abs_db d) (DeleteRecipe k)
      ((abs_db d)\<lparr>arecipes := (arecipes (abs_db d))(k := None)\<rparr>)"
    by (intro spec_step.delete_recipe) simp
  with d' show ?thesis by (simp add: delete_conv')
qed

lemma abs_empty_db [simp]: "abs_db empty_db = \<lparr>ausers = Map.empty, arecipes = Map.empty\<rparr>"
  by (simp add: abs_db_def empty_db_def)

lemma insert_user_succeeds:
  assumes dist: "distinct (map fst (users d))" and ok: "user_row_ok (map_of (users d)) u"
    and b: "pred_option int64_ok (u_id u)"
    and kc: "u_id u = Some k \<or> (u_id u = None \<and> rowid_choice (dom (map_of (users d))) k)"
    and fresh: "k \<notin> dom (map_of (users d))"
  shows "\<exists>d'. insert_user d u = Inr d'"
proof -
  from key_choice_complete [OF kc] obtain k' where
    kc': "case u_id u of None \<Rightarrow> next_rowid (users d) = Inr k' | Some i \<Rightarrow> k' = i" by blast
  have "k' \<notin> dom (map_of (users d))"
  proof (cases "u_id u")
    case None
    with kc' next_rowid_fresh [of "users d" k'] show ?thesis by (simp add: dom_map_of_conv_image_fst)
  next
    case (Some i)
    with kc kc' fresh show ?thesis by simp
  qed
  with ok dist have "check_user_row (users d) (u\<lparr>u_id := Some k'\<rparr>) = Inr ()"
    by (simp add: check_user_row_ok)
  with b kc' show ?thesis by (auto simp: insert_user_Inr)
qed

lemma update_user_row_succeeds:
  assumes dist: "distinct (map fst (users d))" and k': "u_id u' = Some k'" and k64: "int64_ok k'"
    and fresh: "k' \<notin> dom ((map_of (users d))(k := None))"
    and ok: "user_row_ok ((map_of (users d))(k := None)) u'"
  shows "\<exists>d'. update_user_row d k u' = Inr d'"
proof -
  have "check_user_row (AList.delete k (users d)) u' = Inr ()"
    using ok fresh k' distinct_delete [OF dist] by (simp add: check_user_row_ok delete_conv')
  with k' k64 show ?thesis by (auto simp: update_user_row_Inr)
qed

lemma insert_recipe_succeeds:
  assumes b: "bind_recipe r = Inr ()" and chk: "check_recipe_row r = Inr ()"
    and kc: "r_id r = Some k \<or> (r_id r = None \<and> rowid_choice (dom (map_of (recipes d))) k)"
    and fresh: "k \<notin> dom (map_of (recipes d))"
  shows "\<exists>d'. insert_recipe d r = Inr d'"
proof -
  from key_choice_complete [OF kc] obtain k' where
    kc': "case r_id r of None \<Rightarrow> next_rowid (recipes d) = Inr k' | Some i \<Rightarrow> k' = i" by blast
  have "k' \<notin> set (map fst (recipes d))"
  proof (cases "r_id r")
    case None
    with kc' next_rowid_fresh [of "recipes d" k'] show ?thesis by simp
  next
    case (Some i)
    with kc kc' fresh show ?thesis by (simp add: dom_map_of_conv_image_fst)
  qed
  with b chk kc' show ?thesis by (auto simp: insert_recipe_Inr simp del: bind_recipe_Inr)
qed

lemma update_recipe_row_succeeds:
  assumes k': "r_id r' = Some k'" and b: "bind_recipe r' = Inr ()"
    and fresh: "k' \<notin> dom ((map_of (recipes d))(k := None))"
    and chk: "check_recipe_row r' = Inr ()"
  shows "\<exists>d'. update_recipe_row d k r' = Inr d'"
proof -
  have "k' = k \<or> k' \<notin> set (map fst (AList.delete k (recipes d)))"
    using fresh by (auto simp: key_of_delete dom_map_of_conv_image_fst)
  with k' b chk show ?thesis by (auto simp: update_recipe_row_Inr simp del: bind_recipe_Inr)
qed

lemma spec_step_chef1:
  "spec_step test_bcrypt (abs_db empty_db) (CreateUser [Set_username (Some ''chef1'')])
     \<lparr>ausers = [1 \<mapsto> new_user\<lparr>u_id := Some 1, username := Some ''chef1''\<rparr>], arecipes = Map.empty\<rparr>"
proof -
  have i: "user_init test_bcrypt [Set_username (Some ''chef1'')] = Inr (new_user\<lparr>username := Some ''chef1''\<rparr>)"
    by (simp add: user_init_def validate_username_def)
  have "user_row_ok (ausers (abs_db empty_db)) (new_user\<lparr>username := Some ''chef1''\<rparr>)"
    by (simp add: user_row_ok_def)
  from spec_step.create_user [OF i _ _ _ this, of 1] show ?thesis
    by (simp add: new_user_def rowid_choice_def)
qed

lemma user_row_ok_other: "user_row_ok m v \<Longrightarrow> m k = Some u \<Longrightarrow> username u \<noteq> username v"
  by (force simp: user_row_ok_def ran_def)

lemma set_recipe_user_refines_spec:
  assumes inv: "db_inv d" and set: "set_recipe_user d k owner = Inr d'"
  shows "spec_step H (abs_db d) (SetRecipeUser k owner) (abs_db d')"
proof (cases owner)
  case None
  with set obtain r where r: "map_of (recipes d) k = Some r"
    and "update_recipe_row d k (r\<lparr>user_id := None\<rparr>) = Inr d'"
    by (auto simp: set_recipe_user_def split: option.splits)
  with inv have d': "d' = d\<lparr>recipes := AList.update k (r\<lparr>user_id := None\<rparr>) (recipes d)\<rparr>"
    by (simp add: update_user_id_commit)
  from r have "spec_step H (abs_db d) (SetRecipeUser k None)
      ((abs_db d)\<lparr>arecipes := (arecipes (abs_db d))(k \<mapsto> r\<lparr>user_id := None\<rparr>)\<rparr>)"
    by (intro spec_step.set_recipe_user_none) simp
  with d' None show ?thesis by (simp add: update_conv')
next
  case (Some j)
  with set obtain r and u :: user where r: "map_of (recipes d) k = Some r"
    and u: "map_of (users d) j = Some u" and upd: "update_recipe_row d k (r\<lparr>user_id := u_id u\<rparr>) = Inr d'"
    by (auto simp: set_recipe_user_def split: option.splits)
  from stored_user_key [OF inv u] stored_user_key64 [OF inv u] upd inv r
  have d': "d' = d\<lparr>recipes := AList.update k (r\<lparr>user_id := Some j\<rparr>) (recipes d)\<rparr>"
    by (simp add: update_user_id_commit)
  from r u have "spec_step H (abs_db d) (SetRecipeUser k (Some j))
      ((abs_db d)\<lparr>arecipes := (arecipes (abs_db d))(k \<mapsto> r\<lparr>user_id := Some j\<rparr>)\<rparr>)"
    by (intro spec_step.set_recipe_user [of _ _ r _ u]) simp_all
  with d' Some show ?thesis by (simp add: update_conv')
qed

lemma append_user_recipe_refines_spec:
  assumes inv: "db_inv d" and app: "append_user_recipe d j k = Inr d'"
  shows "spec_step H (abs_db d) (AppendUserRecipe j k) (abs_db d')"
proof -
  from app obtain r and u :: user where r: "map_of (recipes d) k = Some r"
    and u: "map_of (users d) j = Some u" and upd: "update_recipe_row d k (r\<lparr>user_id := u_id u\<rparr>) = Inr d'"
    by (auto simp: append_user_recipe_def split: option.splits)
  from stored_user_key [OF inv u] stored_user_key64 [OF inv u] upd inv r
  have d': "d' = d\<lparr>recipes := AList.update k (r\<lparr>user_id := Some j\<rparr>) (recipes d)\<rparr>"
    by (simp add: update_user_id_commit)
  from r u have "spec_step H (abs_db d) (AppendUserRecipe j k)
      ((abs_db d)\<lparr>arecipes := (arecipes (abs_db d))(k \<mapsto> r\<lparr>user_id := Some j\<rparr>)\<rparr>)"
    by (intro spec_step.append_user_recipe [of _ _ u _ r]) simp_all
  with d' show ?thesis by (simp add: update_conv')
qed

section \<open>Refinement\<close>

text \<open>
  C27. Every request the store commits is a step the specification allows: from a store
  satisfying the invariant, if \<open>store_step\<close> succeeds, the abstraction of the old and the new
  store are related by \<open>spec_step\<close> (forward simulation, the abstraction being \<open>abs_db\<close>).
\<close>

theorem store_step_refines:
  assumes inv: "db_inv d" and step: "store_step H d op = Inr d'"
  shows "spec_step H (abs_db d) op (abs_db d')"
proof (cases op)
  case (CreateUser kwargs)
  from step CreateUser obtain u where "user_init H kwargs = Inr u" and "insert_user d u = Inr d'"
    by (auto simp: then_do_eq_Inr)
  moreover from inv have "distinct (map fst (users d))" by (simp add: db_inv_def users_inv_def)
  ultimately show ?thesis using CreateUser by (simp add: insert_user_refines_spec)
next
  case (UpdateUser k x)
  from step UpdateUser obtain u u' where "map_of (users d) k = Some u"
    and "user_setattr H u x = Inr u'" and "update_user_row d k u' = Inr d'"
    by (auto simp: then_do_eq_Inr split: option.splits)
  moreover from inv have "distinct (map fst (users d))" by (simp add: db_inv_def users_inv_def)
  ultimately show ?thesis using UpdateUser by (simp add: update_user_refines_spec)
next
  case (DeleteUser k)
  from step DeleteUser obtain u where u: "map_of (users d) k = Some u"
    and d': "d' = d\<lparr>users := AList.delete k (users d),
                    recipes := map (\<lambda>(j, r). (j, nullify_owner k r)) (recipes d)\<rparr>"
    by (auto simp: delete_user_def split: option.splits)
  from u have "spec_step H (abs_db d) (DeleteUser k)
      \<lparr>ausers = (ausers (abs_db d))(k := None), arecipes = map_option (nullify_owner k) \<circ> arecipes (abs_db d)\<rparr>"
    by (intro spec_step.delete_user) simp
  with d' DeleteUser show ?thesis by (simp add: abs_db_def delete_conv' map_of_map)
next
  case (CreateRecipe kwargs)
  from step CreateRecipe obtain r where "recipe_init kwargs = Inr r" and "insert_recipe d r = Inr d'"
    by (auto simp: then_do_eq_Inr)
  then show ?thesis using CreateRecipe by (simp add: insert_recipe_refines_spec)
next
  case (UpdateRecipe k x)
  from step UpdateRecipe obtain r r' where "map_of (recipes d) k = Some r"
    and "recipe_setattr r x = Inr r'" and "update_recipe_row d k r' = Inr d'"
    by (auto simp: then_do_eq_Inr split: option.splits)
  then show ?thesis using UpdateRecipe by (simp add: update_recipe_refines_spec)
next
  case (DeleteRecipe k)
  with step show ?thesis by (simp add: delete_recipe_refines_spec)
next
  case (SetRecipeUser k owner)
  with inv step show ?thesis by (simp add: set_recipe_user_refines_spec)
next
  case (AppendUserRecipe j k)
  with inv step show ?thesis by (simp add: append_user_recipe_refines_spec)
qed

theorem store_step_refines_witness:
  "db_inv (store_run test_bcrypt empty_db chef_ops) \<and>
   store_step test_bcrypt (store_run test_bcrypt empty_db chef_ops) (DeleteUser 1) =
     Inr \<lparr>users = [], recipes = [(1, new_recipe\<lparr>r_id := Some 1, title := Some ''Soup'',
                   instructions := Some (replicate 50 CHR ''x''), minutes_to_complete := Some 30,
                   user_id := None\<rparr>)]\<rparr> \<and>
   spec_step test_bcrypt (abs_db (store_run test_bcrypt empty_db chef_ops)) (DeleteUser 1)
     (abs_db \<lparr>users = [], recipes = [(1, new_recipe\<lparr>r_id := Some 1, title := Some ''Soup'',
                   instructions := Some (replicate 50 CHR ''x''), minutes_to_complete := Some 30,
                   user_id := None\<rparr>)]\<rparr>)"
proof -
  have inv: "db_inv (store_run test_bcrypt empty_db chef_ops)" by (rule store_run_inv)
  have step: "store_step test_bcrypt (store_run test_bcrypt empty_db chef_ops) (DeleteUser 1) =
     Inr \<lparr>users = [], recipes = [(1, new_recipe\<lparr>r_id := Some 1, title := Some ''Soup'',
                   instructions := Some (replicate 50 CHR ''x''), minutes_to_complete := Some 30,
                   user_id := None\<rparr>)]\<rparr>"
    by (simp add: chef_ops_run delete_user_def nullify_owner_def)
  show ?thesis using inv step store_step_refines [OF inv step] by blast
qed

text \<open>
  C28. Conversely, the store never refuses a request the specification allows: from a store
  satisfying the invariant, if \<open>spec_step\<close> has a successor for a request, \<open>store_step\<close>
  commits it.
\<close>

theorem store_step_complete:
  assumes inv: "db_inv d" and spec: "spec_step H (abs_db d) op a'"
  shows "\<exists>d'. store_step H d op = Inr d'"
proof -
  from inv have dist: "distinct (map fst (users d))" by (simp add: db_inv_def users_inv_def)
  from spec show ?thesis
  proof cases
    case (create_user kwargs u k)
    then have "\<exists>d'. insert_user d u = Inr d'"
      by (intro insert_user_succeeds [OF dist]) auto
    with create_user show ?thesis by auto
  next
    case (update_user k u x u' k')
    then have "\<exists>d'. update_user_row d k u' = Inr d'"
      by (intro update_user_row_succeeds [OF dist]) auto
    with update_user show ?thesis by auto
  next
    case (delete_user k u)
    then show ?thesis by (simp add: delete_user_def)
  next
    case (create_recipe kwargs r k)
    then have "\<exists>d'. insert_recipe d r = Inr d'"
      by (intro insert_recipe_succeeds) auto
    with create_recipe show ?thesis by auto
  next
    case (update_recipe k r x r' k')
    then have "\<exists>d'. update_recipe_row d k r' = Inr d'"
      by (intro update_recipe_row_succeeds) auto
    with update_recipe show ?thesis by auto
  next
    case (delete_recipe k r)
    then show ?thesis by (simp add: delete_recipe_def)
  next
    case (set_recipe_user_none k r)
    with inv show ?thesis by (simp add: set_recipe_user_def update_user_id_commit)
  next
    case (set_recipe_user k r j u)
    then have u: "map_of (users d) j = Some u" by simp
    from stored_user_key [OF inv u] stored_user_key64 [OF inv u] set_recipe_user inv
    show ?thesis by (simp add: set_recipe_user_def update_user_id_commit)
  next
    case (append_user_recipe j u k r)
    then have u: "map_of (users d) j = Some u" by simp
    from stored_user_key [OF inv u] stored_user_key64 [OF inv u] append_user_recipe inv
    show ?thesis by (simp add: append_user_recipe_def update_user_id_commit)
  qed
qed

theorem store_step_complete_witness:
  "db_inv (store_run test_bcrypt empty_db chef_ops) \<and>
   spec_step test_bcrypt (abs_db (store_run test_bcrypt empty_db chef_ops)) (DeleteRecipe 1)
     ((abs_db (store_run test_bcrypt empty_db chef_ops))\<lparr>arecipes := (arecipes (abs_db (store_run test_bcrypt empty_db chef_ops)))(1 := None)\<rparr>) \<and>
   (\<exists>d'. store_step test_bcrypt (store_run test_bcrypt empty_db chef_ops) (DeleteRecipe 1) = Inr d')"
proof -
  have inv: "db_inv (store_run test_bcrypt empty_db chef_ops)" by (rule store_run_inv)
  have spec: "spec_step test_bcrypt (abs_db (store_run test_bcrypt empty_db chef_ops)) (DeleteRecipe 1)
     ((abs_db (store_run test_bcrypt empty_db chef_ops))\<lparr>arecipes := (arecipes (abs_db (store_run test_bcrypt empty_db chef_ops)))(1 := None)\<rparr>)"
    by (rule spec_step.delete_recipe) (simp add: chef_ops_run)
  show ?thesis using inv spec store_step_complete [OF inv spec] by blast
qed

end
