(* ===== verification/Schema.thy ===== *)
theory Schema
  imports Store
begin

text \<open>
  The column declarations of \<open>src/server/models.py\<close> (lines 10--14 and 52--58) as data: a
  name, a SQL type (\<open>db.Integer\<close> or \<open>db.String\<close>), whether the column is nullable and
  whether it is unique (a primary key is both unique and not null). A row is read as the dict of
  the values SQLAlchemy writes for it, and the generic schema check \<open>schema_check\<close> asks
  that each column's value fit its declaration and that no unique column repeat a value of
  the other rows. The hand-written commit checks of theory \<open>Store\<close> are shown to agree with
  it, and the dicts \<open>to_dict\<close> returns for stored rows are shown to fit the declarations.
\<close>

section \<open>Column declarations\<close>

datatype col_type = Col_Integer | Col_String

record column =
  col_name :: string
  col_type :: col_type
  col_nullable :: bool
  col_unique :: bool

definition users_columns :: "column list" where
  "users_columns =
     [\<lparr>col_name = ''id'', col_type = Col_Integer, col_nullable = False, col_unique = True\<rparr>,
      \<lparr>col_name = ''username'', col_type = Col_String, col_nullable = False, col_unique = True\<rparr>,
      \<lparr>col_name = ''_password_hash'', col_type = Col_String, col_nullable = True, col_unique = False\<rparr>,
      \<lparr>col_name = ''image_url'', col_type = Col_String, col_nullable = True, col_unique = False\<rparr>,
      \<lparr>col_name = ''bio'', col_type = Col_String, col_nullable = True, col_unique = False\<rparr>]"

definition recipes_columns :: "column list" where
  "recipes_columns =
     [\<lparr>col_name = ''id'', col_type = Col_Integer, col_nullable = False, col_unique = True\<rparr>,
      \<lparr>col_name = ''title'', col_type = Col_String, col_nullable = False, col_unique = False\<rparr>,
      \<lparr>col_name = ''instructions'', col_type = Col_String, col_nullable = False, col_unique = False\<rparr>,
      \<lparr>col_name = ''minutes_to_complete'', col_type = Col_Integer, col_nullable = False,
        col_unique = False\<rparr>,
      \<lparr>col_name = ''user_id'', col_type = Col_Integer, col_nullable = True, col_unique = False\<rparr>]"

text \<open>A value fits a column: \<open>NULL\<close> where the column is nullable, else a value of its type.\<close>

definition value_fits :: "column \<Rightarrow> pyval \<Rightarrow> bool" where
  "value_fits c v =
     (case v of
        PNone \<Rightarrow> col_nullable c
      | PInt _ \<Rightarrow> col_type c = Col_Integer
      | PStr _ \<Rightarrow> col_type c = Col_String
      | PDict _ \<Rightarrow> False)"

section \<open>Rows as written\<close>

definition user_row :: "user \<Rightarrow> pydict" where
  "user_row u =
     [(''id'', py_int (u_id u)), (''username'', py_str (username u)),
      (''_password_hash'', py_str (u_password_hash u)),
      (''image_url'', py_str (image_url u)), (''bio'', py_str (bio u))]"

definition recipe_row :: "recipe \<Rightarrow> pydict" where
  "recipe_row r =
     [(''id'', py_int (r_id r)), (''title'', py_str (title r)),
      (''instructions'', py_str (instructions r)),
      (''minutes_to_complete'', py_int (minutes_to_complete r)), (''user_id'', py_int (user_id r))]"

section \<open>The generic schema check\<close>

definition row_typed :: "column list \<Rightarrow> pydict \<Rightarrow> bool" where
  "row_typed cols row =
     list_all (\<lambda>c. case map_of row (col_name c) of None \<Rightarrow> False | Some v \<Rightarrow> value_fits c v) cols"

definition row_unique :: "column list \<Rightarrow> pydict list \<Rightarrow> pydict \<Rightarrow> bool" where
  "row_unique cols others row =
     list_all (\<lambda>c. col_unique c \<longrightarrow>
                  map_of row (col_name c) \<notin> set (map (\<lambda>ow. map_of ow (col_name c)) others)) cols"

definition schema_check :: "column list \<Rightarrow> pydict list \<Rightarrow> pydict \<Rightarrow> bool" where
  "schema_check cols others row \<longleftrightarrow> row_typed cols row \<and> row_unique cols others row"

text \<open>
  A dict returned by \<open>to_dict\<close> fits a table: each of its keys names a column, and its value
  fits that column. A recipe's dict has in place of \<open>user_id\<close> the key \<open>user\<close>, holding
  \<open>None\<close> or the owner's dict.
\<close>

definition dict_fits :: "column list \<Rightarrow> pydict \<Rightarrow> bool" where
  "dict_fits cols d =
     list_all (\<lambda>(k, v). case find (\<lambda>c. col_name c = k) cols of
                          None \<Rightarrow> False | Some c \<Rightarrow> value_fits c v) d"

definition recipe_dict_fits :: "pydict \<Rightarrow> bool" where
  "recipe_dict_fits d =
     list_all (\<lambda>(k, v).
        if k = ''user'' then (case v of PNone \<Rightarrow> True | PDict du \<Rightarrow> dict_fits users_columns du | _ \<Rightarrow> False)
        else (case find (\<lambda>c. col_name c = k) recipes_columns of
                None \<Rightarrow> False | Some c \<Rightarrow> value_fits c v)) d"

section \<open>Helper lemmas\<close>

lemma value_fits_simps [simp]:
  "value_fits c PNone = col_nullable c"
  "value_fits c (PInt i) = (col_type c = Col_Integer)"
  "value_fits c (PStr s) = (col_type c = Col_String)"
  "value_fits c (PDict e) = False"
  by (simp_all add: value_fits_def)

lemma value_fits_py_str [simp]:
  "value_fits c (py_str s) = (if s = None then col_nullable c else col_type c = Col_String)"
  by (cases s) simp_all

lemma value_fits_py_int [simp]:
  "value_fits c (py_int i) = (if i = None then col_nullable c else col_type c = Col_Integer)"
  by (cases i) simp_all

lemmas schema_defs = schema_check_def row_typed_def row_unique_def users_columns_def
  recipes_columns_def user_row_def recipe_row_def

lemma user_dict_fits_row:
  "u_id u \<noteq> None \<Longrightarrow> username u \<noteq> None \<Longrightarrow> dict_fits users_columns (user_to_dict u)"
  by (simp add: dict_fits_def users_columns_def user_to_dict_def)

lemma stored_user_ids:
  "users_inv us \<Longrightarrow> (k, u) \<in> set us \<Longrightarrow> u_id u = Some k \<and> username u \<noteq> None"
  unfolding users_inv_iff by blast

lemma stored_recipe_ids:
  "recipes_inv rs \<Longrightarrow> (k, r) \<in> set rs \<Longrightarrow> r_id r = Some k \<and> check_recipe_row r = Inr ()"
  unfolding recipes_inv_iff by blast

section \<open>Properties\<close>

lemma key_column_fresh:
  assumes "list_all (\<lambda>(j, v). f v = Some j) others"
  shows "Some (py_int (Some k)) \<in> (\<lambda>ow. Some (py_int (f (snd ow)))) ` set others
           \<longleftrightarrow> k \<in> fst ` set others"
  using assms by (force simp: list_all_iff)

text \<open>
  C29. The commit-time checks of a users row agree with the generic schema check of the
  declarations of lines 10--14: over rows keyed by their \<open>id\<close>, \<open>check_user_row\<close>
  (NOT NULL, primary key, UNIQUE, in SQLite's order) accepts a row with key \<open>k\<close> exactly when
  \<open>schema_check users_columns\<close> accepts it (\<open>id\<close> and \<open>username\<close> not null and unique,
  the other columns nullable strings).
\<close>

theorem check_user_row_schema:
  assumes keys: "list_all (\<lambda>(j, v). u_id v = Some j) others"
  shows "check_user_row others (u\<lparr>u_id := Some k\<rparr>) = Inr () \<longleftrightarrow>
     schema_check users_columns (map (user_row \<circ> snd) others) (user_row (u\<lparr>u_id := Some k\<rparr>))"
  using key_column_fresh [OF keys, of k]
  by (auto simp: schema_defs check_user_row_def image_image image_iff)

theorem check_user_row_schema_witness:
  "list_all (\<lambda>(j, v). u_id v = Some j) [(1::int, new_user\<lparr>u_id := Some 1, username := Some ''chef1''\<rparr>)] \<and>
   schema_check users_columns (map (user_row \<circ> snd) [(1, new_user\<lparr>u_id := Some 1, username := Some ''chef1''\<rparr>)])
     (user_row ((new_user\<lparr>username := Some ''chef2''\<rparr>)\<lparr>u_id := Some 2\<rparr>))"
proof -
  have keys: "list_all (\<lambda>(j, v). u_id v = Some j) [(1::int, new_user\<lparr>u_id := Some 1, username := Some ''chef1''\<rparr>)]" by simp
  have acc: "check_user_row [(1::int, new_user\<lparr>u_id := Some 1, username := Some ''chef1''\<rparr>)] ((new_user\<lparr>username := Some ''chef2''\<rparr>)\<lparr>u_id := Some 2\<rparr>) = Inr ()"
    by (simp add: check_user_row_def)
  have "schema_check users_columns (map (user_row \<circ> snd) [(1, new_user\<lparr>u_id := Some 1, username := Some ''chef1''\<rparr>)])
     (user_row ((new_user\<lparr>username := Some ''chef2''\<rparr>)\<lparr>u_id := Some 2\<rparr>))"
    using check_user_row_schema [OF keys, of 2 "new_user\<lparr>username := Some ''chef2''\<rparr>"] acc by simp
  with keys show ?thesis by (rule conjI)
qed

text \<open>
  C30. Likewise for a recipes row and the declarations of lines 52--58: the key test and
  \<open>check_recipe_row\<close> accept exactly the rows \<open>schema_check recipes_columns\<close> accepts
  (\<open>id\<close>, \<open>title\<close>, \<open>instructions\<close>, \<open>minutes_to_complete\<close> not null, \<open>user_id\<close>
  a nullable integer).
\<close>

theorem check_recipe_row_schema:
  assumes keys: "list_all (\<lambda>(j, v). r_id v = Some j) others"
  shows "(k \<notin> set (map fst others) \<and> check_recipe_row (r\<lparr>r_id := Some k\<rparr>) = Inr ()) \<longleftrightarrow>
     schema_check recipes_columns (map (recipe_row \<circ> snd) others) (recipe_row (r\<lparr>r_id := Some k\<rparr>))"
  using key_column_fresh [OF keys, of k]
  by (auto simp: schema_defs check_recipe_row_def image_image)

theorem check_recipe_row_schema_witness:
  "list_all (\<lambda>(j, v). r_id v = Some j) ([] :: (int \<times> recipe) list) \<and>
   \<not> schema_check recipes_columns [] (recipe_row ((new_recipe\<lparr>title := Some ''Soup''\<rparr>)\<lparr>r_id := Some 1\<rparr>))"
proof -
  have keys: "list_all (\<lambda>(j, v). r_id v = Some j) ([] :: (int \<times> recipe) list)" by simp
  have "check_recipe_row ((new_recipe\<lparr>title := Some ''Soup''\<rparr>)\<lparr>r_id := Some 1\<rparr>) \<noteq> Inr ()"
    by (simp add: check_recipe_row_def new_recipe_def)
  with keys check_recipe_row_schema [OF keys, of 1 "new_recipe\<lparr>title := Some ''Soup''\<rparr>"]
  show ?thesis by simp
qed

text \<open>
  C31. Type of the JSON of stored rows: in every store reached from the empty one, the dict
  \<open>to_dict\<close> returns for a stored user fits the declared \<open>users\<close> columns (so its \<open>id\<close>
  and \<open>username\<close> are not \<open>None\<close>), and the dict of a stored recipe has only declared
  columns of \<open>recipes\<close>, each with a value of its declared type and a non-null value where
  the column is not nullable, and under \<open>user\<close> either \<open>None\<close> or a dict that fits the
  \<open>users\<close> columns.
\<close>

theorem stored_dicts_fit:
  assumes "store_reachable H d"
  shows "list_all (\<lambda>(k, u). dict_fits users_columns (user_to_dict u)) (users d) \<and>
         list_all (\<lambda>(k, r). recipe_dict_fits (stored_recipe_dict d r)) (recipes d)"
proof -
  from store_reachable_inv [OF assms(1)]
  have us: "users_inv (users d)" and rs: "recipes_inv (recipes d)" by (simp_all add: db_inv_def)
  have user: "dict_fits users_columns (user_to_dict u)" if "(j, u) \<in> set (users d)" for j u
    using stored_user_ids [OF us that] by (simp add: user_dict_fits_row)
  have "recipe_dict_fits (stored_recipe_dict d r)" if m: "(k, r) \<in> set (recipes d)" for k r
  proof -
    from stored_recipe_ids [OF rs m] have r: "r_id r = Some k" "check_recipe_row r = Inr ()"
      by simp_all
    have owner: "dict_fits users_columns (user_to_dict u)" if "recipe_owner d r = Some u" for u
      using that by (auto simp: recipe_owner_def split: option.splits dest: map_of_SomeD intro: user)
    from r show ?thesis
      by (auto simp: recipe_dict_fits_def stored_recipe_dict_def recipe_to_dict_def recipes_columns_def
          check_recipe_row_def split: if_splits option.splits intro: owner)
  qed
  with user show ?thesis by (auto simp: list_all_iff)
qed

theorem stored_dicts_fit_witness:
  "store_reachable test_bcrypt (store_run test_bcrypt empty_db chef_ops) \<and>
   list_all (\<lambda>(k, r). recipe_dict_fits (stored_recipe_dict (store_run test_bcrypt empty_db chef_ops) r))
     (recipes (store_run test_bcrypt empty_db chef_ops))"
proof -
  have r: "store_reachable test_bcrypt (store_run test_bcrypt empty_db chef_ops)"
    by (rule store_run_reachable [OF store_reachable.start])
  show ?thesis using r stored_dicts_fit [OF r] by blast
qed

end
