(* ===== verification/Queries.thy ===== *)
theory Queries
  imports Store
begin

text \<open>
  The reads the store boundary offers the models (\<open>User.query.get(k)\<close>,
  \<open>Recipe.query.get(k)\<close> and \<open>User.query.filter_by(username=n).first()\<close>), over the tables of
  theory \<open>Store\<close>. The lemmas show that the lookup by username finds exactly the stored user
  with that name, and that a user just created is found again under its name and its key.
\<close>

section \<open>Reads\<close>

definition get_user :: "db \<Rightarrow> int \<Rightarrow> user option" where
  "get_user d k = map_of (users d) k"

definition get_recipe :: "db \<Rightarrow> int \<Rightarrow> recipe option" where
  "get_recipe d k = map_of (recipes d) k"

definition user_by_username :: "db \<Rightarrow> string \<Rightarrow> (int \<times> user) option" where
  "user_by_username d n = find (\<lambda>(k, u). username u = Some n) (users d)"

section \<open>Helper lemmas\<close>

lemma user_by_username_inv:
  assumes inv: "users_inv (users d)"
  shows "user_by_username d n = Some (k, u) \<longleftrightarrow> (k, u) \<in> set (users d) \<and> username u = Some n"
proof
  assume "user_by_username d n = Some (k, u)"
  then show "(k, u) \<in> set (users d) \<and> username u = Some n"
    unfolding user_by_username_def by (auto dest: find_SomeD)
next
  assume m: "(k, u) \<in> set (users d) \<and> username u = Some n"
  from inv have dist: "distinct (map fst (users d))"
    and uniq: "\<forall>(k, u) \<in> set (users d). \<forall>(k', u') \<in> set (users d). username u = username u' \<longrightarrow> k = k'"
    unfolding users_inv_iff by blast+
  have "\<forall>y \<in> set (users d). (\<lambda>(k, u). username u = Some n) y \<longrightarrow> y = (k, u)"
  proof (intro ballI impI)
    fix y assume y: "y \<in> set (users d)" and p: "(\<lambda>(k, u). username u = Some n) y"
    obtain k' u' where yk: "y = (k', u')" by (cases y)
    with y p m uniq have "k' = k" by fastforce
    with yk y m dist show "y = (k, u)" by (metis eq_key_imp_eq_value)
  qed
  with m show "user_by_username d n = Some (k, u)"
    unfolding user_by_username_def by (intro find_Some_unique) auto
qed

lemma insert_user_row:
  assumes "insert_user d u = Inr d'"
  shows "\<exists>k. (k, u\<lparr>u_id := Some k\<rparr>) \<in> set (users d') \<and> map_of (users d') k = Some (u\<lparr>u_id := Some k\<rparr>)"
proof -
  from assms obtain k where "d' = d\<lparr>users := AList.update k (u\<lparr>u_id := Some k\<rparr>) (users d)\<rparr>"
    by (auto simp: insert_user_Inr)
  then have "map_of (users d') k = Some (u\<lparr>u_id := Some k\<rparr>)" by (simp add: update_conv')
  then show ?thesis by (blast dest: map_of_SomeD)
qed

section \<open>Properties\<close>

text \<open>
  C33. \<open>User.query.filter_by(username=n).first()\<close> is exact on every store reached from the
  empty one: it returns \<open>(k, u)\<close> exactly when \<open>u\<close> is the stored user with key \<open>k\<close> and
  username \<open>n\<close> (the unique constraint makes "first" the only one).
\<close>

theorem user_by_username_found:
  assumes "store_reachable H d"
  shows "user_by_username d n = Some (k, u) \<longleftrightarrow> (k, u) \<in> set (users d) \<and> username u = Some n"
  using store_reachable_inv [OF assms] by (simp add: db_inv_def user_by_username_inv)

theorem user_by_username_found_witness:
  "store_reachable test_bcrypt (store_run test_bcrypt empty_db chef_ops) \<and>
   user_by_username (store_run test_bcrypt empty_db chef_ops) ''chef1'' = Some (1, new_user\<lparr>u_id := Some 1, username := Some ''chef1'', u_password_hash := Some (test_salt @ ''hunter2'')\<rparr>)"
proof -
  have r: "store_reachable test_bcrypt (store_run test_bcrypt empty_db chef_ops)"
    by (rule store_run_reachable [OF store_reachable.start])
  have "(1, new_user\<lparr>u_id := Some 1, username := Some ''chef1'', u_password_hash := Some (test_salt @ ''hunter2'')\<rparr>) \<in> set (users (store_run test_bcrypt empty_db chef_ops))"
    by (simp add: chef_ops_run)
  with r user_by_username_found [OF r, of "''chef1''" 1 "new_user\<lparr>u_id := Some 1, username := Some ''chef1'', u_password_hash := Some (test_salt @ ''hunter2'')\<rparr>"]
  show ?thesis by simp
qed

text \<open>
  C34. Round trip of creation and the reads: after a \<open>User(**kwargs)\<close> is committed, the
  query by its username and the read by the key it received both return it, with that key as
  its \<open>id\<close>.
\<close>

theorem create_user_then_query:
  assumes inv: "db_inv d" and init: "user_init H kwargs = Inr u"
    and step: "store_step H d (CreateUser kwargs) = Inr d'"
  shows "\<exists>k n. username u = Some n \<and> user_by_username d' n = Some (k, u\<lparr>u_id := Some k\<rparr>) \<and>
           get_user d' k = Some (u\<lparr>u_id := Some k\<rparr>)"
proof -
  from step init have "insert_user d u = Inr d'" by simp
  from insert_user_row [OF this] obtain k where m: "(k, u\<lparr>u_id := Some k\<rparr>) \<in> set (users d')"
    and g: "map_of (users d') k = Some (u\<lparr>u_id := Some k\<rparr>)" by blast
  from store_step_inv [OF inv step] have us: "users_inv (users d')" by (simp add: db_inv_def)
  with m obtain n where n: "username u = Some n" unfolding users_inv_iff by fastforce
  from us m n have "user_by_username d' n = Some (k, u\<lparr>u_id := Some k\<rparr>)"
    by (simp add: user_by_username_inv)
  with n g show ?thesis by (auto simp: get_user_def)
qed

theorem create_user_then_query_witness:
  "db_inv empty_db \<and> user_init test_bcrypt [Set_username (Some ''chef1'')] = Inr (new_user\<lparr>username := Some ''chef1''\<rparr>) \<and>
   store_step test_bcrypt empty_db (CreateUser [Set_username (Some ''chef1'')]) = Inr \<lparr>users = [(1, new_user\<lparr>username := Some ''chef1'', u_id := Some 1\<rparr>)], recipes = []\<rparr> \<and>
   user_by_username \<lparr>users = [(1, new_user\<lparr>username := Some ''chef1'', u_id := Some 1\<rparr>)], recipes = []\<rparr> ''chef1'' = Some (1, (new_user\<lparr>username := Some ''chef1''\<rparr>)\<lparr>u_id := Some 1\<rparr>)"
proof -
  have inv: "db_inv empty_db" by (rule store_reachable_inv [OF store_reachable.start])
  have init: "user_init test_bcrypt [Set_username (Some ''chef1'')] = Inr (new_user\<lparr>username := Some ''chef1''\<rparr>)"
    by (simp add: user_init_def validate_username_def)
  have step: "store_step test_bcrypt empty_db (CreateUser [Set_username (Some ''chef1'')]) = Inr \<lparr>users = [(1, new_user\<lparr>username := Some ''chef1'', u_id := Some 1\<rparr>)], recipes = []\<rparr>"
    using init by (simp add: store_eval new_user_def)
  from create_user_then_query [OF inv init step] obtain k n where
    "username (new_user\<lparr>username := Some ''chef1''\<rparr>) = Some n" and "user_by_username \<lparr>users = [(1, new_user\<lparr>username := Some ''chef1'', u_id := Some 1\<rparr>)], recipes = []\<rparr> n = Some (k, (new_user\<lparr>username := Some ''chef1''\<rparr>)\<lparr>u_id := Some k\<rparr>)"
    and "get_user \<lparr>users = [(1, new_user\<lparr>username := Some ''chef1'', u_id := Some 1\<rparr>)], recipes = []\<rparr> k = Some ((new_user\<lparr>username := Some ''chef1''\<rparr>)\<lparr>u_id := Some k\<rparr>)"
    by blast
  moreover have "k = 1" using calculation(3) by (simp add: get_user_def split: if_splits)
  ultimately show ?thesis using inv init step by simp
qed

end
