(* ===== verification/Py_Text.thy ===== *)
theory Py_Text
  imports User
begin

text \<open>
  Python text and its UTF-8 bytes. A Python \<open>str\<close> is a sequence of code points below
  \<open>0x110000\<close> (lone surrogates included); the models hand such strings to flask-bcrypt,
  which encodes them with \<open>str.encode('utf-8')\<close> before bcrypt reads bytes. The codec is
  CPython's strict UTF-8: encoding refuses surrogates, decoding refuses overlong forms,
  surrogates, continuation bytes out of place and values above \<open>0x10FFFF\<close>. The decoder is
  the reference the encoder is proved against; the \<open>.decode('utf-8')\<close> and
  \<open>.encode('utf-8')\<close> that \<open>models.py\<close> applies to the ASCII hash (lines 27 and 31) are the
  identity and are left out.
\<close>

type_synonym py_text = "nat list"

definition py_codepoint :: "nat \<Rightarrow> bool" where
  "py_codepoint c \<longleftrightarrow> c < 0x110000"

definition surrogate :: "nat \<Rightarrow> bool" where
  "surrogate c \<longleftrightarrow> 0xD800 \<le> c \<and> c < 0xE000"

definition utf8_cont :: "nat \<Rightarrow> bool" where
  "utf8_cont b \<longleftrightarrow> 0x80 \<le> b \<and> b < 0xC0"

text \<open>The bytes of one code point: one to four, by the code point's range.\<close>

definition utf8_char :: "nat \<Rightarrow> nat list" where
  "utf8_char c =
     (if c < 0x80 then [c]
      else if c < 0x800 then [0xC0 + c div 64, 0x80 + c mod 64]
      else if c < 0x10000 then [0xE0 + c div 4096, 0x80 + c div 64 mod 64, 0x80 + c mod 64]
      else [0xF0 + c div 262144, 0x80 + c div 4096 mod 64, 0x80 + c div 64 mod 64,
            0x80 + c mod 64])"

text \<open>\<open>s.encode('utf-8')\<close>: a surrogate raises \<open>UnicodeEncodeError\<close>.\<close>

definition utf8_encode :: "py_text \<Rightarrow> nat list result" where
  "utf8_encode s =
     (if list_all (\<lambda>c. \<not> surrogate c) s then Inr (concat (map utf8_char s))
      else Inl (UnicodeEncodeError ''surrogates not allowed''))"

text \<open>\<open>b.decode('utf-8')\<close>: \<open>None\<close> is the \<open>UnicodeDecodeError\<close> it raises.\<close>

fun utf8_decode :: "nat list \<Rightarrow> py_text option" where
  "utf8_decode [] = Some []"
| "utf8_decode (b # bs) =
     (if b < 0x80 then map_option (Cons b) (utf8_decode bs)
      else if b < 0xC2 then None
      else if b < 0xE0 then
        (case bs of
           b1 # rest \<Rightarrow>
             if utf8_cont b1 then map_option (Cons ((b - 0xC0) * 64 + (b1 - 0x80))) (utf8_decode rest)
             else None
         | _ \<Rightarrow> None)
      else if b < 0xF0 then
        (case bs of
           b1 # b2 # rest \<Rightarrow>
             let c = (b - 0xE0) * 4096 + (b1 - 0x80) * 64 + (b2 - 0x80) in
             if utf8_cont b1 \<and> utf8_cont b2 \<and> 0x800 \<le> c \<and> \<not> surrogate c
             then map_option (Cons c) (utf8_decode rest) else None
         | _ \<Rightarrow> None)
      else if b < 0xF5 then
        (case bs of
           b1 # b2 # b3 # rest \<Rightarrow>
             let c = (b - 0xF0) * 262144 + (b1 - 0x80) * 4096 + (b2 - 0x80) * 64 + (b3 - 0x80) in
             if utf8_cont b1 \<and> utf8_cont b2 \<and> utf8_cont b3 \<and> 0x10000 \<le> c \<and> py_codepoint c
             then map_option (Cons c) (utf8_decode rest) else None
         | _ \<Rightarrow> None)
      else None)"

text \<open>
  flask-bcrypt's \<open>_unicode_to_bytes\<close>, and \<open>generate_password_hash\<close> and
  \<open>check_password_hash\<close> on a \<open>str\<close> password: encode, then the byte-level operations of
  \<open>Hasher\<close> (which are the same methods given \<open>bytes\<close>). The \<open>not password\<close> test that
  flask-bcrypt makes on the \<open>str\<close> is the one \<open>bcrypt_generate\<close> makes on its bytes: a text
  is empty exactly when its encoding is (\<open>unicode_to_bytes_empty\<close>).
\<close>

definition unicode_to_bytes :: "py_text \<Rightarrow> string result" where
  "unicode_to_bytes s = then_do (utf8_encode s) (\<lambda>bs. Inr (map char_of bs))"

definition flask_generate :: "(string \<Rightarrow> string \<Rightarrow> string) \<Rightarrow> string \<Rightarrow> py_text \<Rightarrow> string result" where
  "flask_generate dg salt pw = then_do (unicode_to_bytes pw) (bcrypt_generate dg salt)"

definition flask_check :: "(string \<Rightarrow> string \<Rightarrow> string) \<Rightarrow> string \<Rightarrow> py_text \<Rightarrow> bool result" where
  "flask_check dg h pw = then_do (unicode_to_bytes pw) (bcrypt_check dg h)"

text \<open>The hasher the User model sees when its passwords are Python \<open>str\<close> values.\<close>

definition flask_str_model :: "(string \<Rightarrow> string \<Rightarrow> string) \<Rightarrow> (string, py_text) hasher" where
  "flask_str_model dg = \<lparr>gen_hash = flask_generate dg, check_hash = flask_check dg\<rparr>"

section \<open>Lemmas\<close>

lemma utf8_decode_char:
  assumes "py_codepoint c" and "\<not> surrogate c"
  shows "utf8_decode (utf8_char c @ rest) = map_option (Cons c) (utf8_decode rest)"
proof -
  define x y z where "x = c div 64 div 64 div 64" and "y = c div 64 div 64 mod 64"
    and "z = c div 64 mod 64"
  have y: "y < 64" and z: "z < 64" and w: "c mod 64 < 64"
    by (simp_all add: y_def z_def)
  have d2: "c div 64 * 64 + c mod 64 = c" by simp
  have d3: "c div 64 div 64 * 64 + z = c div 64" by (simp add: z_def)
  have d4: "x * 64 + y = c div 64 div 64" by (simp add: x_def y_def)
  consider "c < 0x80" | "0x80 \<le> c" "c < 0x800" | "0x800 \<le> c" "c < 0x10000" | "0x10000 \<le> c"
    by linarith
  then show ?thesis
  proof cases
    case 1
    then show ?thesis by (simp add: utf8_char_def)
  next
    case 2
    then have "2 \<le> c div 64" "c div 64 < 32" by linarith+
    with 2 d2 show ?thesis by (simp add: utf8_char_def utf8_cont_def)
  next
    case 3
    then have "c div 64 div 64 < 16" by linarith
    moreover have "utf8_char c = [0xE0 + c div 64 div 64, 0x80 + z, 0x80 + c mod 64]"
      using 3 by (simp add: utf8_char_def z_def div_mult2_eq)
    moreover have "(c div 64 div 64) * 4096 + z * 64 + c mod 64 = c"
      using d2 d3 by linarith
    ultimately show ?thesis using 3 assms z w by (simp add: utf8_cont_def)
  next
    case 4
    with assms have "x < 5" by (simp add: x_def py_codepoint_def)
    moreover have "utf8_char c = [0xF0 + x, 0x80 + y, 0x80 + z, 0x80 + c mod 64]"
      using 4 by (simp add: utf8_char_def x_def y_def z_def div_mult2_eq [symmetric])
    moreover have "x * 262144 + y * 4096 + z * 64 + c mod 64 = c"
      using d2 d3 d4 by linarith
    ultimately show ?thesis using 4 assms y z w by (simp add: utf8_cont_def)
  qed
qed

lemma utf8_char_nonempty [simp]: "utf8_char c \<noteq> []"
  by (simp add: utf8_char_def)

lemma utf8_encode_Inr:
  "utf8_encode s = Inr bs \<longleftrightarrow> list_all (\<lambda>c. \<not> surrogate c) s \<and> bs = concat (map utf8_char s)"
  by (auto simp: utf8_encode_def)

lemma unicode_to_bytes_Inr:
  "unicode_to_bytes s = Inr b \<longleftrightarrow>
     list_all (\<lambda>c. \<not> surrogate c) s \<and> b = map char_of (concat (map utf8_char s))"
  by (auto simp: unicode_to_bytes_def then_do_eq_Inr utf8_encode_Inr)

lemma unicode_to_bytes_empty:
  "unicode_to_bytes s = Inr b \<Longrightarrow> b = [] \<longleftrightarrow> s = []"
  by (auto simp: unicode_to_bytes_Inr)

lemma unicode_to_bytes_surrogate:
  "\<not> list_all (\<lambda>c. \<not> surrogate c) s \<Longrightarrow>
     unicode_to_bytes s = Inl (UnicodeEncodeError ''surrogates not allowed'')"
  by (simp add: unicode_to_bytes_def utf8_encode_def)

lemma utf8_len_supplementary:
  "list_all (\<lambda>c. 0x10000 \<le> c) s \<Longrightarrow> length (concat (map utf8_char s)) = 4 * length s"
  by (induction s) (simp_all add: utf8_char_def)

lemma utf8_char_bytes: "py_codepoint c \<Longrightarrow> list_all (\<lambda>b. b < 256) (utf8_char c)"
  by (auto simp: utf8_char_def py_codepoint_def)

lemma char_of_bytes_inj:
  assumes "list_all (\<lambda>b. b < 256) (xs :: nat list)" and "list_all (\<lambda>b. b < 256) ys"
    and "(map char_of xs :: string) = map char_of ys"
  shows "xs = ys"
proof -
  have inv: "map of_char (map char_of zs :: string) = zs" if "list_all (\<lambda>b. b < 256) zs" for zs :: "nat list"
    using that by (induction zs) simp_all
  have "xs = map of_char (map char_of xs :: string)" using inv [OF assms(1)] by simp
  also have "\<dots> = map of_char (map char_of ys :: string)" by (simp only: assms(3))
  also have "\<dots> = ys" by (rule inv [OF assms(2)])
  finally show ?thesis .
qed

text \<open>Decoding the UTF-8 encoding of a Python string gives the string back.\<close>

lemma utf8_decode_encode:
  assumes "list_all py_codepoint s" and "utf8_encode s = Inr bs"
  shows "utf8_decode bs = Some s"
proof -
  from assms(2) have ns: "list_all (\<lambda>c. \<not> surrogate c) s" and bs: "bs = concat (map utf8_char s)"
    by (simp_all add: utf8_encode_Inr)
  from assms(1) ns have "utf8_decode (concat (map utf8_char s)) = Some s"
    by (induction s) (simp_all add: utf8_decode_char)
  with bs show ?thesis by simp
qed

lemma unicode_to_bytes_inj:
  assumes "list_all py_codepoint p" and "list_all py_codepoint q"
    and "unicode_to_bytes p = Inr b" and "unicode_to_bytes q = Inr b"
  shows "p = q"
proof -
  from assms(3,4) obtain bp bq where
    ep: "utf8_encode p = Inr bp" and eq: "utf8_encode q = Inr bq" and
    b: "b = map char_of bp" "b = map char_of bq"
    by (auto simp: unicode_to_bytes_def then_do_eq_Inr)
  have "list_all (\<lambda>x. x < 256) bp" "list_all (\<lambda>x. x < 256) bq"
    using assms(1,2) ep eq utf8_char_bytes by (auto simp: utf8_encode_Inr list_all_iff)
  with b have "bp = bq" using char_of_bytes_inj by metis
  with utf8_decode_encode [OF assms(1) ep] utf8_decode_encode [OF assms(2) eq] show ?thesis by simp
qed

lemma str_set_password:
  "password_hash_set (flask_str_model dg) salt u p =
     then_do (unicode_to_bytes p) (password_hash_set (bcrypt_model dg) salt u)"
  by (cases "unicode_to_bytes p")
     (simp_all add: password_hash_set_def flask_str_model_def flask_generate_def bcrypt_model_def)

lemma take_short_eq:
  assumes "length ys < n"
  shows "take n xs = ys \<longleftrightarrow> xs = ys"
proof
  assume t: "take n xs = ys"
  then have "min (length xs) n < n" using assms by auto
  then have "take n xs = xs" by simp
  with t show "xs = ys" by simp
next
  assume "xs = ys"
  with assms show "take n xs = ys" by simp
qed

text \<open>
  C16. Round trip of a Python \<open>str\<close> password through the User model: with flask-bcrypt
  and an injective digest, after \<open>user.password_hash = p\<close> for a password whose UTF-8
  encoding is shorter than 72 bytes, \<open>authenticate(q)\<close> returns exactly whether \<open>q == p\<close>,
  for every encodable \<open>q\<close>; the UTF-8 codec loses nothing below bcrypt's limit.
\<close>

theorem str_password_exact:
  assumes dg: "digest_inj dg"
    and set: "password_hash_set (flask_str_model dg) salt u p = Inr u'"
    and p: "list_all py_codepoint p" and short: "unicode_to_bytes p = Inr b" "length b < bcrypt_max_pw"
    and q: "list_all (\<lambda>c. py_codepoint c \<and> \<not> surrogate c) q"
  shows "authenticate (flask_str_model dg) u' q = Inr (q = p)"
proof -
  from set short have salt: "length salt = bcrypt_salt_len"
    and u': "u' = u\<lparr>u_password_hash := Some (salt @ dg salt b)\<rparr>"
    by (simp_all add: str_set_password bcrypt_set_password)
  from q obtain b' where b': "unicode_to_bytes q = Inr b'"
    by (simp add: unicode_to_bytes_def utf8_encode_def list_all_iff)
  have "authenticate (flask_str_model dg) u' q = Inr (dg salt (take bcrypt_max_pw b') = dg salt b)"
    using salt b' by (simp add: u' authenticate_def flask_str_model_def flask_check_def
        bcrypt_check_generated)
  also have "(dg salt (take bcrypt_max_pw b') = dg salt b) = (b' = b)"
    using dg short(2) unfolding digest_inj_def by (metis take_short_eq)
  also have "(b' = b) = (q = p)"
    using unicode_to_bytes_inj [OF p _ short(1)] b' short(1) q by (auto simp: list_all_iff)
  finally show ?thesis .
qed

theorem str_password_exact_witness:
  "digest_inj plain_digest \<and>
   password_hash_set (flask_str_model plain_digest) test_salt new_user [0xE9] =
     Inr (new_user\<lparr>u_password_hash := Some (test_salt @ (map char_of [195, 169 :: nat]))\<rparr>) \<and>
   list_all py_codepoint [0xE9] \<and> unicode_to_bytes [0xE9] = Inr (map char_of [195, 169 :: nat]) \<and>
   length (map char_of [195, 169 :: nat]) < bcrypt_max_pw \<and>
   list_all (\<lambda>c. py_codepoint c \<and> \<not> surrogate c) [0x65] \<and>
   authenticate (flask_str_model plain_digest)
     (new_user\<lparr>u_password_hash := Some (test_salt @ (map char_of [195, 169 :: nat]))\<rparr>) [0x65] = Inr False"
proof -
  have dg: "digest_inj plain_digest" by (simp add: digest_inj_def plain_digest_def)
  have b: "unicode_to_bytes [0xE9] = Inr (map char_of [195, 169 :: nat])"
    by (simp add: unicode_to_bytes_Inr surrogate_def utf8_char_def)
  have set: "password_hash_set (flask_str_model plain_digest) test_salt new_user [0xE9] =
     Inr (new_user\<lparr>u_password_hash := Some (test_salt @ (map char_of [195, 169 :: nat]))\<rparr>)"
    by (simp add: str_set_password b bcrypt_set_password_ok bcrypt_salt_len_def bcrypt_max_pw_def
        plain_digest_def)
  have p: "list_all py_codepoint [0xE9]" by (simp add: py_codepoint_def)
  have n: "length (map char_of [195, 169 :: nat]) < bcrypt_max_pw" by (simp add: bcrypt_max_pw_def)
  have q: "list_all (\<lambda>c. py_codepoint c \<and> \<not> surrogate c) [0x65::nat]"
    by (simp add: py_codepoint_def surrogate_def)
  show ?thesis using dg set p b n q str_password_exact [OF dg set p b n q] by simp
qed

text \<open>
  C32. bcrypt truncates at 72 bytes of UTF-8, not at 72 characters: after
  \<open>user.password_hash = p\<close> with flask-bcrypt, for a password of 18 or more characters
  outside the Basic Multilingual Plane (four bytes each, e.g. emoji), \<open>authenticate\<close>
  also accepts \<open>p\<close> with any encodable text appended.
\<close>

theorem str_password_truncation:
  assumes set: "password_hash_set (flask_str_model dg) salt u p = Inr u'"
    and p: "list_all (\<lambda>c. 0x10000 \<le> c \<and> py_codepoint c) p"
    and n: "bcrypt_max_pw \<le> 4 * length p"
    and q: "list_all (\<lambda>c. \<not> surrogate c) q"
  shows "authenticate (flask_str_model dg) u' (p @ q) = Inr True"
proof -
  from set obtain b where b: "unicode_to_bytes p = Inr b"
    and set': "password_hash_set (bcrypt_model dg) salt u b = Inr u'"
    by (auto simp: str_set_password then_do_eq_Inr)
  from b have nsp: "list_all (\<lambda>c. \<not> surrogate c) p" and bp: "b = map char_of (concat (map utf8_char p))"
    by (auto simp: unicode_to_bytes_def utf8_encode_def then_do_eq_Inr split: if_splits)
  from p have "list_all (\<lambda>c. 0x10000 \<le> c) p" by (simp add: list_all_iff)
  with bp n have len: "bcrypt_max_pw \<le> length b" by (simp add: utf8_len_supplementary)
  from nsp q have pq: "unicode_to_bytes (p @ q) = Inr (b @ map char_of (concat (map utf8_char q)))"
    by (simp add: unicode_to_bytes_def utf8_encode_def bp)
  from set' have salt: "length salt = bcrypt_salt_len"
    and u': "u' = u\<lparr>u_password_hash := Some (salt @ dg salt (take bcrypt_max_pw b))\<rparr>"
    by (simp_all add: bcrypt_set_password)
  from pq salt len show ?thesis
    by (simp add: u' authenticate_def flask_str_model_def flask_check_def bcrypt_check_generated)
qed

theorem str_password_truncation_witness:
  "password_hash_set (flask_str_model plain_digest) test_salt new_user (replicate 18 0x1F600) =
     Inr (new_user\<lparr>u_password_hash :=
       Some (test_salt @ map char_of (concat (replicate 18 [240, 159, 152, 128 :: nat])))\<rparr>) \<and>
   list_all (\<lambda>c. 0x10000 \<le> c \<and> py_codepoint c) (replicate 18 (0x1F600::nat)) \<and>
   bcrypt_max_pw \<le> 4 * length (replicate 18 (0x1F600::nat)) \<and>
   list_all (\<lambda>c. \<not> surrogate c) [0x78] \<and>
   authenticate (flask_str_model plain_digest)
     (new_user\<lparr>u_password_hash :=
       Some (test_salt @ map char_of (concat (replicate 18 [240, 159, 152, 128 :: nat])))\<rparr>)
     (replicate 18 0x1F600 @ [0x78]) = Inr True"
proof -
  have b: "unicode_to_bytes (replicate 18 0x1F600) =
      Inr (map char_of (concat (replicate 18 [240, 159, 152, 128 :: nat])))"
    by (simp add: unicode_to_bytes_Inr surrogate_def utf8_char_def)
  have "length (map char_of (concat (replicate 18 [240, 159, 152, 128 :: nat])) :: string) = bcrypt_max_pw"
    by (simp add: bcrypt_max_pw_def length_concat sum_list_replicate)
  with b have set: "password_hash_set (flask_str_model plain_digest) test_salt new_user (replicate 18 0x1F600) =
     Inr (new_user\<lparr>u_password_hash :=
       Some (test_salt @ map char_of (concat (replicate 18 [240, 159, 152, 128 :: nat])))\<rparr>)"
    by (simp add: str_set_password bcrypt_set_password_ok plain_digest_def bcrypt_salt_len_def)
  have p: "list_all (\<lambda>c. 0x10000 \<le> c \<and> py_codepoint c) (replicate 18 (0x1F600::nat))"
    by (simp add: py_codepoint_def)
  have n: "bcrypt_max_pw \<le> 4 * length (replicate 18 (0x1F600::nat))"
    by (simp add: bcrypt_max_pw_def)
  have q: "list_all (\<lambda>c. \<not> surrogate c) [0x78::nat]" by (simp add: surrogate_def)
  from set p n q str_password_truncation [OF set p n q] show ?thesis by (intro conjI) assumption+
qed

end
