(* ===== verification/Spec2Isabelle.thy ===== *)
theory Spec2Isabelle
  imports Store_Spec Schema Queries Py_Text
begin

text \<open>
  \<^bold>\<open>Recipe-sharing persistence layer: models, validators, credentials and store.\<close>

  The program is one file, \<open>src/server/models.py\<close>: two SQLAlchemy models, \<open>User\<close>
  (lines 7--47) and \<open>Recipe\<close> (lines 49--84), with attribute validators run on
  assignment (\<open>@validates\<close>), a \<open>password_hash\<close> hybrid property whose getter raises and
  whose setter stores a bcrypt hash, \<open>User.authenticate\<close>, and \<open>to_dict\<close> on both models
  (\<open>Recipe.to_dict\<close> embeds the owner's). The models call two collaborators that are not
  under \<open>src/\<close>: \<open>config.bcrypt\<close> (flask-bcrypt) and \<open>config.db\<close> (the SQLAlchemy
  session over SQLite), which enforces the column declarations when a record is committed.
  Request handlers (create, update, delete) are outside the sources; each request is one
  committed operation on one record.

  \<^bold>\<open>Theories.\<close>
  \<^item> \<open>Prelude\<close>: Python exceptions as the datatype \<open>error\<close> and results \<open>error + 'a\<close>
    (\<open>then_do\<close> sequences two statements), Python truthiness \<open>py_not\<close> and \<open>py_len\<close> of
    a nullable string, the values of a \<open>to_dict\<close> dictionary (\<open>pyval\<close>), \<open>run_all\<close>, a loop
    of assignments that stops at the first exception, with its invariant and failure lemmas
    (\<open>run_all_inv\<close>, \<open>run_all_fails\<close>), and the list lemmas for reads in key order
    (\<open>sort_key_snoc\<close>, \<open>map_snd_insort_key\<close>).
  \<^item> \<open>Hasher\<close>: the interface the models use (\<open>hasher\<close>, over the salt and the password
    types: \<open>gen_hash\<close> is \<open>generate_password_hash\<close>, with bcrypt's random salt an argument,
    \<open>check_hash\<close> is \<open>check_password_hash\<close>), its contract \<open>sound_hasher H key\<close>, and
    \<open>bcrypt_model dg\<close>, flask-bcrypt over bcrypt 4 from their documentation: empty password
    refused, 29-character salt, digest of the first 72 bytes, check by re-hashing with the
    stored salt (\<open>bcrypt_model_sound\<close>). The digest \<open>dg\<close> is a parameter; its one-wayness
    is not modelled, and the claims that need it assume it injective (\<open>digest_inj\<close>), an
    idealisation of collision resistance. \<open>test_bcrypt\<close> is an executable instance for
    concrete runs. Its passwords are byte strings (\<open>string\<close>), which is what flask-bcrypt
    hashes.
  \<^item> \<open>User\<close>: the record \<open>user\<close> of the \<open>users\<close> columns; \<open>validate_username\<close>,
    \<open>password_hash_get\<close>, \<open>password_hash_set\<close>, \<open>authenticate\<close>, \<open>user_to_dict\<close> one
    per method; \<open>user_getattr\<close>/\<open>user_setattr\<close> for attribute access, routing
    \<open>username\<close> through its validator and \<open>password_hash\<close> through the property;
    \<open>user_init\<close> for \<open>User(**kwargs)\<close>, which assigns through \<open>user_ctor_kw\<close>: SQLAlchemy's
    constructor first asks \<open>hasattr(User, key)\<close>, which is false for \<open>password_hash\<close>
    because the class-level hybrid calls the raising getter, so that keyword raises
    \<open>TypeError\<close> (C23). Lemmas C1--C8 and C23.
  \<^item> \<open>Py_Text\<close>: Python \<open>str\<close> values as lists of code points (\<open>py_text\<close>), CPython's
    strict UTF-8 codec (\<open>utf8_char\<close>, \<open>utf8_encode\<close>, which refuses surrogates with
    \<open>UnicodeEncodeError\<close>, and \<open>utf8_decode\<close>), flask-bcrypt's \<open>_unicode_to_bytes\<close>
    (\<open>unicode_to_bytes\<close>) and its two methods on a \<open>str\<close> password
    (\<open>flask_generate\<close>, \<open>flask_check\<close>), packed as the hasher \<open>flask_str_model dg\<close> that the
    User model sees when \<open>password_hash\<close> is assigned a \<open>str\<close> from a request.
    Decoding inverts encoding (\<open>utf8_decode_encode\<close>, by induction with one lemma per
    code point, \<open>utf8_decode_char\<close>), so below bcrypt's limit authentication is exact
    (C16); the limit counts bytes, so 18 four-byte characters already reach it (C32).
  \<^item> \<open>Recipe\<close>: the record \<open>recipe\<close>, \<open>validate_title\<close>, \<open>validate_instructions\<close>,
    \<open>recipe_setattr\<close>, \<open>recipe_init\<close>, \<open>recipe_to_dict\<close> (with the owner \<open>self.user\<close>
    as an argument). Lemmas C9--C13.
  \<^item> \<open>Rowid\<close>: SQLite's integers and rowids, the database's side of the \<open>Integer\<close>
    columns. \<open>bind_int\<close> is the \<open>sqlite3\<close> driver binding a Python \<open>int\<close>
    (\<open>OverflowError\<close> outside signed 64 bits); \<open>next_rowid\<close> is the key an insert without
    one receives: 1 in an empty table, else the largest key plus one, and once the largest
    key is \<open>2^63 - 1\<close> an unused positive key found by \<open>free_rowid_search\<close> (a
    \<open>while_option\<close> loop; SQLite draws candidates at random, the model tries them upward
    from 1), or \<open>SQLITE_FULL\<close>. Its lemmas (\<open>next_rowid_fresh\<close>, \<open>next_rowid_sound\<close>,
    \<open>next_rowid_complete\<close>, \<open>next_rowid_int64\<close>) serve the store's proofs.
  \<^item> \<open>Store\<close>: the tables as association lists keyed by primary key (\<open>db\<close>), commit of
    one record as SQLite performs it: the integer parameters bound (\<open>bind_int\<close>,
    \<open>bind_recipe\<close>), the key chosen (\<open>next_rowid\<close>) when none was given, then NOT NULL,
    primary key and UNIQUE checks in that order (\<open>check_user_row\<close>, \<open>check_recipe_row\<close>,
    \<open>insert_user\<close>, \<open>update_user_row\<close>, \<open>insert_recipe\<close>, \<open>update_recipe_row\<close>,
    each with an exact characterisation of its success, \<open>insert_user_Inr\<close> and its
    siblings, that the later proofs use), deletion with the ORM's foreign-key nullification
    (\<open>delete_user\<close>, \<open>nullify_owner\<close>), the relationship read (\<open>recipe_owner\<close>, and
    \<open>user_recipes\<close> in rowid order, which is the order of SQLite's table scan; the list
    itself is kept in the order rows were written) and assigned (\<open>set_recipe_user\<close> for
    \<open>recipe.user = u\<close>, \<open>append_user_recipe\<close> for \<open>user.recipes.append(r)\<close>), and
    requests as \<open>store_op\<close> run by \<open>store_step\<close>/\<open>store_run\<close>; \<open>store_reachable\<close> is
    the inductive set of states reachable from \<open>empty_db\<close>. The invariant \<open>db_inv\<close>
    (unique keys that match the rows' ids, 64-bit keys and integer columns, non-empty unique
    usernames, recipes that passed their validators and NOT NULL checks) holds in every
    reachable state (\<open>store_step_inv\<close> by cases on the request, one preservation lemma per
    operation; \<open>store_reachable_inv\<close> by rule induction). Deleting a user nulls the owner
    of its recipes only (C17); a created recipe enters \<open>user.recipes\<close> at its key's
    position (C26); after \<open>user.recipes.append(r)\<close> both sides of the relationship agree
    (C35); changing a user's \<open>id\<close> orphans its recipes (C36); every stored integer fits in
    64 bits (C37); \<open>rowid_reuse_example\<close> shows a deleted largest key given to the next
    user. Lemmas C14, C15, C17--C19, C26 and C35--C37.
  \<^item> \<open>Store_Spec\<close>: the store boundary of the spec as an abstract state of two maps
    (\<open>astore\<close>) and an inductive relation \<open>spec_step\<close>, one rule per request, whose
    premises are the guards (validators, 64-bit integers, a free key that the rowid rule
    \<open>rowid_choice\<close> allows when none was given, NOT NULL and UNIQUE through
    \<open>user_row_ok\<close>) and which leaves the choice among such keys open; \<open>abs_db\<close> reads a
    concrete store as maps. The per-record parts (the constructors \<open>user_init\<close> and
    \<open>recipe_init\<close>, the assignments, \<open>check_recipe_row\<close>, \<open>bind_recipe\<close>,
    \<open>nullify_owner\<close>) are shared with the implementation, so what the refinement checks is
    the table level: keys, uniqueness, re-keying and deletion. \<open>store_step\<close> refines it:
    every committed request is a \<open>spec_step\<close> between the abstractions (C27), and every
    request \<open>spec_step\<close> allows is committed (C28); one lemma per operation carries each
    direction.
  \<^item> \<open>Schema\<close>: the column declarations (lines 10--14, 52--58) as data
    (\<open>col_type\<close>, \<open>column\<close>, \<open>users_columns\<close>, \<open>recipes_columns\<close>), the rows
    written for each model (\<open>user_row\<close>, \<open>recipe_row\<close>) and the generic constraint
    check \<open>schema_check\<close> they imply. The hand-written commit checks equal it (C29, C30),
    and the dicts \<open>to_dict\<close> returns for stored rows fit the declared types (C31).
  \<^item> \<open>Queries\<close>: the reads of the store boundary, \<open>get_user\<close>, \<open>get_recipe\<close> and
    \<open>user_by_username\<close> (\<open>filter_by(username=n).first()\<close> as \<open>List.find\<close>); the query
    by username is exact on reachable stores (C33), and a created user is found again by
    name and by key (C34).
  \<^item> This theory: properties that span the components, C20--C22 (credentials through the
    User model), C24 (a password set through the store authenticates) and C25 (a recipe
    after its owner's deletion).

  \<^bold>\<open>Bounds and loops.\<close> The loops of the models are the constructor's loop over its
  keyword arguments (\<open>run_all\<close>), the run over a list of requests (\<open>store_run\<close>) and
  the scans and sorts of a table (\<open>fold\<close>, \<open>find\<close>, \<open>filter\<close>, \<open>sort_key\<close>), all
  structural recursion over finite lists. The one loop that is not structural is SQLite's
  search for a free rowid, kept as \<open>while_option\<close>, whose result \<open>None\<close> the store turns
  into \<open>SQLITE_FULL\<close>. No fuel is used anywhere. Integers are Python's unbounded \<open>int\<close>
  in the models and signed 64-bit in SQLite: the boundary is \<open>bind_int\<close>, and C37 bounds
  what is stored. Liveness is the completeness of the store against its specification
  (C28): no request the contract allows is refused. The constants are the source's and the
  library's: 50 characters of instructions, bcrypt's 29-character salt and 72-byte password
  prefix. Strings of the models are \<open>char\<close> lists, one byte per character, so
  \<open>length\<close> agrees with Python's \<open>len\<close> for code points below 256; where the count
  matters for a password, it is a \<open>py_text\<close> of code points below \<open>0x110000\<close> and
  bcrypt's prefix is taken of its UTF-8 bytes (\<open>Py_Text\<close>, C16 and C32).

  \<^bold>\<open>Not modelled.\<close> The \<open>config\<close> module (it only builds the collaborators), the
  request handlers and JSON framing (outside the sources and the spec's scope),
  transactions spanning several records (each request commits one record), lazy loading
  (it changes when a relationship is read, not what is read), and \<open>SerializerMixin\<close> (both
  models override its \<open>to_dict\<close>). The constructors take keyword lists from a dict, so a
  keyword occurs once; unknown keywords and the relationship keywords \<open>recipes=\<close> and
  \<open>user=\<close> are not modelled. Cryptographic strength of the hash is not a property of
  this code. The bcrypt library is kept at the level its documentation fixes: the salt is
  an argument of 29 characters (the random 16 bytes of \<open>gensalt\<close> and the parsing of the
  salt string inside \<open>hashpw\<close> are not modelled), and the hash is ASCII, so the
  \<open>.decode('utf-8')\<close> of line 27 and the \<open>.encode('utf-8')\<close> of line 31 are the
  identity on it. SQLite's free-rowid search draws candidates at random and may give up
  with \<open>SQLITE_FULL\<close> after a bounded number of draws even when a key is free; the model
  tries the candidates in order and fails only when none is free.

  \<^bold>\<open>Findings.\<close> The code raises \<open>ValueError\<close> and \<open>AttributeError\<close> where the spec
  names \<open>ValidationError\<close> and \<open>CredentialAccessError\<close>; the raw column
  \<open>_password_hash\<close> is readable (C4); a User built without a \<open>username\<close> keyword is not
  validated until commit (C8); \<open>User(password_hash=p)\<close> raises \<open>TypeError\<close>, so a
  password can only be set after construction (C23); bcrypt ignores everything past 72
  bytes, so the spec's "\<open>authenticate(p + 'x')\<close> is false" fails for long passwords
  (C21, C22), already at 18 characters when they are emoji (C32); a password with a lone
  surrogate makes the setter raise \<open>UnicodeEncodeError\<close> (\<open>unicode_to_bytes_surrogate\<close>),
  and an empty password is refused by flask-bcrypt (\<open>bcrypt_generate\<close>); deleting a user
  orphans its recipes with \<open>user_id = None\<close> (C17, C25); a user's \<open>id\<close> may be changed,
  and the recipes keep the old key and lose their owner (C36); an integer outside 64 bits
  passes every validator and is refused only by the driver at commit with
  \<open>OverflowError\<close> (C37); the key of a deleted last user is given to the next one
  (\<open>rowid_reuse_example\<close>).
\<close>

section \<open>Credentials end to end\<close>

text \<open>
  C20. The spec's scenario, for flask-bcrypt with any injective digest and any well-formed
  salt, as a handler has to run it: \<open>User(username='chef1')\<close> is built, then
  \<open>user.password_hash = 'hunter2'\<close> is assigned, and \<open>authenticate('hunter2')\<close> is true
  while \<open>authenticate('wrong')\<close> is false.
\<close>

theorem chef_scenario:
  assumes "digest_inj dg" and "length salt = bcrypt_salt_len"
  shows "\<exists>u u'. user_init (bcrypt_model dg) [Set_username (Some ''chef1'')] = Inr u \<and>
             user_setattr (bcrypt_model dg) u (Set_password_hash salt ''hunter2'') = Inr u' \<and>
             username u' = Some ''chef1'' \<and>
             authenticate (bcrypt_model dg) u' ''hunter2'' = Inr True \<and>
             authenticate (bcrypt_model dg) u' ''wrong'' = Inr False"
proof -
  let ?u = "new_user\<lparr>username := Some ''chef1''\<rparr>"
  let ?u' = "?u\<lparr>u_password_hash := Some (salt @ dg salt ''hunter2'')\<rparr>"
  have init: "user_init (bcrypt_model dg) [Set_username (Some ''chef1'')] = Inr ?u"
    by (simp add: user_init_def validate_username_def)
  have set: "user_setattr (bcrypt_model dg) ?u (Set_password_hash salt ''hunter2'') = Inr ?u'"
    using assms(2) by (simp add: bcrypt_set_password_ok bcrypt_max_pw_def)
  have "dg salt ''wrong'' \<noteq> dg salt ''hunter2''"
    using assms(1) unfolding digest_inj_def by blast
  with assms(2) init set show ?thesis
    by (auto simp: bcrypt_authenticate bcrypt_max_pw_def)
qed

theorem chef_scenario_witness:
  "digest_inj plain_digest \<and> length test_salt = bcrypt_salt_len \<and>
   (\<exists>u u'. user_init (bcrypt_model plain_digest) [Set_username (Some ''chef1'')] = Inr u \<and>
        user_setattr (bcrypt_model plain_digest) u (Set_password_hash test_salt ''hunter2'') = Inr u' \<and>
        username u' = Some ''chef1'' \<and>
        authenticate (bcrypt_model plain_digest) u' ''hunter2'' = Inr True \<and>
        authenticate (bcrypt_model plain_digest) u' ''wrong'' = Inr False)"
proof -
  have d: "digest_inj plain_digest" by (simp add: digest_inj_def plain_digest_def)
  have s: "length test_salt = bcrypt_salt_len" by simp
  from d s chef_scenario [OF d s] show ?thesis by blast
qed

text \<open>
  C21. bcrypt reads only the first 72 bytes of a password: after setting a password of 72
  or more characters, \<open>authenticate(p + 'x')\<close> is true, against the spec's claim that it is
  false for every \<open>p\<close>.
\<close>

theorem bcrypt_truncation:
  assumes "bcrypt_max_pw \<le> length p"
    and "user_setattr (bcrypt_model dg) u (Set_password_hash salt p) = Inr u'"
  shows "authenticate (bcrypt_model dg) u' (p @ ''x'') = Inr True"
  using assms by (auto simp: bcrypt_set_password bcrypt_authenticate)

theorem bcrypt_truncation_witness:
  "bcrypt_max_pw \<le> length (replicate 72 CHR ''a'') \<and>
   user_setattr (bcrypt_model plain_digest) new_user (Set_password_hash test_salt (replicate 72 CHR ''a'')) =
     Inr (new_user\<lparr>u_password_hash := Some (test_salt @ replicate 72 CHR ''a'')\<rparr>) \<and>
   authenticate (bcrypt_model plain_digest) (new_user\<lparr>u_password_hash := Some (test_salt @ replicate 72 CHR ''a'')\<rparr>)
     (replicate 72 CHR ''a'' @ ''x'') = Inr True"
proof -
  have l: "bcrypt_max_pw \<le> length (replicate 72 CHR ''a'')" by (simp add: bcrypt_max_pw_def)
  have e: "user_setattr (bcrypt_model plain_digest) new_user (Set_password_hash test_salt (replicate 72 CHR ''a'')) =
     Inr (new_user\<lparr>u_password_hash := Some (test_salt @ replicate 72 CHR ''a'')\<rparr>)"
    by (simp add: bcrypt_set_password_ok bcrypt_max_pw_def plain_digest_def)
  from l e bcrypt_truncation [OF l e] show ?thesis by simp
qed

text \<open>
  C22. Below the limit the spec's claim holds: for an injective digest and a password
  shorter than 72 characters, \<open>authenticate(p + 'x')\<close> is false.
\<close>

theorem bcrypt_short_extension_rejected:
  assumes "digest_inj dg" and "length p < bcrypt_max_pw"
    and "user_setattr (bcrypt_model dg) u (Set_password_hash salt p) = Inr u'"
  shows "authenticate (bcrypt_model dg) u' (p @ ''x'') = Inr False"
proof -
  from assms(3) have s: "length salt = bcrypt_salt_len"
    and u': "u' = u\<lparr>u_password_hash := Some (salt @ dg salt (take bcrypt_max_pw p))\<rparr>"
    by (simp_all add: bcrypt_set_password)
  from assms(2) have "take bcrypt_max_pw (p @ ''x'') \<noteq> take bcrypt_max_pw p" by simp
  with assms(1) have "dg salt (take bcrypt_max_pw (p @ ''x'')) \<noteq> dg salt (take bcrypt_max_pw p)"
    unfolding digest_inj_def by blast
  with s u' show ?thesis by (simp add: bcrypt_authenticate)
qed

theorem bcrypt_short_extension_rejected_witness:
  "digest_inj plain_digest \<and> length ''hunter2'' < bcrypt_max_pw \<and>
   user_setattr (bcrypt_model plain_digest) new_user (Set_password_hash test_salt ''hunter2'') =
     Inr (new_user\<lparr>u_password_hash := Some (test_salt @ ''hunter2'')\<rparr>) \<and>
   authenticate (bcrypt_model plain_digest) (new_user\<lparr>u_password_hash := Some (test_salt @ ''hunter2'')\<rparr>)
     ''hunter2x'' = Inr False"
proof -
  have d: "digest_inj plain_digest" by (simp add: digest_inj_def plain_digest_def)
  have l: "length ''hunter2'' < bcrypt_max_pw" by (simp add: bcrypt_max_pw_def)
  have e: "user_setattr (bcrypt_model plain_digest) new_user (Set_password_hash test_salt ''hunter2'') =
     Inr (new_user\<lparr>u_password_hash := Some (test_salt @ ''hunter2'')\<rparr>)"
    by (simp add: bcrypt_set_password_ok bcrypt_max_pw_def plain_digest_def)
  from d l e bcrypt_short_extension_rejected [OF d l e] show ?thesis by simp
qed

text \<open>
  C24. Setting a password through the store: when the request \<open>user.password_hash = p\<close>
  on the stored user \<open>k\<close> commits, the row stored under \<open>k\<close> carries the new hash, and
  \<open>authenticate(q)\<close> on it answers whether \<open>p\<close> and \<open>q\<close> agree on what the hasher keeps.
\<close>

theorem stored_password_authenticates:
  assumes H: "sound_hasher H key" and r: "store_reachable H d"
    and step: "store_step H d (UpdateUser k (Set_password_hash s p)) = Inr d'"
  shows "\<exists>u'. map_of (users d') k = Some u' \<and> (\<forall>q. authenticate H u' q = Inr (key p = key q))"
proof -
  from step obtain u u' where u: "map_of (users d) k = Some u"
    and set: "password_hash_set H s u p = Inr u'" and upd: "update_user_row d k u' = Inr d'"
    by (auto simp: then_do_eq_Inr split: option.splits)
  from set obtain h where h: "gen_hash H s p = Inr h" and u': "u' = u\<lparr>u_password_hash := Some h\<rparr>"
    by (auto simp: password_hash_set_def then_do_eq_Inr)
  from store_reachable_inv [OF r] u have "u_id u = Some k" by (rule stored_user_key)
  with upd u' have "map_of (users d') k = Some u'" by (auto simp: update_user_row_Inr update_conv')
  moreover have "authenticate H u' q = Inr (key p = key q)" for q
    using sound_hasherD [OF H h] by (simp add: u' authenticate_def)
  ultimately show ?thesis by blast
qed

theorem stored_password_authenticates_witness:
  "sound_hasher test_bcrypt (take bcrypt_max_pw) \<and>
   store_reachable test_bcrypt (store_run test_bcrypt empty_db [CreateUser [Set_username (Some ''chef1'')]]) \<and>
   store_step test_bcrypt (store_run test_bcrypt empty_db [CreateUser [Set_username (Some ''chef1'')]])
       (UpdateUser 1 (Set_password_hash test_salt ''hunter2'')) =
     Inr \<lparr>users = [(1, new_user\<lparr>u_id := Some 1, username := Some ''chef1'',
                                 u_password_hash := Some (test_salt @ ''hunter2'')\<rparr>)], recipes = []\<rparr> \<and>
   authenticate test_bcrypt (new_user\<lparr>u_id := Some 1, username := Some ''chef1'',
                                 u_password_hash := Some (test_salt @ ''hunter2'')\<rparr>) ''hunter2'' = Inr True"
proof -
  have H: "sound_hasher test_bcrypt (take bcrypt_max_pw)" by (rule test_bcrypt_sound)
  have r: "store_reachable test_bcrypt (store_run test_bcrypt empty_db [CreateUser [Set_username (Some ''chef1'')]])"
    by (rule store_run_reachable [OF store_reachable.start])
  have step: "store_step test_bcrypt (store_run test_bcrypt empty_db [CreateUser [Set_username (Some ''chef1'')]])
       (UpdateUser 1 (Set_password_hash test_salt ''hunter2'')) =
     Inr \<lparr>users = [(1, new_user\<lparr>u_id := Some 1, username := Some ''chef1'',
                                 u_password_hash := Some (test_salt @ ''hunter2'')\<rparr>)], recipes = []\<rparr>"
    by (simp add: store_eval bcrypt_max_pw_def new_user_def)
  from stored_password_authenticates [OF H r step] H r step show ?thesis
    by (auto simp: bcrypt_max_pw_def)
qed

section \<open>Deletion through the store\<close>

text \<open>
  C25. After its owner is deleted, a recipe stays in the store with \<open>user_id = None\<close>, and
  its \<open>to_dict\<close> holds \<open>None\<close> under \<open>user\<close>.
\<close>

theorem orphaned_recipe_dict:
  assumes "delete_user d k = Inr d'" and "(j, r) \<in> set (recipes d)" and "user_id r = Some k"
  shows "(j, r\<lparr>user_id := None\<rparr>) \<in> set (recipes d') \<and>
         dict_get (stored_recipe_dict d' (r\<lparr>user_id := None\<rparr>)) ''user'' = Some PNone"
proof -
  from assms(1) have "recipes d' = map (\<lambda>(j, r). (j, nullify_owner k r)) (recipes d)"
    by (auto simp: delete_user_def split: option.splits)
  with assms(2,3) have "(j, r\<lparr>user_id := None\<rparr>) \<in> set (recipes d')"
    by (force simp: nullify_owner_def)
  then show ?thesis
    by (simp add: stored_recipe_dict_def recipe_owner_def recipe_to_dict_def)
qed

theorem orphaned_recipe_dict_witness:
  "delete_user (store_run test_bcrypt empty_db chef_ops) 1 =
     Inr \<lparr>users = [], recipes = [(1, new_recipe\<lparr>r_id := Some 1, title := Some ''Soup'',
                                 instructions := Some (replicate 50 CHR ''x''),
                                 minutes_to_complete := Some 30, user_id := None\<rparr>)]\<rparr> \<and>
   dict_get (stored_recipe_dict \<lparr>users = [], recipes = [(1, new_recipe\<lparr>r_id := Some 1, title := Some ''Soup'',
                                 instructions := Some (replicate 50 CHR ''x''),
                                 minutes_to_complete := Some 30, user_id := None\<rparr>)]\<rparr>
       (new_recipe\<lparr>r_id := Some 1, title := Some ''Soup'', instructions := Some (replicate 50 CHR ''x''),
                   minutes_to_complete := Some 30, user_id := None\<rparr>)) ''user'' = Some PNone"
proof -
  let ?r = "new_recipe\<lparr>r_id := Some 1, title := Some ''Soup'', instructions := Some (replicate 50 CHR ''x''),
                   minutes_to_complete := Some 30, user_id := Some 1\<rparr>"
  have del: "delete_user (store_run test_bcrypt empty_db chef_ops) 1 =
     Inr \<lparr>users = [], recipes = [(1, ?r\<lparr>user_id := None\<rparr>)]\<rparr>"
    by (simp add: chef_ops_run delete_user_def nullify_owner_def)
  have m: "(1, ?r) \<in> set (recipes (store_run test_bcrypt empty_db chef_ops))"
    by (simp add: chef_ops_run)
  have o: "user_id ?r = Some 1" by simp
  from del orphaned_recipe_dict [OF del m o] show ?thesis by simp
qed

end
